theory Spec2Isabelle
  imports Complex_Main "HOL-Library.Word"
begin

section \<open>Single-precision floating point, as the callback uses it\<close>

text \<open>
  The fields of a \<open>LaserScan\<close> and the locals of \<open>scanCallback\<close> are C++ \<open>float\<close>:
  IEEE 754 binary32, round to nearest, ties to even. A value is a sign bit with a
  magnitude (\<open>Finite s m\<close>, \<open>s\<close> set for a negative number, so both zeros exist), an
  infinity, or a NaN. Arithmetic computes the exact real result and rounds it. The type
  also has magnitudes that no \<open>float\<close> has; every operation rounds what it returns, and
  the theorems below hold for all values of the type.
\<close>

datatype f32 = Finite bool real | Inf bool | NaN

text \<open>
  The exponent of the binade of a magnitude: the largest \<open>e\<close> in \<open>-126 .. 127\<close> with
  \<open>2 ^ e \<le> m\<close>, and \<open>-126\<close> for the subnormal magnitudes below all of them.
\<close>

fun find_exp :: "real \<Rightarrow> nat \<Rightarrow> int" where
  "find_exp m 0 = -126"
| "find_exp m (Suc n) =
     (if 2 powi (int (Suc n) - 126) \<le> m then int (Suc n) - 126 else find_exp m n)"

definition binade :: "real \<Rightarrow> int" where
  "binade m = find_exp m 253"

definition round_even :: "real \<Rightarrow> int" where
  "round_even x =
     (let f = \<lfloor>x\<rfloor>; d = x - of_int f
      in if d < 1/2 then f else if 1/2 < d then f + 1 else if even f then f else f + 1)"

text \<open>A magnitude rounded to 24 significant bits in its binade.\<close>

definition round_mag :: "real \<Rightarrow> real" where
  "round_mag m = (let u = 2 powi (binade m - 23) in of_int (round_even (m / u)) * u)"

definition rnd :: "bool \<Rightarrow> real \<Rightarrow> f32" where
  "rnd s m = (let r = round_mag m in if 2 ^ 128 \<le> r then Inf s else Finite s r)"

definition with_sign :: "bool \<Rightarrow> real \<Rightarrow> real" where
  "with_sign s m = (if s then - m else m)"

fun fneg :: "f32 \<Rightarrow> f32" where
  "fneg (Finite s m) = Finite (\<not> s) m"
| "fneg (Inf s) = Inf (\<not> s)"
| "fneg NaN = NaN"

fun fadd :: "f32 \<Rightarrow> f32 \<Rightarrow> f32" where
  "fadd (Finite s a) (Finite t b) =
     (let v = with_sign s a + with_sign t b
      in if v = 0 then Finite (s \<and> t) 0 else rnd (v < 0) \<bar>v\<bar>)"
| "fadd (Finite s a) (Inf t) = Inf t"
| "fadd (Inf s) (Finite t b) = Inf s"
| "fadd (Inf s) (Inf t) = (if s = t then Inf s else NaN)"
| "fadd NaN b = NaN"
| "fadd a NaN = NaN"

definition fsub :: "f32 \<Rightarrow> f32 \<Rightarrow> f32" where
  "fsub a b = fadd a (fneg b)"

fun fmul :: "f32 \<Rightarrow> f32 \<Rightarrow> f32" where
  "fmul (Finite s a) (Finite t b) = rnd (s \<noteq> t) (a * b)"
| "fmul (Finite s a) (Inf t) = (if a = 0 then NaN else Inf (s \<noteq> t))"
| "fmul (Inf s) (Finite t b) = (if b = 0 then NaN else Inf (s \<noteq> t))"
| "fmul (Inf s) (Inf t) = Inf (s \<noteq> t)"
| "fmul NaN b = NaN"
| "fmul a NaN = NaN"

text \<open>Division by a zero gives an infinity or a NaN; nothing traps.\<close>

fun fdiv :: "f32 \<Rightarrow> f32 \<Rightarrow> f32" where
  "fdiv (Finite s a) (Finite t b) =
     (if b = 0 then (if a = 0 then NaN else Inf (s \<noteq> t)) else rnd (s \<noteq> t) (a / b))"
| "fdiv (Finite s a) (Inf t) = Finite (s \<noteq> t) 0"
| "fdiv (Inf s) (Finite t b) = Inf (s \<noteq> t)"
| "fdiv (Inf s) (Inf t) = NaN"
| "fdiv NaN b = NaN"
| "fdiv a NaN = NaN"

text \<open>The comparisons \<open><\<close> and \<open>>\<close>: false as soon as an operand is a NaN.\<close>

fun flt :: "f32 \<Rightarrow> f32 \<Rightarrow> bool" where
  "flt (Finite s a) (Finite t b) = (with_sign s a < with_sign t b)"
| "flt (Finite s a) (Inf t) = (\<not> t)"
| "flt (Inf s) (Finite t b) = s"
| "flt (Inf s) (Inf t) = (s \<and> \<not> t)"
| "flt NaN b = False"
| "flt a NaN = False"

definition fgt :: "f32 \<Rightarrow> f32 \<Rightarrow> bool" where
  "fgt a b = flt b a"

fun isnan :: "f32 \<Rightarrow> bool" where
  "isnan NaN = True"
| "isnan (Finite s m) = False"
| "isnan (Inf s) = False"

text \<open>The conversion of an \<open>int\<close> operand to \<open>float\<close>.\<close>

definition i2f :: "int \<Rightarrow> f32" where
  "i2f i = rnd (i < 0) \<bar>of_int i\<bar>"

text \<open>
  \<open>static_cast<int>\<close> of a \<open>float\<close> drops the fraction. When the result is no value of
  the 32-bit \<open>int\<close> (an infinity, a NaN, a number beyond the range) the behaviour is
  undefined: \<open>None\<close>.
\<close>

definition trunc :: "real \<Rightarrow> int" where
  "trunc v = (if 0 \<le> v then \<lfloor>v\<rfloor> else \<lceil>v\<rceil>)"

fun f2i :: "f32 \<Rightarrow> int option" where
  "f2i (Finite s m) =
     (let t = trunc (with_sign s m)
      in if - (2 ^ 31) \<le> t \<and> t < 2 ^ 31 then Some t else None)"
| "f2i (Inf s) = None"
| "f2i NaN = None"

text \<open>
  \<open>cos\<close> and \<open>sin\<close>, applied to a \<open>float\<close>, are the \<open>float\<close> overloads of the C library, whose
  results are not fixed to the last bit; the callback is modelled over any pair of them.
\<close>

record libm =
  cos_f32 :: "f32 \<Rightarrow> f32"
  sin_f32 :: "f32 \<Rightarrow> f32"

text \<open>One such library: every result correctly rounded, \<open>sin\<close> keeping the sign of a zero.\<close>

definition cr_cos :: "f32 \<Rightarrow> f32" where
  "cr_cos a =
     (case a of Finite s m \<Rightarrow> (let c = cos (with_sign s m) in rnd (c < 0) \<bar>c\<bar>) | Inf s \<Rightarrow> NaN | NaN \<Rightarrow> NaN)"

definition cr_sin :: "f32 \<Rightarrow> f32" where
  "cr_sin a =
     (case a of
        Finite s m \<Rightarrow>
          (if m = 0 then Finite s 0 else (let v = sin (with_sign s m) in rnd (v < 0) \<bar>v\<bar>))
      | Inf s \<Rightarrow> NaN
      | NaN \<Rightarrow> NaN)"

definition cr_libm :: libm where
  "cr_libm = \<lparr>cos_f32 = cr_cos, sin_f32 = cr_sin\<rparr>"

section \<open>Messages, images and the node\<close>

record LaserScan =
  frame_id :: string
  angle_min :: f32
  angle_max :: f32
  angle_increment :: f32
  time_increment :: f32
  scan_time :: f32
  range_min :: f32
  range_max :: f32
  ranges :: "f32 list"

datatype Point = Point (pt_x: int) (pt_y: int)

datatype Scalar = Scalar int int int

text \<open>
  An image is what OpenCV was asked to make of it: the size and fill colour of
  \<open>cv::Mat(rows, cols, CV_8UC3, fill)\<close>, then the drawing calls in the order they were made
  (end points or centre, radius, colour, thickness).
\<close>

datatype drawing = Line Point Point Scalar int | Circle Point int Scalar int

record Mat =
  rows :: int
  cols :: int
  fill :: Scalar
  drawn :: "drawing list"

definition cv_line :: "Point \<Rightarrow> Point \<Rightarrow> Scalar \<Rightarrow> int \<Rightarrow> Mat \<Rightarrow> Mat" where
  "cv_line p q colour thickness img = img\<lparr>drawn := drawn img @ [Line p q colour thickness]\<rparr>"

definition cv_circle :: "Point \<Rightarrow> int \<Rightarrow> Scalar \<Rightarrow> int \<Rightarrow> Mat \<Rightarrow> Mat" where
  "cv_circle c radius colour thickness img =
     img\<lparr>drawn := drawn img @ [Circle c radius colour thickness]\<rparr>"

text \<open>The logging calls, with their arguments (angles before \<open>RAD2DEG\<close>).\<close>

datatype log_event =
    Warn string
  | Info_heard string int
  | Info_angle_range f32 f32
  | Debug_angle_distance f32 f32

datatype error = Undefined_float_to_int | Out_of_bounds_read int

text \<open>
  The members of the node (\<open>img_size_\<close>, \<open>meter_per_pixel_\<close>, \<open>center_\<close>, written without the
  final underscore), and what it has sent out so far: the frames given to \<open>cv::imshow\<close>,
  the frames given to \<open>video_writer_.write\<close>, the logging calls. \<open>writer_opened\<close> is
  \<open>video_writer_.isOpened()\<close>.
\<close>

record LidarVisualizer =
  img_size :: int
  meter_per_pixel :: f32
  center :: Point
  writer_opened :: bool
  written :: "Mat list"
  shown :: "Mat list"
  logged :: "log_event list"

text \<open>The \<open>double\<close> literal \<open>0.02\<close>, which the constructor narrows to \<open>float\<close>.\<close>

definition double_0_02 :: real where
  "double_0_02 = 5764607523034235 / 2 ^ 58"

text \<open>
  The constructor. Whether \<open>video_writer_.open\<close> succeeds is up to the system, hence the
  argument.
\<close>

definition new_LidarVisualizer :: "bool \<Rightarrow> LidarVisualizer" where
  "new_LidarVisualizer open_ok =
     \<lparr>img_size = 500,
      meter_per_pixel = rnd False double_0_02,
      center = Point (500 div 2) (500 div 2),
      writer_opened = open_ok,
      written = [],
      shown = [],
      logged = (if \<not> open_ok
                then [Warn ''Failed to open video writer, video will not be saved.'']
                else [])\<rparr>"

section \<open>The callback\<close>

text \<open>\<open>count = scan->ranges.size()\<close> narrows a \<open>size_t\<close> to the 32-bit \<open>int\<close>.\<close>

definition size_to_int :: "nat \<Rightarrow> int" where
  "size_to_int n = sint (word_of_nat n :: 32 word)"

definition sample_count :: "LaserScan \<Rightarrow> error + int" where
  "sample_count scan =
     (case f2i (fdiv (scan_time scan) (time_increment scan)) of
        None \<Rightarrow> Inl Undefined_float_to_int
      | Some count \<Rightarrow> Inr (if count \<le> 0 then size_to_int (length (ranges scan)) else count))"

definition white_image :: "LidarVisualizer \<Rightarrow> Mat" where
  "white_image node =
     \<lparr>rows = img_size node, cols = img_size node, fill = Scalar 255 255 255, drawn = []\<rparr>"

definition crosshair :: "LidarVisualizer \<Rightarrow> Mat \<Rightarrow> Mat" where
  "crosshair node img =
     (let c = center node
      in cv_line (Point (pt_x c) (pt_y c - 5)) (Point (pt_x c) (pt_y c + 5)) (Scalar 0 0 0) 2
           (cv_line (Point (pt_x c - 5) (pt_y c)) (Point (pt_x c + 5) (pt_y c)) (Scalar 0 0 0) 2
              img))"

text \<open>
  \<open>angle_min + i * angle_increment\<close>, as a product and a sum that are each rounded.
\<close>

definition sample_angle :: "LaserScan \<Rightarrow> int \<Rightarrow> f32" where
  "sample_angle scan i = fadd (angle_min scan) (fmul (i2f i) (angle_increment scan))"

definition range_rejected :: "LaserScan \<Rightarrow> f32 \<Rightarrow> bool" where
  "range_rejected scan rng =
     (flt rng (range_min scan) \<or> fgt rng (range_max scan) \<or> isnan rng)"

text \<open>Polar to Cartesian, the quarter turn, metres to pixels.\<close>

definition to_pixel :: "libm \<Rightarrow> LidarVisualizer \<Rightarrow> f32 \<Rightarrow> f32 \<Rightarrow> error + Point" where
  "to_pixel lm node angle rng =
     (let x = fmul rng (cos_f32 lm angle);
          y = fmul rng (sin_f32 lm angle);
          x_rot = y;
          y_rot = fneg x
      in case f2i (fadd (i2f (pt_x (center node))) (fdiv x_rot (meter_per_pixel node))) of
           None \<Rightarrow> Inl Undefined_float_to_int
         | Some px \<Rightarrow>
             (case f2i (fsub (i2f (pt_y (center node))) (fdiv y_rot (meter_per_pixel node))) of
                None \<Rightarrow> Inl Undefined_float_to_int
              | Some py \<Rightarrow> Inr (Point px py)))"

definition in_image :: "LidarVisualizer \<Rightarrow> Point \<Rightarrow> bool" where
  "in_image node p =
     (pt_x p \<ge> 0 \<and> pt_x p < img_size node \<and> pt_y p \<ge> 0 \<and> pt_y p < img_size node)"

definition draw_point :: "LidarVisualizer \<Rightarrow> Point \<Rightarrow> Mat \<Rightarrow> Mat" where
  "draw_point node p img =
     (if in_image node p then cv_circle p 2 (Scalar 0 0 255) (- 1) img else img)"

text \<open>
  One turn of the \<open>for\<close> loop, on the image and the log (\<open>rng\<close> is the local \<open>range\<close>).
  \<open>scan->ranges[i]\<close> is unchecked: past the end of the vector the read is undefined.
\<close>

definition loop_body ::
  "libm \<Rightarrow> LidarVisualizer \<Rightarrow> LaserScan \<Rightarrow> int \<Rightarrow> Mat \<times> log_event list
     \<Rightarrow> error + Mat \<times> log_event list" where
  "loop_body lm node scan i st =
     (let angle = sample_angle scan i
      in if \<not> nat i < length (ranges scan) then Inl (Out_of_bounds_read i)
         else
           (let rng = ranges scan ! nat i;
                lg = snd st @ [Debug_angle_distance angle rng]
            in if range_rejected scan rng then Inr (fst st, lg)
               else
                 (case to_pixel lm node angle rng of
                    Inl e \<Rightarrow> Inl e
                  | Inr p \<Rightarrow> Inr (draw_point node p (fst st), lg))))"

function render_loop ::
  "libm \<Rightarrow> LidarVisualizer \<Rightarrow> LaserScan \<Rightarrow> int \<Rightarrow> int \<Rightarrow> Mat \<times> log_event list
     \<Rightarrow> error + Mat \<times> log_event list" where
  "render_loop lm node scan count i st =
     (if i < count
      then (case loop_body lm node scan i st of
              Inl e \<Rightarrow> Inl e
            | Inr st' \<Rightarrow> render_loop lm node scan count (i + 1) st')
      else Inr st)"
  by pat_completeness auto
termination
  by (relation "measure (\<lambda>(lm, node, scan, count, i, st). nat (count - i))") auto

declare render_loop.simps [simp del]

definition scanCallback :: "libm \<Rightarrow> LidarVisualizer \<Rightarrow> LaserScan \<Rightarrow> error + LidarVisualizer" where
  "scanCallback lm node scan =
     (case sample_count scan of
        Inl e \<Rightarrow> Inl e
      | Inr count \<Rightarrow>
          (let lg = logged node @
                      [Info_heard (frame_id scan) count,
                       Info_angle_range (angle_min scan) (angle_max scan)];
               img = crosshair node (white_image node)
           in case render_loop lm node scan count 0 (img, lg) of
                Inl e \<Rightarrow> Inl e
              | Inr (img', lg') \<Rightarrow>
                  Inr (node\<lparr>shown := shown node @ [img'],
                            written := (if writer_opened node then written node @ [img']
                                        else written node),
                            logged := lg'\<rparr>)))"

text \<open>\<open>rclcpp::spin\<close> hands the messages to the callback one after the other.\<close>

fun spin :: "libm \<Rightarrow> LidarVisualizer \<Rightarrow> LaserScan list \<Rightarrow> error + LidarVisualizer" where
  "spin lm node [] = Inr node"
| "spin lm node (scan # scans) =
     (case scanCallback lm node scan of
        Inl e \<Rightarrow> Inl e
      | Inr node' \<Rightarrow> spin lm node' scans)"

section \<open>The count on x86-64\<close>

text \<open>
  Where \<open>static_cast<int>\<close> is undefined, C++ gives the program no meaning, but a build
  still computes something. On x86-64 the conversion of a \<open>float\<close> to \<open>int\<close> is the
  instruction \<open>cvttss2si\<close>: the truncation when that is a value of \<open>int\<close>, and the value
  \<open>-2^31\<close> for an infinity, a NaN and every number out of range. \<open>sample_count_x86_64\<close> is
  the count of \<open>scanCallback\<close> with this conversion.
\<close>

definition cvttss2si :: "f32 \<Rightarrow> int" where
  "cvttss2si a = (case f2i a of Some t \<Rightarrow> t | None \<Rightarrow> - (2 ^ 31))"

definition sample_count_x86_64 :: "LaserScan \<Rightarrow> int" where
  "sample_count_x86_64 scan =
     (let count = cvttss2si (fdiv (scan_time scan) (time_increment scan))
      in if count \<le> 0 then size_to_int (length (ranges scan)) else count)"

section \<open>Notions for stating the properties\<close>

text \<open>
  Two nodes with the same view configuration; the \<open>RCLCPP_DEBUG\<close> calls of samples
  \<open>i\<close> up to \<open>j\<close>; warnings; the markers of the loop; the node after one callback that
  drew \<open>img\<close>; what an observer of the window sees of a run.
\<close>

definition same_view :: "LidarVisualizer \<Rightarrow> LidarVisualizer \<Rightarrow> bool" where
  "same_view n1 n2 =
     (img_size n1 = img_size n2 \<and> meter_per_pixel n1 = meter_per_pixel n2 \<and> center n1 = center n2)"

definition debug_events :: "LaserScan \<Rightarrow> nat \<Rightarrow> nat \<Rightarrow> log_event list" where
  "debug_events scan i j =
     map (\<lambda>k. Debug_angle_distance (sample_angle scan (int k)) (ranges scan ! k)) [i..<j]"

fun is_warn :: "log_event \<Rightarrow> bool" where
  "is_warn (Warn text) = True"
| "is_warn (Info_heard name count) = False"
| "is_warn (Info_angle_range lo hi) = False"
| "is_warn (Debug_angle_distance angle rng) = False"

definition with_log ::
  "error + Mat \<Rightarrow> log_event list \<Rightarrow> error + Mat \<times> log_event list" where
  "with_log res lg = (case res of Inl e \<Rightarrow> Inl e | Inr img \<Rightarrow> Inr (img, lg))"

fun is_marker :: "LidarVisualizer \<Rightarrow> drawing \<Rightarrow> bool" where
  "is_marker node (Circle p radius colour thickness) =
     (radius = 2 \<and> colour = Scalar 0 0 255 \<and> thickness = - 1 \<and> in_image node p)"
| "is_marker node (Line p q colour thickness) = False"

definition deliver :: "LidarVisualizer \<Rightarrow> LaserScan \<Rightarrow> int \<Rightarrow> Mat \<Rightarrow> LidarVisualizer" where
  "deliver node scan count img =
     node\<lparr>shown := shown node @ [img],
          written := (if writer_opened node then written node @ [img] else written node),
          logged := logged node @
            [Info_heard (frame_id scan) count,
             Info_angle_range (angle_min scan) (angle_max scan)] @
            debug_events scan 0 (nat count)\<rparr>"

definition outcome :: "error + LidarVisualizer \<Rightarrow> error + Mat list" where
  "outcome res = (case res of Inl e \<Rightarrow> Inl e | Inr node \<Rightarrow> Inr (shown node))"

section \<open>Example messages\<close>

text \<open>
  \<open>scan_two\<close>: two samples straight ahead, the second a NaN, and timing fields that give no
  count. \<open>scan_short\<close>: timing fields that announce two samples, one range.
  \<open>scan_stalled\<close>: a time increment of zero. \<open>scan_far\<close>: ranges outside the sensor's limits.
  \<open>frame_two\<close> is the frame of \<open>scan_two\<close>; \<open>node_one\<close> and \<open>node_two\<close> are the node after one
  and two such messages when the video writer did not open.
\<close>

definition scan_two :: LaserScan where
  "scan_two =
     \<lparr>frame_id = ''laser'', angle_min = Finite False 0, angle_max = Finite True 1,
      angle_increment = Finite False 0, time_increment = Finite False 1,
      scan_time = Finite False 0, range_min = Finite False (1/2), range_max = Finite False 10,
      ranges = [Finite False 1, NaN]\<rparr>"

definition frame_two :: Mat where
  "frame_two =
     \<lparr>rows = 500, cols = 500, fill = Scalar 255 255 255,
      drawn = [Line (Point 245 250) (Point 255 250) (Scalar 0 0 0) 2,
               Line (Point 250 245) (Point 250 255) (Scalar 0 0 0) 2,
               Circle (Point 250 300) 2 (Scalar 0 0 255) (- 1)]\<rparr>"

definition scan_short :: LaserScan where
  "scan_short = scan_two\<lparr>scan_time := Finite False 2, ranges := [Finite False 1]\<rparr>"

definition scan_stalled :: LaserScan where
  "scan_stalled = scan_two\<lparr>scan_time := Finite False 1, time_increment := Finite False 0\<rparr>"

definition scan_far :: LaserScan where
  "scan_far = scan_two\<lparr>ranges := [Finite False (1/4), Finite False 20]\<rparr>"

definition node_one :: LidarVisualizer where
  "node_one = deliver (new_LidarVisualizer False) scan_two 2 frame_two"

definition node_two :: LidarVisualizer where
  "node_two = deliver node_one scan_two 2 frame_two"

text \<open>
  \<open>scan_huge\<close>: \<open>scan_two\<close> with \<open>2^31\<close> ranges, one more than an \<open>int\<close> can count.
  \<open>scan_huge_stalled\<close>: the same with a time increment of zero. \<open>scan_fast\<close>: timing fields
  whose quotient is \<open>2^31\<close>. \<open>scan_sweep\<close>: an angular sweep from 0 to 0.5 radians in steps
  of one radian, so that the second of its two samples, at one radian, lies beyond
  \<open>angle_max\<close>; \<open>frame_sweep\<close> is its frame.
\<close>

definition scan_huge :: LaserScan where
  "scan_huge = scan_two\<lparr>ranges := replicate (2 ^ 31) NaN\<rparr>"

definition scan_huge_stalled :: LaserScan where
  "scan_huge_stalled = scan_stalled\<lparr>ranges := replicate (2 ^ 31) NaN\<rparr>"

definition scan_fast :: LaserScan where
  "scan_fast = scan_two\<lparr>scan_time := Finite False (2 ^ 31)\<rparr>"

definition scan_sweep :: LaserScan where
  "scan_sweep =
     \<lparr>frame_id = ''laser'', angle_min = Finite False 0, angle_max = Finite False (1/2),
      angle_increment = Finite False 1, time_increment = Finite False 1,
      scan_time = Finite False 0, range_min = Finite False (1/2), range_max = Finite False 10,
      ranges = [Finite False 1, Finite False (3/2)]\<rparr>"

definition frame_sweep :: Mat where
  "frame_sweep =
     \<lparr>rows = 500, cols = 500, fill = Scalar 255 255 255,
      drawn = [Line (Point 245 250) (Point 255 250) (Scalar 0 0 0) 2,
               Line (Point 250 245) (Point 250 255) (Scalar 0 0 0) 2,
               Circle (Point 250 300) 2 (Scalar 0 0 255) (- 1),
               Circle (Point 313 290) 2 (Scalar 0 0 255) (- 1)]\<rparr>"

section \<open>Rounding certificates\<close>

text \<open>
  \<open>grid e n\<close> is the number with significand \<open>n\<close> in the binade of exponent \<open>e\<close>.
  \<open>near_ok m e n\<close> checks, by comparisons alone, that the magnitude \<open>m\<close> lies in that binade
  and that \<open>n\<close> is the integer nearest to its scaled value, the even one at a tie: then \<open>m\<close>
  rounds to \<open>grid e n\<close>. A \<open>cert\<close> holds such a pair for each of the four roundings between
  the range \<open>meter_per_pixel_ * k\<close> and the row of its pixel (the product, the product times
  \<open>cos 0\<close>, the quotient by \<open>meter_per_pixel_\<close>, the sum with \<open>center_.y\<close>), and \<open>chain_ok k py\<close>
  checks them against the row \<open>py\<close>. The lists \<open>certs_1\<close>, \<open>certs_2\<close>, \<open>\<dots>\<close> hold one
  certificate for each \<open>k\<close> from 1 to 1602, in order.
\<close>

datatype cert = Cert int int int int int int int int

definition grid :: "int \<Rightarrow> int \<Rightarrow> real" where
  "grid e n = of_int n * 2 powi (e - 23)"

definition near_ok :: "real \<Rightarrow> int \<Rightarrow> int \<Rightarrow> bool" where
  "near_ok m e n =
     (2 powi e \<le> m \<and> m < 2 powi (e + 1) \<and> - 126 \<le> e \<and> e \<le> 127 \<and> grid e n < 2 ^ 128 \<and>
      (\<bar>m / 2 powi (e - 23) - of_int n\<bar> < 1/2 \<or>
       \<bar>m / 2 powi (e - 23) - of_int n\<bar> = 1/2 \<and> even n))"

fun chain_ok :: "int \<Rightarrow> int \<Rightarrow> cert \<Rightarrow> bool" where
  "chain_ok k py (Cert e1 n1 e2 n2 e3 n3 e4 n4) =
     (near_ok (5368709 / 268435456 * of_int k) e1 n1 \<and>
      near_ok (grid e1 n1) e2 n2 \<and> grid e2 n2 = grid e1 n1 \<and>
      near_ok (grid e1 n1 / (5368709 / 268435456)) e3 n3 \<and>
      near_ok (250 + grid e3 n3) e4 n4 \<and> \<lfloor>grid e4 n4\<rfloor> = py \<and> py < 2 ^ 31)"

fun rows_ok :: "int \<Rightarrow> cert list \<Rightarrow> bool" where
  "rows_ok k [] = True"
| "rows_ok k (c # cs) = (chain_ok k (250 + k) c \<and> rows_ok (k + 1) cs)"

definition certs_1 :: "cert list" where
  "certs_1 =
     [Cert (- 6) 10737418 (- 6) 10737418 0 8388608 7 16449536,
      Cert (- 5) 10737418 (- 5) 10737418 1 8388608 7 16515072,
      Cert (- 5) 16106127 (- 5) 16106127 1 12582912 7 16580608,
      Cert (- 4) 10737418 (- 4) 10737418 2 8388608 7 16646144,
      Cert (- 4) 13421772 (- 4) 13421772 2 10485760 7 16711680,
      Cert (- 4) 16106127 (- 4) 16106127 2 12582912 8 8388608,
      Cert (- 3) 9395241 (- 3) 9395241 2 14680064 8 8421376,
      Cert (- 3) 10737418 (- 3) 10737418 3 8388608 8 8454144,
      Cert (- 3) 12079595 (- 3) 12079595 3 9437184 8 8486912,
      Cert (- 3) 13421772 (- 3) 13421772 3 10485760 8 8519680,
      Cert (- 3) 14763950 (- 3) 14763950 3 11534336 8 8552448,
      Cert (- 3) 16106127 (- 3) 16106127 3 12582912 8 8585216,
      Cert (- 2) 8724152 (- 2) 8724152 3 13631488 8 8617984,
      Cert (- 2) 9395241 (- 2) 9395241 3 14680064 8 8650752,
      Cert (- 2) 10066329 (- 2) 10066329 3 15728639 8 8683520,
      Cert (- 2) 10737418 (- 2) 10737418 4 8388608 8 8716288,
      Cert (- 2) 11408507 (- 2) 11408507 4 8912896 8 8749056,
      Cert (- 2) 12079595 (- 2) 12079595 4 9437184 8 8781824,
      Cert (- 2) 12750684 (- 2) 12750684 4 9961472 8 8814592,
      Cert (- 2) 13421772 (- 2) 13421772 4 10485760 8 8847360,
      Cert (- 2) 14092861 (- 2) 14092861 4 11010048 8 8880128,
      Cert (- 2) 14763950 (- 2) 14763950 4 11534336 8 8912896,
      Cert (- 2) 15435038 (- 2) 15435038 4 12058624 8 8945664,
      Cert (- 2) 16106127 (- 2) 16106127 4 12582912 8 8978432,
      Cert (- 2) 16777216 (- 1) 8388608 4 13107200 8 9011200,
      Cert (- 1) 8724152 (- 1) 8724152 4 13631488 8 9043968,
      Cert (- 1) 9059696 (- 1) 9059696 4 14155775 8 9076736,
      Cert (- 1) 9395241 (- 1) 9395241 4 14680064 8 9109504,
      Cert (- 1) 9730785 (- 1) 9730785 4 15204352 8 9142272,
      Cert (- 1) 10066329 (- 1) 10066329 4 15728639 8 9175040,
      Cert (- 1) 10401874 (- 1) 10401874 4 16252928 8 9207808,
      Cert (- 1) 10737418 (- 1) 10737418 5 8388608 8 9240576,
      Cert (- 1) 11072962 (- 1) 11072962 5 8650752 8 9273344,
      Cert (- 1) 11408507 (- 1) 11408507 5 8912896 8 9306112,
      Cert (- 1) 11744051 (- 1) 11744051 5 9175040 8 9338880,
      Cert (- 1) 12079595 (- 1) 12079595 5 9437184 8 9371648,
      Cert (- 1) 12415140 (- 1) 12415140 5 9699328 8 9404416,
      Cert (- 1) 12750684 (- 1) 12750684 5 9961472 8 9437184,
      Cert (- 1) 13086228 (- 1) 13086228 5 10223616 8 9469952,
      Cert (- 1) 13421772 (- 1) 13421772 5 10485760 8 9502720,
      Cert (- 1) 13757317 (- 1) 13757317 5 10747904 8 9535488,
      Cert (- 1) 14092861 (- 1) 14092861 5 11010048 8 9568256,
      Cert (- 1) 14428405 (- 1) 14428405 5 11272192 8 9601024,
      Cert (- 1) 14763950 (- 1) 14763950 5 11534336 8 9633792,
      Cert (- 1) 15099494 (- 1) 15099494 5 11796480 8 9666560,
      Cert (- 1) 15435038 (- 1) 15435038 5 12058624 8 9699328,
      Cert (- 1) 15770583 (- 1) 15770583 5 12320768 8 9732096,
      Cert (- 1) 16106127 (- 1) 16106127 5 12582912 8 9764864,
      Cert (- 1) 16441671 (- 1) 16441671 5 12845056 8 9797632,
      Cert (- 1) 16777216 0 8388608 5 13107200 8 9830400,
      Cert 0 8556380 0 8556380 5 13369344 8 9863168,
      Cert 0 8724152 0 8724152 5 13631488 8 9895936,
      Cert 0 8891924 0 8891924 5 13893632 8 9928704,
      Cert 0 9059696 0 9059696 5 14155775 8 9961472,
      Cert 0 9227469 0 9227469 5 14417921 8 9994240,
      Cert 0 9395241 0 9395241 5 14680064 8 10027008,
      Cert 0 9563013 0 9563013 5 14942208 8 10059776,
      Cert 0 9730785 0 9730785 5 15204352 8 10092544,
      Cert 0 9898557 0 9898557 5 15466496 8 10125312,
      Cert 0 10066329 0 10066329 5 15728639 8 10158080,
      Cert 0 10234102 0 10234102 5 15990785 8 10190848,
      Cert 0 10401874 0 10401874 5 16252928 8 10223616,
      Cert 0 10569646 0 10569646 5 16515072 8 10256384,
      Cert 0 10737418 0 10737418 6 8388608 8 10289152,
      Cert 0 10905190 0 10905190 6 8519680 8 10321920,
      Cert 0 11072962 0 11072962 6 8650752 8 10354688,
      Cert 0 11240734 0 11240734 6 8781824 8 10387456,
      Cert 0 11408507 0 11408507 6 8912896 8 10420224,
      Cert 0 11576279 0 11576279 6 9043968 8 10452992,
      Cert 0 11744051 0 11744051 6 9175040 8 10485760,
      Cert 0 11911823 0 11911823 6 9306112 8 10518528,
      Cert 0 12079595 0 12079595 6 9437184 8 10551296,
      Cert 0 12247367 0 12247367 6 9568256 8 10584064,
      Cert 0 12415140 0 12415140 6 9699328 8 10616832,
      Cert 0 12582912 0 12582912 6 9830400 8 10649600,
      Cert 0 12750684 0 12750684 6 9961472 8 10682368,
      Cert 0 12918456 0 12918456 6 10092544 8 10715136,
      Cert 0 13086228 0 13086228 6 10223616 8 10747904,
      Cert 0 13254000 0 13254000 6 10354688 8 10780672,
      Cert 0 13421772 0 13421772 6 10485760 8 10813440,
      Cert 0 13589545 0 13589545 6 10616832 8 10846208,
      Cert 0 13757317 0 13757317 6 10747904 8 10878976,
      Cert 0 13925089 0 13925089 6 10878976 8 10911744,
      Cert 0 14092861 0 14092861 6 11010048 8 10944512,
      Cert 0 14260633 0 14260633 6 11141120 8 10977280,
      Cert 0 14428405 0 14428405 6 11272192 8 11010048,
      Cert 0 14596178 0 14596178 6 11403264 8 11042816,
      Cert 0 14763950 0 14763950 6 11534336 8 11075584,
      Cert 0 14931722 0 14931722 6 11665408 8 11108352,
      Cert 0 15099494 0 15099494 6 11796480 8 11141120,
      Cert 0 15267266 0 15267266 6 11927552 8 11173888,
      Cert 0 15435038 0 15435038 6 12058624 8 11206656,
      Cert 0 15602811 0 15602811 6 12189696 8 11239424,
      Cert 0 15770583 0 15770583 6 12320768 8 11272192,
      Cert 0 15938355 0 15938355 6 12451840 8 11304960,
      Cert 0 16106127 0 16106127 6 12582912 8 11337728,
      Cert 0 16273899 0 16273899 6 12713984 8 11370496,
      Cert 0 16441671 0 16441671 6 12845056 8 11403264,
      Cert 0 16609443 0 16609443 6 12976128 8 11436032,
      Cert 0 16777216 1 8388608 6 13107200 8 11468800]"

definition certs_2 :: "cert list" where
  "certs_2 =
     [Cert 1 8472494 1 8472494 6 13238272 8 11501568,
      Cert 1 8556380 1 8556380 6 13369344 8 11534336,
      Cert 1 8640266 1 8640266 6 13500416 8 11567104,
      Cert 1 8724152 1 8724152 6 13631488 8 11599872,
      Cert 1 8808038 1 8808038 6 13762560 8 11632640,
      Cert 1 8891924 1 8891924 6 13893632 8 11665408,
      Cert 1 8975810 1 8975810 6 14024703 8 11698176,
      Cert 1 9059696 1 9059696 6 14155775 8 11730944,
      Cert 1 9143583 1 9143583 6 14286849 8 11763712,
      Cert 1 9227469 1 9227469 6 14417921 8 11796480,
      Cert 1 9311355 1 9311355 6 14548993 8 11829248,
      Cert 1 9395241 1 9395241 6 14680064 8 11862016,
      Cert 1 9479127 1 9479127 6 14811136 8 11894784,
      Cert 1 9563013 1 9563013 6 14942208 8 11927552,
      Cert 1 9646899 1 9646899 6 15073280 8 11960320,
      Cert 1 9730785 1 9730785 6 15204352 8 11993088,
      Cert 1 9814671 1 9814671 6 15335424 8 12025856,
      Cert 1 9898557 1 9898557 6 15466496 8 12058624,
      Cert 1 9982443 1 9982443 6 15597568 8 12091392,
      Cert 1 10066329 1 10066329 6 15728639 8 12124160,
      Cert 1 10150215 1 10150215 6 15859711 8 12156928,
      Cert 1 10234102 1 10234102 6 15990785 8 12189696,
      Cert 1 10317988 1 10317988 6 16121857 8 12222464,
      Cert 1 10401874 1 10401874 6 16252928 8 12255232,
      Cert 1 10485760 1 10485760 6 16384000 8 12288000,
      Cert 1 10569646 1 10569646 6 16515072 8 12320768,
      Cert 1 10653532 1 10653532 6 16646144 8 12353536,
      Cert 1 10737418 1 10737418 7 8388608 8 12386304,
      Cert 1 10821304 1 10821304 7 8454144 8 12419072,
      Cert 1 10905190 1 10905190 7 8519680 8 12451840,
      Cert 1 10989076 1 10989076 7 8585216 8 12484608,
      Cert 1 11072962 1 11072962 7 8650752 8 12517376,
      Cert 1 11156848 1 11156848 7 8716288 8 12550144,
      Cert 1 11240734 1 11240734 7 8781824 8 12582912,
      Cert 1 11324621 1 11324621 7 8847360 8 12615680,
      Cert 1 11408507 1 11408507 7 8912896 8 12648448,
      Cert 1 11492393 1 11492393 7 8978432 8 12681216,
      Cert 1 11576279 1 11576279 7 9043968 8 12713984,
      Cert 1 11660165 1 11660165 7 9109504 8 12746752,
      Cert 1 11744051 1 11744051 7 9175040 8 12779520,
      Cert 1 11827937 1 11827937 7 9240576 8 12812288,
      Cert 1 11911823 1 11911823 7 9306112 8 12845056,
      Cert 1 11995709 1 11995709 7 9371648 8 12877824,
      Cert 1 12079595 1 12079595 7 9437184 8 12910592,
      Cert 1 12163481 1 12163481 7 9502720 8 12943360,
      Cert 1 12247367 1 12247367 7 9568256 8 12976128,
      Cert 1 12331253 1 12331253 7 9633792 8 13008896,
      Cert 1 12415140 1 12415140 7 9699328 8 13041664,
      Cert 1 12499026 1 12499026 7 9764864 8 13074432,
      Cert 1 12582912 1 12582912 7 9830400 8 13107200,
      Cert 1 12666798 1 12666798 7 9895936 8 13139968,
      Cert 1 12750684 1 12750684 7 9961472 8 13172736,
      Cert 1 12834570 1 12834570 7 10027008 8 13205504,
      Cert 1 12918456 1 12918456 7 10092544 8 13238272,
      Cert 1 13002342 1 13002342 7 10158080 8 13271040,
      Cert 1 13086228 1 13086228 7 10223616 8 13303808,
      Cert 1 13170114 1 13170114 7 10289152 8 13336576,
      Cert 1 13254000 1 13254000 7 10354688 8 13369344,
      Cert 1 13337886 1 13337886 7 10420224 8 13402112,
      Cert 1 13421772 1 13421772 7 10485760 8 13434880,
      Cert 1 13505659 1 13505659 7 10551296 8 13467648,
      Cert 1 13589545 1 13589545 7 10616832 8 13500416,
      Cert 1 13673431 1 13673431 7 10682368 8 13533184,
      Cert 1 13757317 1 13757317 7 10747904 8 13565952,
      Cert 1 13841203 1 13841203 7 10813440 8 13598720,
      Cert 1 13925089 1 13925089 7 10878976 8 13631488,
      Cert 1 14008975 1 14008975 7 10944512 8 13664256,
      Cert 1 14092861 1 14092861 7 11010048 8 13697024,
      Cert 1 14176747 1 14176747 7 11075584 8 13729792,
      Cert 1 14260633 1 14260633 7 11141120 8 13762560,
      Cert 1 14344519 1 14344519 7 11206656 8 13795328,
      Cert 1 14428405 1 14428405 7 11272192 8 13828096,
      Cert 1 14512292 1 14512292 7 11337728 8 13860864,
      Cert 1 14596178 1 14596178 7 11403264 8 13893632,
      Cert 1 14680064 1 14680064 7 11468800 8 13926400,
      Cert 1 14763950 1 14763950 7 11534336 8 13959168,
      Cert 1 14847836 1 14847836 7 11599872 8 13991936,
      Cert 1 14931722 1 14931722 7 11665408 8 14024704,
      Cert 1 15015608 1 15015608 7 11730944 8 14057472,
      Cert 1 15099494 1 15099494 7 11796480 8 14090240,
      Cert 1 15183380 1 15183380 7 11862016 8 14123008,
      Cert 1 15267266 1 15267266 7 11927552 8 14155776,
      Cert 1 15351152 1 15351152 7 11993088 8 14188544,
      Cert 1 15435038 1 15435038 7 12058624 8 14221312,
      Cert 1 15518924 1 15518924 7 12124160 8 14254080,
      Cert 1 15602811 1 15602811 7 12189696 8 14286848,
      Cert 1 15686697 1 15686697 7 12255232 8 14319616,
      Cert 1 15770583 1 15770583 7 12320768 8 14352384,
      Cert 1 15854469 1 15854469 7 12386304 8 14385152,
      Cert 1 15938355 1 15938355 7 12451840 8 14417920,
      Cert 1 16022241 1 16022241 7 12517376 8 14450688,
      Cert 1 16106127 1 16106127 7 12582912 8 14483456,
      Cert 1 16190013 1 16190013 7 12648448 8 14516224,
      Cert 1 16273899 1 16273899 7 12713984 8 14548992,
      Cert 1 16357785 1 16357785 7 12779520 8 14581760,
      Cert 1 16441671 1 16441671 7 12845056 8 14614528,
      Cert 1 16525557 1 16525557 7 12910592 8 14647296,
      Cert 1 16609443 1 16609443 7 12976128 8 14680064,
      Cert 1 16693330 1 16693330 7 13041664 8 14712832,
      Cert 1 16777216 2 8388608 7 13107200 8 14745600]"

definition certs_3 :: "cert list" where
  "certs_3 =
     [Cert 2 8430551 2 8430551 7 13172736 8 14778368,
      Cert 2 8472494 2 8472494 7 13238272 8 14811136,
      Cert 2 8514437 2 8514437 7 13303808 8 14843904,
      Cert 2 8556380 2 8556380 7 13369344 8 14876672,
      Cert 2 8598323 2 8598323 7 13434880 8 14909440,
      Cert 2 8640266 2 8640266 7 13500416 8 14942208,
      Cert 2 8682209 2 8682209 7 13565952 8 14974976,
      Cert 2 8724152 2 8724152 7 13631488 8 15007744,
      Cert 2 8766095 2 8766095 7 13697024 8 15040512,
      Cert 2 8808038 2 8808038 7 13762560 8 15073280,
      Cert 2 8849981 2 8849981 7 13828096 8 15106048,
      Cert 2 8891924 2 8891924 7 13893632 8 15138816,
      Cert 2 8933867 2 8933867 7 13959167 8 15171584,
      Cert 2 8975810 2 8975810 7 14024703 8 15204352,
      Cert 2 9017753 2 9017753 7 14090239 8 15237120,
      Cert 2 9059696 2 9059696 7 14155775 8 15269888,
      Cert 2 9101639 2 9101639 7 14221311 8 15302656,
      Cert 2 9143583 2 9143583 7 14286849 8 15335424,
      Cert 2 9185526 2 9185526 7 14352385 8 15368192,
      Cert 2 9227469 2 9227469 7 14417921 8 15400960,
      Cert 2 9269412 2 9269412 7 14483457 8 15433728,
      Cert 2 9311355 2 9311355 7 14548993 8 15466496,
      Cert 2 9353298 2 9353298 7 14614528 8 15499264,
      Cert 2 9395241 2 9395241 7 14680064 8 15532032,
      Cert 2 9437184 2 9437184 7 14745600 8 15564800,
      Cert 2 9479127 2 9479127 7 14811136 8 15597568,
      Cert 2 9521070 2 9521070 7 14876672 8 15630336,
      Cert 2 9563013 2 9563013 7 14942208 8 15663104,
      Cert 2 9604956 2 9604956 7 15007744 8 15695872,
      Cert 2 9646899 2 9646899 7 15073280 8 15728640,
      Cert 2 9688842 2 9688842 7 15138816 8 15761408,
      Cert 2 9730785 2 9730785 7 15204352 8 15794176,
      Cert 2 9772728 2 9772728 7 15269888 8 15826944,
      Cert 2 9814671 2 9814671 7 15335424 8 15859712,
      Cert 2 9856614 2 9856614 7 15400960 8 15892480,
      Cert 2 9898557 2 9898557 7 15466496 8 15925248,
      Cert 2 9940500 2 9940500 7 15532032 8 15958016,
      Cert 2 9982443 2 9982443 7 15597568 8 15990784,
      Cert 2 10024386 2 10024386 7 15663103 8 16023552,
      Cert 2 10066329 2 10066329 7 15728639 8 16056320,
      Cert 2 10108272 2 10108272 7 15794175 8 16089088,
      Cert 2 10150215 2 10150215 7 15859711 8 16121856,
      Cert 2 10192158 2 10192158 7 15925247 8 16154624,
      Cert 2 10234102 2 10234102 7 15990785 8 16187392,
      Cert 2 10276045 2 10276045 7 16056321 8 16220160,
      Cert 2 10317988 2 10317988 7 16121857 8 16252928,
      Cert 2 10359931 2 10359931 7 16187393 8 16285696,
      Cert 2 10401874 2 10401874 7 16252928 8 16318464,
      Cert 2 10443817 2 10443817 7 16318464 8 16351232,
      Cert 2 10485760 2 10485760 7 16384000 8 16384000,
      Cert 2 10527703 2 10527703 7 16449536 8 16416768,
      Cert 2 10569646 2 10569646 7 16515072 8 16449536,
      Cert 2 10611589 2 10611589 7 16580608 8 16482304,
      Cert 2 10653532 2 10653532 7 16646144 8 16515072,
      Cert 2 10695475 2 10695475 7 16711680 8 16547840,
      Cert 2 10737418 2 10737418 8 8388608 8 16580608,
      Cert 2 10779361 2 10779361 8 8421376 8 16613376,
      Cert 2 10821304 2 10821304 8 8454144 8 16646144,
      Cert 2 10863247 2 10863247 8 8486912 8 16678912,
      Cert 2 10905190 2 10905190 8 8519680 8 16711680,
      Cert 2 10947133 2 10947133 8 8552448 8 16744448,
      Cert 2 10989076 2 10989076 8 8585216 9 8388608,
      Cert 2 11031019 2 11031019 8 8617984 9 8404992,
      Cert 2 11072962 2 11072962 8 8650752 9 8421376,
      Cert 2 11114905 2 11114905 8 8683520 9 8437760,
      Cert 2 11156848 2 11156848 8 8716288 9 8454144,
      Cert 2 11198791 2 11198791 8 8749056 9 8470528,
      Cert 2 11240734 2 11240734 8 8781824 9 8486912,
      Cert 2 11282678 2 11282678 8 8814592 9 8503296,
      Cert 2 11324621 2 11324621 8 8847360 9 8519680,
      Cert 2 11366564 2 11366564 8 8880128 9 8536064,
      Cert 2 11408507 2 11408507 8 8912896 9 8552448,
      Cert 2 11450450 2 11450450 8 8945664 9 8568832,
      Cert 2 11492393 2 11492393 8 8978432 9 8585216,
      Cert 2 11534336 2 11534336 8 9011200 9 8601600,
      Cert 2 11576279 2 11576279 8 9043968 9 8617984,
      Cert 2 11618222 2 11618222 8 9076736 9 8634368,
      Cert 2 11660165 2 11660165 8 9109504 9 8650752,
      Cert 2 11702108 2 11702108 8 9142272 9 8667136,
      Cert 2 11744051 2 11744051 8 9175040 9 8683520,
      Cert 2 11785994 2 11785994 8 9207808 9 8699904,
      Cert 2 11827937 2 11827937 8 9240576 9 8716288,
      Cert 2 11869880 2 11869880 8 9273344 9 8732672,
      Cert 2 11911823 2 11911823 8 9306112 9 8749056,
      Cert 2 11953766 2 11953766 8 9338880 9 8765440,
      Cert 2 11995709 2 11995709 8 9371648 9 8781824,
      Cert 2 12037652 2 12037652 8 9404416 9 8798208,
      Cert 2 12079595 2 12079595 8 9437184 9 8814592,
      Cert 2 12121538 2 12121538 8 9469952 9 8830976,
      Cert 2 12163481 2 12163481 8 9502720 9 8847360,
      Cert 2 12205424 2 12205424 8 9535488 9 8863744,
      Cert 2 12247367 2 12247367 8 9568256 9 8880128,
      Cert 2 12289310 2 12289310 8 9601024 9 8896512,
      Cert 2 12331253 2 12331253 8 9633792 9 8912896,
      Cert 2 12373197 2 12373197 8 9666560 9 8929280,
      Cert 2 12415140 2 12415140 8 9699328 9 8945664,
      Cert 2 12457083 2 12457083 8 9732096 9 8962048,
      Cert 2 12499026 2 12499026 8 9764864 9 8978432,
      Cert 2 12540969 2 12540969 8 9797632 9 8994816,
      Cert 2 12582912 2 12582912 8 9830400 9 9011200]"

definition certs_4 :: "cert list" where
  "certs_4 =
     [Cert 2 12624855 2 12624855 8 9863168 9 9027584,
      Cert 2 12666798 2 12666798 8 9895936 9 9043968,
      Cert 2 12708741 2 12708741 8 9928704 9 9060352,
      Cert 2 12750684 2 12750684 8 9961472 9 9076736,
      Cert 2 12792627 2 12792627 8 9994240 9 9093120,
      Cert 2 12834570 2 12834570 8 10027008 9 9109504,
      Cert 2 12876513 2 12876513 8 10059776 9 9125888,
      Cert 2 12918456 2 12918456 8 10092544 9 9142272,
      Cert 2 12960399 2 12960399 8 10125312 9 9158656,
      Cert 2 13002342 2 13002342 8 10158080 9 9175040,
      Cert 2 13044285 2 13044285 8 10190848 9 9191424,
      Cert 2 13086228 2 13086228 8 10223616 9 9207808,
      Cert 2 13128171 2 13128171 8 10256384 9 9224192,
      Cert 2 13170114 2 13170114 8 10289152 9 9240576,
      Cert 2 13212057 2 13212057 8 10321920 9 9256960,
      Cert 2 13254000 2 13254000 8 10354688 9 9273344,
      Cert 2 13295943 2 13295943 8 10387456 9 9289728,
      Cert 2 13337886 2 13337886 8 10420224 9 9306112,
      Cert 2 13379829 2 13379829 8 10452992 9 9322496,
      Cert 2 13421772 2 13421772 8 10485760 9 9338880,
      Cert 2 13463716 2 13463716 8 10518528 9 9355264,
      Cert 2 13505659 2 13505659 8 10551296 9 9371648,
      Cert 2 13547602 2 13547602 8 10584064 9 9388032,
      Cert 2 13589545 2 13589545 8 10616832 9 9404416,
      Cert 2 13631488 2 13631488 8 10649600 9 9420800,
      Cert 2 13673431 2 13673431 8 10682368 9 9437184,
      Cert 2 13715374 2 13715374 8 10715136 9 9453568,
      Cert 2 13757317 2 13757317 8 10747904 9 9469952,
      Cert 2 13799260 2 13799260 8 10780672 9 9486336,
      Cert 2 13841203 2 13841203 8 10813440 9 9502720,
      Cert 2 13883146 2 13883146 8 10846208 9 9519104,
      Cert 2 13925089 2 13925089 8 10878976 9 9535488,
      Cert 2 13967032 2 13967032 8 10911744 9 9551872,
      Cert 2 14008975 2 14008975 8 10944512 9 9568256,
      Cert 2 14050918 2 14050918 8 10977280 9 9584640,
      Cert 2 14092861 2 14092861 8 11010048 9 9601024,
      Cert 2 14134804 2 14134804 8 11042816 9 9617408,
      Cert 2 14176747 2 14176747 8 11075584 9 9633792,
      Cert 2 14218690 2 14218690 8 11108352 9 9650176,
      Cert 2 14260633 2 14260633 8 11141120 9 9666560,
      Cert 2 14302576 2 14302576 8 11173888 9 9682944,
      Cert 2 14344519 2 14344519 8 11206656 9 9699328,
      Cert 2 14386462 2 14386462 8 11239424 9 9715712,
      Cert 2 14428405 2 14428405 8 11272192 9 9732096,
      Cert 2 14470348 2 14470348 8 11304960 9 9748480,
      Cert 2 14512292 2 14512292 8 11337728 9 9764864,
      Cert 2 14554235 2 14554235 8 11370496 9 9781248,
      Cert 2 14596178 2 14596178 8 11403264 9 9797632,
      Cert 2 14638121 2 14638121 8 11436032 9 9814016,
      Cert 2 14680064 2 14680064 8 11468800 9 9830400,
      Cert 2 14722007 2 14722007 8 11501568 9 9846784,
      Cert 2 14763950 2 14763950 8 11534336 9 9863168,
      Cert 2 14805893 2 14805893 8 11567104 9 9879552,
      Cert 2 14847836 2 14847836 8 11599872 9 9895936,
      Cert 2 14889779 2 14889779 8 11632640 9 9912320,
      Cert 2 14931722 2 14931722 8 11665408 9 9928704,
      Cert 2 14973665 2 14973665 8 11698176 9 9945088,
      Cert 2 15015608 2 15015608 8 11730944 9 9961472,
      Cert 2 15057551 2 15057551 8 11763712 9 9977856,
      Cert 2 15099494 2 15099494 8 11796480 9 9994240,
      Cert 2 15141437 2 15141437 8 11829248 9 10010624,
      Cert 2 15183380 2 15183380 8 11862016 9 10027008,
      Cert 2 15225323 2 15225323 8 11894784 9 10043392,
      Cert 2 15267266 2 15267266 8 11927552 9 10059776,
      Cert 2 15309209 2 15309209 8 11960320 9 10076160,
      Cert 2 15351152 2 15351152 8 11993088 9 10092544,
      Cert 2 15393095 2 15393095 8 12025856 9 10108928,
      Cert 2 15435038 2 15435038 8 12058624 9 10125312,
      Cert 2 15476981 2 15476981 8 12091392 9 10141696,
      Cert 2 15518924 2 15518924 8 12124160 9 10158080,
      Cert 2 15560867 2 15560867 8 12156928 9 10174464,
      Cert 2 15602811 2 15602811 8 12189696 9 10190848,
      Cert 2 15644754 2 15644754 8 12222464 9 10207232,
      Cert 2 15686697 2 15686697 8 12255232 9 10223616,
      Cert 2 15728640 2 15728640 8 12288000 9 10240000,
      Cert 2 15770583 2 15770583 8 12320768 9 10256384,
      Cert 2 15812526 2 15812526 8 12353536 9 10272768,
      Cert 2 15854469 2 15854469 8 12386304 9 10289152,
      Cert 2 15896412 2 15896412 8 12419072 9 10305536,
      Cert 2 15938355 2 15938355 8 12451840 9 10321920,
      Cert 2 15980298 2 15980298 8 12484608 9 10338304,
      Cert 2 16022241 2 16022241 8 12517376 9 10354688,
      Cert 2 16064184 2 16064184 8 12550144 9 10371072,
      Cert 2 16106127 2 16106127 8 12582912 9 10387456,
      Cert 2 16148070 2 16148070 8 12615680 9 10403840,
      Cert 2 16190013 2 16190013 8 12648448 9 10420224,
      Cert 2 16231956 2 16231956 8 12681216 9 10436608,
      Cert 2 16273899 2 16273899 8 12713984 9 10452992,
      Cert 2 16315842 2 16315842 8 12746752 9 10469376,
      Cert 2 16357785 2 16357785 8 12779520 9 10485760,
      Cert 2 16399728 2 16399728 8 12812288 9 10502144,
      Cert 2 16441671 2 16441671 8 12845056 9 10518528,
      Cert 2 16483614 2 16483614 8 12877824 9 10534912,
      Cert 2 16525557 2 16525557 8 12910592 9 10551296,
      Cert 2 16567500 2 16567500 8 12943360 9 10567680,
      Cert 2 16609443 2 16609443 8 12976128 9 10584064,
      Cert 2 16651387 2 16651387 8 13008896 9 10600448,
      Cert 2 16693330 2 16693330 8 13041664 9 10616832,
      Cert 2 16735273 2 16735273 8 13074432 9 10633216,
      Cert 2 16777216 3 8388608 8 13107200 9 10649600]"

definition certs_5 :: "cert list" where
  "certs_5 =
     [Cert 3 8409579 3 8409579 8 13139967 9 10665984,
      Cert 3 8430551 3 8430551 8 13172736 9 10682368,
      Cert 3 8451522 3 8451522 8 13205503 9 10698752,
      Cert 3 8472494 3 8472494 8 13238272 9 10715136,
      Cert 3 8493465 3 8493465 8 13271039 9 10731520,
      Cert 3 8514437 3 8514437 8 13303808 9 10747904,
      Cert 3 8535408 3 8535408 8 13336575 9 10764288,
      Cert 3 8556380 3 8556380 8 13369344 9 10780672,
      Cert 3 8577351 3 8577351 8 13402111 9 10797056,
      Cert 3 8598323 3 8598323 8 13434880 9 10813440,
      Cert 3 8619295 3 8619295 8 13467649 9 10829824,
      Cert 3 8640266 3 8640266 8 13500416 9 10846208,
      Cert 3 8661238 3 8661238 8 13533185 9 10862592,
      Cert 3 8682209 3 8682209 8 13565952 9 10878976,
      Cert 3 8703181 3 8703181 8 13598721 9 10895360,
      Cert 3 8724152 3 8724152 8 13631488 9 10911744,
      Cert 3 8745124 3 8745124 8 13664257 9 10928128,
      Cert 3 8766095 3 8766095 8 13697024 9 10944512,
      Cert 3 8787067 3 8787067 8 13729792 9 10960896,
      Cert 3 8808038 3 8808038 8 13762560 9 10977280,
      Cert 3 8829010 3 8829010 8 13795328 9 10993664,
      Cert 3 8849981 3 8849981 8 13828096 9 11010048,
      Cert 3 8870953 3 8870953 8 13860864 9 11026432,
      Cert 3 8891924 3 8891924 8 13893632 9 11042816,
      Cert 3 8912896 3 8912896 8 13926400 9 11059200,
      Cert 3 8933867 3 8933867 8 13959167 9 11075584,
      Cert 3 8954839 3 8954839 8 13991936 9 11091968,
      Cert 3 8975810 3 8975810 8 14024703 9 11108352,
      Cert 3 8996782 3 8996782 8 14057472 9 11124736,
      Cert 3 9017753 3 9017753 8 14090239 9 11141120,
      Cert 3 9038725 3 9038725 8 14123008 9 11157504,
      Cert 3 9059696 3 9059696 8 14155775 9 11173888,
      Cert 3 9080668 3 9080668 8 14188544 9 11190272,
      Cert 3 9101639 3 9101639 8 14221311 9 11206656,
      Cert 3 9122611 3 9122611 8 14254080 9 11223040,
      Cert 3 9143583 3 9143583 8 14286849 9 11239424,
      Cert 3 9164554 3 9164554 8 14319616 9 11255808,
      Cert 3 9185526 3 9185526 8 14352385 9 11272192,
      Cert 3 9206497 3 9206497 8 14385152 9 11288576,
      Cert 3 9227469 3 9227469 8 14417921 9 11304960,
      Cert 3 9248440 3 9248440 8 14450688 9 11321344,
      Cert 3 9269412 3 9269412 8 14483457 9 11337728,
      Cert 3 9290383 3 9290383 8 14516224 9 11354112,
      Cert 3 9311355 3 9311355 8 14548993 9 11370496,
      Cert 3 9332326 3 9332326 8 14581760 9 11386880,
      Cert 3 9353298 3 9353298 8 14614528 9 11403264,
      Cert 3 9374269 3 9374269 8 14647296 9 11419648,
      Cert 3 9395241 3 9395241 8 14680064 9 11436032,
      Cert 3 9416212 3 9416212 8 14712832 9 11452416,
      Cert 3 9437184 3 9437184 8 14745600 9 11468800,
      Cert 3 9458155 3 9458155 8 14778368 9 11485184,
      Cert 3 9479127 3 9479127 8 14811136 9 11501568,
      Cert 3 9500098 3 9500098 8 14843903 9 11517952,
      Cert 3 9521070 3 9521070 8 14876672 9 11534336,
      Cert 3 9542041 3 9542041 8 14909439 9 11550720,
      Cert 3 9563013 3 9563013 8 14942208 9 11567104,
      Cert 3 9583984 3 9583984 8 14974975 9 11583488,
      Cert 3 9604956 3 9604956 8 15007744 9 11599872,
      Cert 3 9625927 3 9625927 8 15040511 9 11616256,
      Cert 3 9646899 3 9646899 8 15073280 9 11632640,
      Cert 3 9667871 3 9667871 8 15106049 9 11649024,
      Cert 3 9688842 3 9688842 8 15138816 9 11665408,
      Cert 3 9709814 3 9709814 8 15171585 9 11681792,
      Cert 3 9730785 3 9730785 8 15204352 9 11698176,
      Cert 3 9751757 3 9751757 8 15237121 9 11714560,
      Cert 3 9772728 3 9772728 8 15269888 9 11730944,
      Cert 3 9793700 3 9793700 8 15302657 9 11747328,
      Cert 3 9814671 3 9814671 8 15335424 9 11763712,
      Cert 3 9835643 3 9835643 8 15368193 9 11780096,
      Cert 3 9856614 3 9856614 8 15400960 9 11796480,
      Cert 3 9877586 3 9877586 8 15433728 9 11812864,
      Cert 3 9898557 3 9898557 8 15466496 9 11829248,
      Cert 3 9919529 3 9919529 8 15499264 9 11845632,
      Cert 3 9940500 3 9940500 8 15532032 9 11862016,
      Cert 3 9961472 3 9961472 8 15564800 9 11878400,
      Cert 3 9982443 3 9982443 8 15597568 9 11894784,
      Cert 3 10003415 3 10003415 8 15630336 9 11911168,
      Cert 3 10024386 3 10024386 8 15663103 9 11927552,
      Cert 3 10045358 3 10045358 8 15695872 9 11943936,
      Cert 3 10066329 3 10066329 8 15728639 9 11960320,
      Cert 3 10087301 3 10087301 8 15761408 9 11976704,
      Cert 3 10108272 3 10108272 8 15794175 9 11993088,
      Cert 3 10129244 3 10129244 8 15826944 9 12009472,
      Cert 3 10150215 3 10150215 8 15859711 9 12025856,
      Cert 3 10171187 3 10171187 8 15892480 9 12042240,
      Cert 3 10192158 3 10192158 8 15925247 9 12058624,
      Cert 3 10213130 3 10213130 8 15958016 9 12075008,
      Cert 3 10234102 3 10234102 8 15990785 9 12091392,
      Cert 3 10255073 3 10255073 8 16023552 9 12107776,
      Cert 3 10276045 3 10276045 8 16056321 9 12124160,
      Cert 3 10297016 3 10297016 8 16089088 9 12140544,
      Cert 3 10317988 3 10317988 8 16121857 9 12156928,
      Cert 3 10338959 3 10338959 8 16154624 9 12173312,
      Cert 3 10359931 3 10359931 8 16187393 9 12189696,
      Cert 3 10380902 3 10380902 8 16220160 9 12206080,
      Cert 3 10401874 3 10401874 8 16252928 9 12222464,
      Cert 3 10422845 3 10422845 8 16285696 9 12238848,
      Cert 3 10443817 3 10443817 8 16318464 9 12255232,
      Cert 3 10464788 3 10464788 8 16351232 9 12271616,
      Cert 3 10485760 3 10485760 8 16384000 9 12288000]"

definition certs_6 :: "cert list" where
  "certs_6 =
     [Cert 3 10506731 3 10506731 8 16416768 9 12304384,
      Cert 3 10527703 3 10527703 8 16449536 9 12320768,
      Cert 3 10548674 3 10548674 8 16482303 9 12337152,
      Cert 3 10569646 3 10569646 8 16515072 9 12353536,
      Cert 3 10590617 3 10590617 8 16547839 9 12369920,
      Cert 3 10611589 3 10611589 8 16580608 9 12386304,
      Cert 3 10632560 3 10632560 8 16613375 9 12402688,
      Cert 3 10653532 3 10653532 8 16646144 9 12419072,
      Cert 3 10674503 3 10674503 8 16678911 9 12435456,
      Cert 3 10695475 3 10695475 8 16711680 9 12451840,
      Cert 3 10716446 3 10716446 8 16744447 9 12468224,
      Cert 3 10737418 3 10737418 9 8388608 9 12484608,
      Cert 3 10758390 3 10758390 9 8404992 9 12500992,
      Cert 3 10779361 3 10779361 9 8421376 9 12517376,
      Cert 3 10800333 3 10800333 9 8437760 9 12533760,
      Cert 3 10821304 3 10821304 9 8454144 9 12550144,
      Cert 3 10842276 3 10842276 9 8470528 9 12566528,
      Cert 3 10863247 3 10863247 9 8486912 9 12582912,
      Cert 3 10884219 3 10884219 9 8503296 9 12599296,
      Cert 3 10905190 3 10905190 9 8519680 9 12615680,
      Cert 3 10926162 3 10926162 9 8536064 9 12632064,
      Cert 3 10947133 3 10947133 9 8552448 9 12648448,
      Cert 3 10968105 3 10968105 9 8568832 9 12664832,
      Cert 3 10989076 3 10989076 9 8585216 9 12681216,
      Cert 3 11010048 3 11010048 9 8601600 9 12697600,
      Cert 3 11031019 3 11031019 9 8617984 9 12713984,
      Cert 3 11051991 3 11051991 9 8634368 9 12730368,
      Cert 3 11072962 3 11072962 9 8650752 9 12746752,
      Cert 3 11093934 3 11093934 9 8667136 9 12763136,
      Cert 3 11114905 3 11114905 9 8683520 9 12779520,
      Cert 3 11135877 3 11135877 9 8699904 9 12795904,
      Cert 3 11156848 3 11156848 9 8716288 9 12812288,
      Cert 3 11177820 3 11177820 9 8732672 9 12828672,
      Cert 3 11198791 3 11198791 9 8749056 9 12845056,
      Cert 3 11219763 3 11219763 9 8765440 9 12861440,
      Cert 3 11240734 3 11240734 9 8781824 9 12877824,
      Cert 3 11261706 3 11261706 9 8798208 9 12894208,
      Cert 3 11282678 3 11282678 9 8814592 9 12910592,
      Cert 3 11303649 3 11303649 9 8830976 9 12926976,
      Cert 3 11324621 3 11324621 9 8847360 9 12943360,
      Cert 3 11345592 3 11345592 9 8863744 9 12959744,
      Cert 3 11366564 3 11366564 9 8880128 9 12976128,
      Cert 3 11387535 3 11387535 9 8896512 9 12992512,
      Cert 3 11408507 3 11408507 9 8912896 9 13008896,
      Cert 3 11429478 3 11429478 9 8929280 9 13025280,
      Cert 3 11450450 3 11450450 9 8945664 9 13041664,
      Cert 3 11471421 3 11471421 9 8962048 9 13058048,
      Cert 3 11492393 3 11492393 9 8978432 9 13074432,
      Cert 3 11513364 3 11513364 9 8994816 9 13090816,
      Cert 3 11534336 3 11534336 9 9011200 9 13107200,
      Cert 3 11555307 3 11555307 9 9027584 9 13123584,
      Cert 3 11576279 3 11576279 9 9043968 9 13139968,
      Cert 3 11597250 3 11597250 9 9060352 9 13156352,
      Cert 3 11618222 3 11618222 9 9076736 9 13172736,
      Cert 3 11639193 3 11639193 9 9093120 9 13189120,
      Cert 3 11660165 3 11660165 9 9109504 9 13205504,
      Cert 3 11681136 3 11681136 9 9125888 9 13221888,
      Cert 3 11702108 3 11702108 9 9142272 9 13238272,
      Cert 3 11723079 3 11723079 9 9158656 9 13254656,
      Cert 3 11744051 3 11744051 9 9175040 9 13271040,
      Cert 3 11765022 3 11765022 9 9191424 9 13287424,
      Cert 3 11785994 3 11785994 9 9207808 9 13303808,
      Cert 3 11806965 3 11806965 9 9224192 9 13320192,
      Cert 3 11827937 3 11827937 9 9240576 9 13336576,
      Cert 3 11848909 3 11848909 9 9256960 9 13352960,
      Cert 3 11869880 3 11869880 9 9273344 9 13369344,
      Cert 3 11890852 3 11890852 9 9289728 9 13385728,
      Cert 3 11911823 3 11911823 9 9306112 9 13402112,
      Cert 3 11932795 3 11932795 9 9322496 9 13418496,
      Cert 3 11953766 3 11953766 9 9338880 9 13434880,
      Cert 3 11974738 3 11974738 9 9355264 9 13451264,
      Cert 3 11995709 3 11995709 9 9371648 9 13467648,
      Cert 3 12016681 3 12016681 9 9388032 9 13484032,
      Cert 3 12037652 3 12037652 9 9404416 9 13500416,
      Cert 3 12058624 3 12058624 9 9420800 9 13516800,
      Cert 3 12079595 3 12079595 9 9437184 9 13533184,
      Cert 3 12100567 3 12100567 9 9453568 9 13549568,
      Cert 3 12121538 3 12121538 9 9469952 9 13565952,
      Cert 3 12142510 3 12142510 9 9486336 9 13582336,
      Cert 3 12163481 3 12163481 9 9502720 9 13598720,
      Cert 3 12184453 3 12184453 9 9519104 9 13615104,
      Cert 3 12205424 3 12205424 9 9535488 9 13631488,
      Cert 3 12226396 3 12226396 9 9551872 9 13647872,
      Cert 3 12247367 3 12247367 9 9568256 9 13664256,
      Cert 3 12268339 3 12268339 9 9584640 9 13680640,
      Cert 3 12289310 3 12289310 9 9601024 9 13697024,
      Cert 3 12310282 3 12310282 9 9617408 9 13713408,
      Cert 3 12331253 3 12331253 9 9633792 9 13729792,
      Cert 3 12352225 3 12352225 9 9650176 9 13746176,
      Cert 3 12373197 3 12373197 9 9666560 9 13762560,
      Cert 3 12394168 3 12394168 9 9682944 9 13778944,
      Cert 3 12415140 3 12415140 9 9699328 9 13795328,
      Cert 3 12436111 3 12436111 9 9715712 9 13811712,
      Cert 3 12457083 3 12457083 9 9732096 9 13828096,
      Cert 3 12478054 3 12478054 9 9748480 9 13844480,
      Cert 3 12499026 3 12499026 9 9764864 9 13860864,
      Cert 3 12519997 3 12519997 9 9781248 9 13877248,
      Cert 3 12540969 3 12540969 9 9797632 9 13893632,
      Cert 3 12561940 3 12561940 9 9814016 9 13910016,
      Cert 3 12582912 3 12582912 9 9830400 9 13926400]"

definition certs_7 :: "cert list" where
  "certs_7 =
     [Cert 3 12603883 3 12603883 9 9846784 9 13942784,
      Cert 3 12624855 3 12624855 9 9863168 9 13959168,
      Cert 3 12645826 3 12645826 9 9879552 9 13975552,
      Cert 3 12666798 3 12666798 9 9895936 9 13991936,
      Cert 3 12687769 3 12687769 9 9912320 9 14008320,
      Cert 3 12708741 3 12708741 9 9928704 9 14024704,
      Cert 3 12729712 3 12729712 9 9945088 9 14041088,
      Cert 3 12750684 3 12750684 9 9961472 9 14057472,
      Cert 3 12771655 3 12771655 9 9977856 9 14073856,
      Cert 3 12792627 3 12792627 9 9994240 9 14090240,
      Cert 3 12813598 3 12813598 9 10010624 9 14106624,
      Cert 3 12834570 3 12834570 9 10027008 9 14123008,
      Cert 3 12855541 3 12855541 9 10043392 9 14139392,
      Cert 3 12876513 3 12876513 9 10059776 9 14155776,
      Cert 3 12897485 3 12897485 9 10076160 9 14172160,
      Cert 3 12918456 3 12918456 9 10092544 9 14188544,
      Cert 3 12939428 3 12939428 9 10108928 9 14204928,
      Cert 3 12960399 3 12960399 9 10125312 9 14221312,
      Cert 3 12981371 3 12981371 9 10141696 9 14237696,
      Cert 3 13002342 3 13002342 9 10158080 9 14254080,
      Cert 3 13023314 3 13023314 9 10174464 9 14270464,
      Cert 3 13044285 3 13044285 9 10190848 9 14286848,
      Cert 3 13065257 3 13065257 9 10207232 9 14303232,
      Cert 3 13086228 3 13086228 9 10223616 9 14319616,
      Cert 3 13107200 3 13107200 9 10240000 9 14336000,
      Cert 3 13128171 3 13128171 9 10256384 9 14352384,
      Cert 3 13149143 3 13149143 9 10272768 9 14368768,
      Cert 3 13170114 3 13170114 9 10289152 9 14385152,
      Cert 3 13191086 3 13191086 9 10305536 9 14401536,
      Cert 3 13212057 3 13212057 9 10321920 9 14417920,
      Cert 3 13233029 3 13233029 9 10338304 9 14434304,
      Cert 3 13254000 3 13254000 9 10354688 9 14450688,
      Cert 3 13274972 3 13274972 9 10371072 9 14467072,
      Cert 3 13295943 3 13295943 9 10387456 9 14483456,
      Cert 3 13316915 3 13316915 9 10403840 9 14499840,
      Cert 3 13337886 3 13337886 9 10420224 9 14516224,
      Cert 3 13358858 3 13358858 9 10436608 9 14532608,
      Cert 3 13379829 3 13379829 9 10452992 9 14548992,
      Cert 3 13400801 3 13400801 9 10469376 9 14565376,
      Cert 3 13421772 3 13421772 9 10485760 9 14581760,
      Cert 3 13442744 3 13442744 9 10502144 9 14598144,
      Cert 3 13463716 3 13463716 9 10518528 9 14614528,
      Cert 3 13484687 3 13484687 9 10534912 9 14630912,
      Cert 3 13505659 3 13505659 9 10551296 9 14647296,
      Cert 3 13526630 3 13526630 9 10567680 9 14663680,
      Cert 3 13547602 3 13547602 9 10584064 9 14680064,
      Cert 3 13568573 3 13568573 9 10600448 9 14696448,
      Cert 3 13589545 3 13589545 9 10616832 9 14712832,
      Cert 3 13610516 3 13610516 9 10633216 9 14729216,
      Cert 3 13631488 3 13631488 9 10649600 9 14745600,
      Cert 3 13652459 3 13652459 9 10665984 9 14761984,
      Cert 3 13673431 3 13673431 9 10682368 9 14778368,
      Cert 3 13694402 3 13694402 9 10698752 9 14794752,
      Cert 3 13715374 3 13715374 9 10715136 9 14811136,
      Cert 3 13736345 3 13736345 9 10731520 9 14827520,
      Cert 3 13757317 3 13757317 9 10747904 9 14843904,
      Cert 3 13778288 3 13778288 9 10764288 9 14860288,
      Cert 3 13799260 3 13799260 9 10780672 9 14876672,
      Cert 3 13820231 3 13820231 9 10797056 9 14893056,
      Cert 3 13841203 3 13841203 9 10813440 9 14909440,
      Cert 3 13862174 3 13862174 9 10829824 9 14925824,
      Cert 3 13883146 3 13883146 9 10846208 9 14942208,
      Cert 3 13904117 3 13904117 9 10862592 9 14958592,
      Cert 3 13925089 3 13925089 9 10878976 9 14974976,
      Cert 3 13946060 3 13946060 9 10895360 9 14991360,
      Cert 3 13967032 3 13967032 9 10911744 9 15007744,
      Cert 3 13988004 3 13988004 9 10928128 9 15024128,
      Cert 3 14008975 3 14008975 9 10944512 9 15040512,
      Cert 3 14029947 3 14029947 9 10960896 9 15056896,
      Cert 3 14050918 3 14050918 9 10977280 9 15073280,
      Cert 3 14071890 3 14071890 9 10993664 9 15089664,
      Cert 3 14092861 3 14092861 9 11010048 9 15106048,
      Cert 3 14113833 3 14113833 9 11026432 9 15122432,
      Cert 3 14134804 3 14134804 9 11042816 9 15138816,
      Cert 3 14155776 3 14155776 9 11059200 9 15155200,
      Cert 3 14176747 3 14176747 9 11075584 9 15171584,
      Cert 3 14197719 3 14197719 9 11091968 9 15187968,
      Cert 3 14218690 3 14218690 9 11108352 9 15204352,
      Cert 3 14239662 3 14239662 9 11124736 9 15220736,
      Cert 3 14260633 3 14260633 9 11141120 9 15237120,
      Cert 3 14281605 3 14281605 9 11157504 9 15253504,
      Cert 3 14302576 3 14302576 9 11173888 9 15269888,
      Cert 3 14323548 3 14323548 9 11190272 9 15286272,
      Cert 3 14344519 3 14344519 9 11206656 9 15302656,
      Cert 3 14365491 3 14365491 9 11223040 9 15319040,
      Cert 3 14386462 3 14386462 9 11239424 9 15335424,
      Cert 3 14407434 3 14407434 9 11255808 9 15351808,
      Cert 3 14428405 3 14428405 9 11272192 9 15368192,
      Cert 3 14449377 3 14449377 9 11288576 9 15384576,
      Cert 3 14470348 3 14470348 9 11304960 9 15400960,
      Cert 3 14491320 3 14491320 9 11321344 9 15417344,
      Cert 3 14512292 3 14512292 9 11337728 9 15433728,
      Cert 3 14533263 3 14533263 9 11354112 9 15450112,
      Cert 3 14554235 3 14554235 9 11370496 9 15466496,
      Cert 3 14575206 3 14575206 9 11386880 9 15482880,
      Cert 3 14596178 3 14596178 9 11403264 9 15499264,
      Cert 3 14617149 3 14617149 9 11419648 9 15515648,
      Cert 3 14638121 3 14638121 9 11436032 9 15532032,
      Cert 3 14659092 3 14659092 9 11452416 9 15548416,
      Cert 3 14680064 3 14680064 9 11468800 9 15564800]"

definition certs_8 :: "cert list" where
  "certs_8 =
     [Cert 3 14701035 3 14701035 9 11485184 9 15581184,
      Cert 3 14722007 3 14722007 9 11501568 9 15597568,
      Cert 3 14742978 3 14742978 9 11517952 9 15613952,
      Cert 3 14763950 3 14763950 9 11534336 9 15630336,
      Cert 3 14784921 3 14784921 9 11550720 9 15646720,
      Cert 3 14805893 3 14805893 9 11567104 9 15663104,
      Cert 3 14826864 3 14826864 9 11583488 9 15679488,
      Cert 3 14847836 3 14847836 9 11599872 9 15695872,
      Cert 3 14868807 3 14868807 9 11616256 9 15712256,
      Cert 3 14889779 3 14889779 9 11632640 9 15728640,
      Cert 3 14910750 3 14910750 9 11649024 9 15745024,
      Cert 3 14931722 3 14931722 9 11665408 9 15761408,
      Cert 3 14952693 3 14952693 9 11681792 9 15777792,
      Cert 3 14973665 3 14973665 9 11698176 9 15794176,
      Cert 3 14994636 3 14994636 9 11714560 9 15810560,
      Cert 3 15015608 3 15015608 9 11730944 9 15826944,
      Cert 3 15036580 3 15036580 9 11747328 9 15843328,
      Cert 3 15057551 3 15057551 9 11763712 9 15859712,
      Cert 3 15078523 3 15078523 9 11780096 9 15876096,
      Cert 3 15099494 3 15099494 9 11796480 9 15892480,
      Cert 3 15120466 3 15120466 9 11812864 9 15908864,
      Cert 3 15141437 3 15141437 9 11829248 9 15925248,
      Cert 3 15162409 3 15162409 9 11845632 9 15941632,
      Cert 3 15183380 3 15183380 9 11862016 9 15958016,
      Cert 3 15204352 3 15204352 9 11878400 9 15974400,
      Cert 3 15225323 3 15225323 9 11894784 9 15990784,
      Cert 3 15246295 3 15246295 9 11911168 9 16007168,
      Cert 3 15267266 3 15267266 9 11927552 9 16023552,
      Cert 3 15288238 3 15288238 9 11943936 9 16039936,
      Cert 3 15309209 3 15309209 9 11960320 9 16056320,
      Cert 3 15330181 3 15330181 9 11976704 9 16072704,
      Cert 3 15351152 3 15351152 9 11993088 9 16089088,
      Cert 3 15372124 3 15372124 9 12009472 9 16105472,
      Cert 3 15393095 3 15393095 9 12025856 9 16121856,
      Cert 3 15414067 3 15414067 9 12042240 9 16138240,
      Cert 3 15435038 3 15435038 9 12058624 9 16154624,
      Cert 3 15456010 3 15456010 9 12075008 9 16171008,
      Cert 3 15476981 3 15476981 9 12091392 9 16187392,
      Cert 3 15497953 3 15497953 9 12107776 9 16203776,
      Cert 3 15518924 3 15518924 9 12124160 9 16220160,
      Cert 3 15539896 3 15539896 9 12140544 9 16236544,
      Cert 3 15560867 3 15560867 9 12156928 9 16252928,
      Cert 3 15581839 3 15581839 9 12173312 9 16269312,
      Cert 3 15602811 3 15602811 9 12189696 9 16285696,
      Cert 3 15623782 3 15623782 9 12206080 9 16302080,
      Cert 3 15644754 3 15644754 9 12222464 9 16318464,
      Cert 3 15665725 3 15665725 9 12238848 9 16334848,
      Cert 3 15686697 3 15686697 9 12255232 9 16351232,
      Cert 3 15707668 3 15707668 9 12271616 9 16367616,
      Cert 3 15728640 3 15728640 9 12288000 9 16384000,
      Cert 3 15749611 3 15749611 9 12304384 9 16400384,
      Cert 3 15770583 3 15770583 9 12320768 9 16416768,
      Cert 3 15791554 3 15791554 9 12337152 9 16433152,
      Cert 3 15812526 3 15812526 9 12353536 9 16449536,
      Cert 3 15833497 3 15833497 9 12369920 9 16465920,
      Cert 3 15854469 3 15854469 9 12386304 9 16482304,
      Cert 3 15875440 3 15875440 9 12402688 9 16498688,
      Cert 3 15896412 3 15896412 9 12419072 9 16515072,
      Cert 3 15917383 3 15917383 9 12435456 9 16531456,
      Cert 3 15938355 3 15938355 9 12451840 9 16547840,
      Cert 3 15959326 3 15959326 9 12468224 9 16564224,
      Cert 3 15980298 3 15980298 9 12484608 9 16580608,
      Cert 3 16001269 3 16001269 9 12500992 9 16596992,
      Cert 3 16022241 3 16022241 9 12517376 9 16613376,
      Cert 3 16043212 3 16043212 9 12533760 9 16629760,
      Cert 3 16064184 3 16064184 9 12550144 9 16646144,
      Cert 3 16085155 3 16085155 9 12566528 9 16662528,
      Cert 3 16106127 3 16106127 9 12582912 9 16678912,
      Cert 3 16127099 3 16127099 9 12599296 9 16695296,
      Cert 3 16148070 3 16148070 9 12615680 9 16711680,
      Cert 3 16169042 3 16169042 9 12632064 9 16728064,
      Cert 3 16190013 3 16190013 9 12648448 9 16744448,
      Cert 3 16210985 3 16210985 9 12664832 9 16760832,
      Cert 3 16231956 3 16231956 9 12681216 10 8388608,
      Cert 3 16252928 3 16252928 9 12697600 10 8396800,
      Cert 3 16273899 3 16273899 9 12713984 10 8404992,
      Cert 3 16294871 3 16294871 9 12730368 10 8413184,
      Cert 3 16315842 3 16315842 9 12746752 10 8421376,
      Cert 3 16336814 3 16336814 9 12763136 10 8429568,
      Cert 3 16357785 3 16357785 9 12779520 10 8437760,
      Cert 3 16378757 3 16378757 9 12795904 10 8445952,
      Cert 3 16399728 3 16399728 9 12812288 10 8454144,
      Cert 3 16420700 3 16420700 9 12828672 10 8462336,
      Cert 3 16441671 3 16441671 9 12845056 10 8470528,
      Cert 3 16462643 3 16462643 9 12861440 10 8478720,
      Cert 3 16483614 3 16483614 9 12877824 10 8486912,
      Cert 3 16504586 3 16504586 9 12894208 10 8495104,
      Cert 3 16525557 3 16525557 9 12910592 10 8503296,
      Cert 3 16546529 3 16546529 9 12926976 10 8511488,
      Cert 3 16567500 3 16567500 9 12943360 10 8519680,
      Cert 3 16588472 3 16588472 9 12959744 10 8527872,
      Cert 3 16609443 3 16609443 9 12976128 10 8536064,
      Cert 3 16630415 3 16630415 9 12992512 10 8544256,
      Cert 3 16651387 3 16651387 9 13008896 10 8552448,
      Cert 3 16672358 3 16672358 9 13025280 10 8560640,
      Cert 3 16693330 3 16693330 9 13041664 10 8568832,
      Cert 3 16714301 3 16714301 9 13058048 10 8577024,
      Cert 3 16735273 3 16735273 9 13074432 10 8585216,
      Cert 3 16756244 3 16756244 9 13090816 10 8593408,
      Cert 3 16777216 4 8388608 9 13107200 10 8601600]"

definition certs_9 :: "cert list" where
  "certs_9 =
     [Cert 4 8399094 4 8399094 9 13123585 10 8609792,
      Cert 4 8409579 4 8409579 9 13139967 10 8617984,
      Cert 4 8420065 4 8420065 9 13156352 10 8626176,
      Cert 4 8430551 4 8430551 9 13172736 10 8634368,
      Cert 4 8441037 4 8441037 9 13189121 10 8642560,
      Cert 4 8451522 4 8451522 9 13205503 10 8650752,
      Cert 4 8462008 4 8462008 9 13221888 10 8658944,
      Cert 4 8472494 4 8472494 9 13238272 10 8667136,
      Cert 4 8482980 4 8482980 9 13254657 10 8675328,
      Cert 4 8493465 4 8493465 9 13271039 10 8683520,
      Cert 4 8503951 4 8503951 9 13287424 10 8691712,
      Cert 4 8514437 4 8514437 9 13303808 10 8699904,
      Cert 4 8524923 4 8524923 9 13320192 10 8708096,
      Cert 4 8535408 4 8535408 9 13336575 10 8716288,
      Cert 4 8545894 4 8545894 9 13352960 10 8724480,
      Cert 4 8556380 4 8556380 9 13369344 10 8732672,
      Cert 4 8566866 4 8566866 9 13385728 10 8740864,
      Cert 4 8577351 4 8577351 9 13402111 10 8749056,
      Cert 4 8587837 4 8587837 9 13418496 10 8757248,
      Cert 4 8598323 4 8598323 9 13434880 10 8765440,
      Cert 4 8608809 4 8608809 9 13451264 10 8773632,
      Cert 4 8619295 4 8619295 9 13467649 10 8781824,
      Cert 4 8629780 4 8629780 9 13484032 10 8790016,
      Cert 4 8640266 4 8640266 9 13500416 10 8798208,
      Cert 4 8650752 4 8650752 9 13516800 10 8806400,
      Cert 4 8661238 4 8661238 9 13533185 10 8814592,
      Cert 4 8671723 4 8671723 9 13549567 10 8822784,
      Cert 4 8682209 4 8682209 9 13565952 10 8830976,
      Cert 4 8692695 4 8692695 9 13582336 10 8839168,
      Cert 4 8703181 4 8703181 9 13598721 10 8847360,
      Cert 4 8713666 4 8713666 9 13615103 10 8855552,
      Cert 4 8724152 4 8724152 9 13631488 10 8863744,
      Cert 4 8734638 4 8734638 9 13647872 10 8871936,
      Cert 4 8745124 4 8745124 9 13664257 10 8880128,
      Cert 4 8755609 4 8755609 9 13680639 10 8888320,
      Cert 4 8766095 4 8766095 9 13697024 10 8896512,
      Cert 4 8776581 4 8776581 9 13713408 10 8904704,
      Cert 4 8787067 4 8787067 9 13729792 10 8912896,
      Cert 4 8797552 4 8797552 9 13746175 10 8921088,
      Cert 4 8808038 4 8808038 9 13762560 10 8929280,
      Cert 4 8818524 4 8818524 9 13778944 10 8937472,
      Cert 4 8829010 4 8829010 9 13795328 10 8945664,
      Cert 4 8839495 4 8839495 9 13811711 10 8953856,
      Cert 4 8849981 4 8849981 9 13828096 10 8962048,
      Cert 4 8860467 4 8860467 9 13844480 10 8970240,
      Cert 4 8870953 4 8870953 9 13860864 10 8978432,
      Cert 4 8881439 4 8881439 9 13877249 10 8986624,
      Cert 4 8891924 4 8891924 9 13893632 10 8994816,
      Cert 4 8902410 4 8902410 9 13910016 10 9003008,
      Cert 4 8912896 4 8912896 9 13926400 10 9011200,
      Cert 4 8923382 4 8923382 9 13942785 10 9019392,
      Cert 4 8933867 4 8933867 9 13959167 10 9027584,
      Cert 4 8944353 4 8944353 9 13975552 10 9035776,
      Cert 4 8954839 4 8954839 9 13991936 10 9043968,
      Cert 4 8965325 4 8965325 9 14008321 10 9052160,
      Cert 4 8975810 4 8975810 9 14024703 10 9060352,
      Cert 4 8986296 4 8986296 9 14041088 10 9068544,
      Cert 4 8996782 4 8996782 9 14057472 10 9076736,
      Cert 4 9007268 4 9007268 9 14073857 10 9084928,
      Cert 4 9017753 4 9017753 9 14090239 10 9093120,
      Cert 4 9028239 4 9028239 9 14106624 10 9101312,
      Cert 4 9038725 4 9038725 9 14123008 10 9109504,
      Cert 4 9049211 4 9049211 9 14139393 10 9117696,
      Cert 4 9059696 4 9059696 9 14155775 10 9125888,
      Cert 4 9070182 4 9070182 9 14172160 10 9134080,
      Cert 4 9080668 4 9080668 9 14188544 10 9142272,
      Cert 4 9091154 4 9091154 9 14204928 10 9150464,
      Cert 4 9101639 4 9101639 9 14221311 10 9158656,
      Cert 4 9112125 4 9112125 9 14237696 10 9166848,
      Cert 4 9122611 4 9122611 9 14254080 10 9175040,
      Cert 4 9133097 4 9133097 9 14270464 10 9183232,
      Cert 4 9143583 4 9143583 9 14286849 10 9191424,
      Cert 4 9154068 4 9154068 9 14303232 10 9199616,
      Cert 4 9164554 4 9164554 9 14319616 10 9207808,
      Cert 4 9175040 4 9175040 9 14336000 10 9216000,
      Cert 4 9185526 4 9185526 9 14352385 10 9224192,
      Cert 4 9196011 4 9196011 9 14368768 10 9232384,
      Cert 4 9206497 4 9206497 9 14385152 10 9240576,
      Cert 4 9216983 4 9216983 9 14401536 10 9248768,
      Cert 4 9227469 4 9227469 9 14417921 10 9256960,
      Cert 4 9237954 4 9237954 9 14434303 10 9265152,
      Cert 4 9248440 4 9248440 9 14450688 10 9273344,
      Cert 4 9258926 4 9258926 9 14467072 10 9281536,
      Cert 4 9269412 4 9269412 9 14483457 10 9289728,
      Cert 4 9279897 4 9279897 9 14499839 10 9297920,
      Cert 4 9290383 4 9290383 9 14516224 10 9306112,
      Cert 4 9300869 4 9300869 9 14532608 10 9314304,
      Cert 4 9311355 4 9311355 9 14548993 10 9322496,
      Cert 4 9321840 4 9321840 9 14565375 10 9330688,
      Cert 4 9332326 4 9332326 9 14581760 10 9338880,
      Cert 4 9342812 4 9342812 9 14598144 10 9347072,
      Cert 4 9353298 4 9353298 9 14614528 10 9355264,
      Cert 4 9363783 4 9363783 9 14630911 10 9363456,
      Cert 4 9374269 4 9374269 9 14647296 10 9371648,
      Cert 4 9384755 4 9384755 9 14663680 10 9379840,
      Cert 4 9395241 4 9395241 9 14680064 10 9388032,
      Cert 4 9405727 4 9405727 9 14696449 10 9396224,
      Cert 4 9416212 4 9416212 9 14712832 10 9404416,
      Cert 4 9426698 4 9426698 9 14729216 10 9412608,
      Cert 4 9437184 4 9437184 9 14745600 10 9420800]"

definition certs_10 :: "cert list" where
  "certs_10 =
     [Cert 4 9447670 4 9447670 9 14761985 10 9428992,
      Cert 4 9458155 4 9458155 9 14778368 10 9437184,
      Cert 4 9468641 4 9468641 9 14794752 10 9445376,
      Cert 4 9479127 4 9479127 9 14811136 10 9453568,
      Cert 4 9489613 4 9489613 9 14827521 10 9461760,
      Cert 4 9500098 4 9500098 9 14843903 10 9469952,
      Cert 4 9510584 4 9510584 9 14860288 10 9478144,
      Cert 4 9521070 4 9521070 9 14876672 10 9486336,
      Cert 4 9531556 4 9531556 9 14893057 10 9494528,
      Cert 4 9542041 4 9542041 9 14909439 10 9502720,
      Cert 4 9552527 4 9552527 9 14925824 10 9510912,
      Cert 4 9563013 4 9563013 9 14942208 10 9519104,
      Cert 4 9573499 4 9573499 9 14958593 10 9527296,
      Cert 4 9583984 4 9583984 9 14974975 10 9535488,
      Cert 4 9594470 4 9594470 9 14991360 10 9543680,
      Cert 4 9604956 4 9604956 9 15007744 10 9551872,
      Cert 4 9615442 4 9615442 9 15024128 10 9560064,
      Cert 4 9625927 4 9625927 9 15040511 10 9568256,
      Cert 4 9636413 4 9636413 9 15056896 10 9576448,
      Cert 4 9646899 4 9646899 9 15073280 10 9584640,
      Cert 4 9657385 4 9657385 9 15089664 10 9592832,
      Cert 4 9667871 4 9667871 9 15106049 10 9601024,
      Cert 4 9678356 4 9678356 9 15122432 10 9609216,
      Cert 4 9688842 4 9688842 9 15138816 10 9617408,
      Cert 4 9699328 4 9699328 9 15155200 10 9625600,
      Cert 4 9709814 4 9709814 9 15171585 10 9633792,
      Cert 4 9720299 4 9720299 9 15187968 10 9641984,
      Cert 4 9730785 4 9730785 9 15204352 10 9650176,
      Cert 4 9741271 4 9741271 9 15220736 10 9658368,
      Cert 4 9751757 4 9751757 9 15237121 10 9666560,
      Cert 4 9762242 4 9762242 9 15253503 10 9674752,
      Cert 4 9772728 4 9772728 9 15269888 10 9682944,
      Cert 4 9783214 4 9783214 9 15286272 10 9691136,
      Cert 4 9793700 4 9793700 9 15302657 10 9699328,
      Cert 4 9804185 4 9804185 9 15319039 10 9707520,
      Cert 4 9814671 4 9814671 9 15335424 10 9715712,
      Cert 4 9825157 4 9825157 9 15351808 10 9723904,
      Cert 4 9835643 4 9835643 9 15368193 10 9732096,
      Cert 4 9846128 4 9846128 9 15384575 10 9740288,
      Cert 4 9856614 4 9856614 9 15400960 10 9748480,
      Cert 4 9867100 4 9867100 9 15417344 10 9756672,
      Cert 4 9877586 4 9877586 9 15433728 10 9764864,
      Cert 4 9888071 4 9888071 9 15450111 10 9773056,
      Cert 4 9898557 4 9898557 9 15466496 10 9781248,
      Cert 4 9909043 4 9909043 9 15482880 10 9789440,
      Cert 4 9919529 4 9919529 9 15499264 10 9797632,
      Cert 4 9930014 4 9930014 9 15515647 10 9805824,
      Cert 4 9940500 4 9940500 9 15532032 10 9814016,
      Cert 4 9950986 4 9950986 9 15548416 10 9822208,
      Cert 4 9961472 4 9961472 9 15564800 10 9830400,
      Cert 4 9971958 4 9971958 9 15581185 10 9838592,
      Cert 4 9982443 4 9982443 9 15597568 10 9846784,
      Cert 4 9992929 4 9992929 9 15613952 10 9854976,
      Cert 4 10003415 4 10003415 9 15630336 10 9863168,
      Cert 4 10013901 4 10013901 9 15646721 10 9871360,
      Cert 4 10024386 4 10024386 9 15663103 10 9879552,
      Cert 4 10034872 4 10034872 9 15679488 10 9887744,
      Cert 4 10045358 4 10045358 9 15695872 10 9895936,
      Cert 4 10055844 4 10055844 9 15712257 10 9904128,
      Cert 4 10066329 4 10066329 9 15728639 10 9912320,
      Cert 4 10076815 4 10076815 9 15745024 10 9920512,
      Cert 4 10087301 4 10087301 9 15761408 10 9928704,
      Cert 4 10097787 4 10097787 9 15777793 10 9936896,
      Cert 4 10108272 4 10108272 9 15794175 10 9945088,
      Cert 4 10118758 4 10118758 9 15810560 10 9953280,
      Cert 4 10129244 4 10129244 9 15826944 10 9961472,
      Cert 4 10139730 4 10139730 9 15843328 10 9969664,
      Cert 4 10150215 4 10150215 9 15859711 10 9977856,
      Cert 4 10160701 4 10160701 9 15876096 10 9986048,
      Cert 4 10171187 4 10171187 9 15892480 10 9994240,
      Cert 4 10181673 4 10181673 9 15908864 10 10002432,
      Cert 4 10192158 4 10192158 9 15925247 10 10010624,
      Cert 4 10202644 4 10202644 9 15941632 10 10018816,
      Cert 4 10213130 4 10213130 9 15958016 10 10027008,
      Cert 4 10223616 4 10223616 9 15974400 10 10035200,
      Cert 4 10234102 4 10234102 9 15990785 10 10043392,
      Cert 4 10244587 4 10244587 9 16007168 10 10051584,
      Cert 4 10255073 4 10255073 9 16023552 10 10059776,
      Cert 4 10265559 4 10265559 9 16039936 10 10067968,
      Cert 4 10276045 4 10276045 9 16056321 10 10076160,
      Cert 4 10286530 4 10286530 9 16072703 10 10084352,
      Cert 4 10297016 4 10297016 9 16089088 10 10092544,
      Cert 4 10307502 4 10307502 9 16105472 10 10100736,
      Cert 4 10317988 4 10317988 9 16121857 10 10108928,
      Cert 4 10328473 4 10328473 9 16138239 10 10117120,
      Cert 4 10338959 4 10338959 9 16154624 10 10125312,
      Cert 4 10349445 4 10349445 9 16171008 10 10133504,
      Cert 4 10359931 4 10359931 9 16187393 10 10141696,
      Cert 4 10370416 4 10370416 9 16203775 10 10149888,
      Cert 4 10380902 4 10380902 9 16220160 10 10158080,
      Cert 4 10391388 4 10391388 9 16236544 10 10166272,
      Cert 4 10401874 4 10401874 9 16252928 10 10174464,
      Cert 4 10412359 4 10412359 9 16269311 10 10182656,
      Cert 4 10422845 4 10422845 9 16285696 10 10190848,
      Cert 4 10433331 4 10433331 9 16302080 10 10199040,
      Cert 4 10443817 4 10443817 9 16318464 10 10207232,
      Cert 4 10454302 4 10454302 9 16334847 10 10215424,
      Cert 4 10464788 4 10464788 9 16351232 10 10223616,
      Cert 4 10475274 4 10475274 9 16367616 10 10231808,
      Cert 4 10485760 4 10485760 9 16384000 10 10240000]"

definition certs_11 :: "cert list" where
  "certs_11 =
     [Cert 4 10496246 4 10496246 9 16400385 10 10248192,
      Cert 4 10506731 4 10506731 9 16416768 10 10256384,
      Cert 4 10517217 4 10517217 9 16433152 10 10264576,
      Cert 4 10527703 4 10527703 9 16449536 10 10272768,
      Cert 4 10538189 4 10538189 9 16465921 10 10280960,
      Cert 4 10548674 4 10548674 9 16482303 10 10289152,
      Cert 4 10559160 4 10559160 9 16498688 10 10297344,
      Cert 4 10569646 4 10569646 9 16515072 10 10305536,
      Cert 4 10580132 4 10580132 9 16531457 10 10313728,
      Cert 4 10590617 4 10590617 9 16547839 10 10321920,
      Cert 4 10601103 4 10601103 9 16564224 10 10330112,
      Cert 4 10611589 4 10611589 9 16580608 10 10338304,
      Cert 4 10622075 4 10622075 9 16596993 10 10346496,
      Cert 4 10632560 4 10632560 9 16613375 10 10354688,
      Cert 4 10643046 4 10643046 9 16629760 10 10362880,
      Cert 4 10653532 4 10653532 9 16646144 10 10371072,
      Cert 4 10664018 4 10664018 9 16662528 10 10379264,
      Cert 4 10674503 4 10674503 9 16678911 10 10387456,
      Cert 4 10684989 4 10684989 9 16695296 10 10395648,
      Cert 4 10695475 4 10695475 9 16711680 10 10403840,
      Cert 4 10705961 4 10705961 9 16728064 10 10412032,
      Cert 4 10716446 4 10716446 9 16744447 10 10420224,
      Cert 4 10726932 4 10726932 9 16760832 10 10428416,
      Cert 4 10737418 4 10737418 10 8388608 10 10436608,
      Cert 4 10747904 4 10747904 10 8396800 10 10444800,
      Cert 4 10758390 4 10758390 10 8404992 10 10452992,
      Cert 4 10768875 4 10768875 10 8413184 10 10461184,
      Cert 4 10779361 4 10779361 10 8421376 10 10469376,
      Cert 4 10789847 4 10789847 10 8429568 10 10477568,
      Cert 4 10800333 4 10800333 10 8437760 10 10485760,
      Cert 4 10810818 4 10810818 10 8445952 10 10493952,
      Cert 4 10821304 4 10821304 10 8454144 10 10502144,
      Cert 4 10831790 4 10831790 10 8462336 10 10510336,
      Cert 4 10842276 4 10842276 10 8470528 10 10518528,
      Cert 4 10852761 4 10852761 10 8478720 10 10526720,
      Cert 4 10863247 4 10863247 10 8486912 10 10534912,
      Cert 4 10873733 4 10873733 10 8495104 10 10543104,
      Cert 4 10884219 4 10884219 10 8503296 10 10551296,
      Cert 4 10894704 4 10894704 10 8511488 10 10559488,
      Cert 4 10905190 4 10905190 10 8519680 10 10567680,
      Cert 4 10915676 4 10915676 10 8527872 10 10575872,
      Cert 4 10926162 4 10926162 10 8536064 10 10584064,
      Cert 4 10936647 4 10936647 10 8544256 10 10592256,
      Cert 4 10947133 4 10947133 10 8552448 10 10600448,
      Cert 4 10957619 4 10957619 10 8560640 10 10608640,
      Cert 4 10968105 4 10968105 10 8568832 10 10616832,
      Cert 4 10978590 4 10978590 10 8577024 10 10625024,
      Cert 4 10989076 4 10989076 10 8585216 10 10633216,
      Cert 4 10999562 4 10999562 10 8593408 10 10641408,
      Cert 4 11010048 4 11010048 10 8601600 10 10649600,
      Cert 4 11020534 4 11020534 10 8609792 10 10657792,
      Cert 4 11031019 4 11031019 10 8617984 10 10665984,
      Cert 4 11041505 4 11041505 10 8626176 10 10674176,
      Cert 4 11051991 4 11051991 10 8634368 10 10682368,
      Cert 4 11062477 4 11062477 10 8642560 10 10690560,
      Cert 4 11072962 4 11072962 10 8650752 10 10698752,
      Cert 4 11083448 4 11083448 10 8658944 10 10706944,
      Cert 4 11093934 4 11093934 10 8667136 10 10715136,
      Cert 4 11104420 4 11104420 10 8675328 10 10723328,
      Cert 4 11114905 4 11114905 10 8683520 10 10731520,
      Cert 4 11125391 4 11125391 10 8691712 10 10739712,
      Cert 4 11135877 4 11135877 10 8699904 10 10747904,
      Cert 4 11146363 4 11146363 10 8708096 10 10756096,
      Cert 4 11156848 4 11156848 10 8716288 10 10764288,
      Cert 4 11167334 4 11167334 10 8724480 10 10772480,
      Cert 4 11177820 4 11177820 10 8732672 10 10780672,
      Cert 4 11188306 4 11188306 10 8740864 10 10788864,
      Cert 4 11198791 4 11198791 10 8749056 10 10797056,
      Cert 4 11209277 4 11209277 10 8757248 10 10805248,
      Cert 4 11219763 4 11219763 10 8765440 10 10813440,
      Cert 4 11230249 4 11230249 10 8773632 10 10821632,
      Cert 4 11240734 4 11240734 10 8781824 10 10829824,
      Cert 4 11251220 4 11251220 10 8790016 10 10838016,
      Cert 4 11261706 4 11261706 10 8798208 10 10846208,
      Cert 4 11272192 4 11272192 10 8806400 10 10854400,
      Cert 4 11282678 4 11282678 10 8814592 10 10862592,
      Cert 4 11293163 4 11293163 10 8822784 10 10870784,
      Cert 4 11303649 4 11303649 10 8830976 10 10878976,
      Cert 4 11314135 4 11314135 10 8839168 10 10887168,
      Cert 4 11324621 4 11324621 10 8847360 10 10895360,
      Cert 4 11335106 4 11335106 10 8855552 10 10903552,
      Cert 4 11345592 4 11345592 10 8863744 10 10911744,
      Cert 4 11356078 4 11356078 10 8871936 10 10919936,
      Cert 4 11366564 4 11366564 10 8880128 10 10928128,
      Cert 4 11377049 4 11377049 10 8888320 10 10936320,
      Cert 4 11387535 4 11387535 10 8896512 10 10944512,
      Cert 4 11398021 4 11398021 10 8904704 10 10952704,
      Cert 4 11408507 4 11408507 10 8912896 10 10960896,
      Cert 4 11418992 4 11418992 10 8921088 10 10969088,
      Cert 4 11429478 4 11429478 10 8929280 10 10977280,
      Cert 4 11439964 4 11439964 10 8937472 10 10985472,
      Cert 4 11450450 4 11450450 10 8945664 10 10993664,
      Cert 4 11460935 4 11460935 10 8953856 10 11001856,
      Cert 4 11471421 4 11471421 10 8962048 10 11010048,
      Cert 4 11481907 4 11481907 10 8970240 10 11018240,
      Cert 4 11492393 4 11492393 10 8978432 10 11026432,
      Cert 4 11502878 4 11502878 10 8986624 10 11034624,
      Cert 4 11513364 4 11513364 10 8994816 10 11042816,
      Cert 4 11523850 4 11523850 10 9003008 10 11051008,
      Cert 4 11534336 4 11534336 10 9011200 10 11059200]"

definition certs_12 :: "cert list" where
  "certs_12 =
     [Cert 4 11544822 4 11544822 10 9019392 10 11067392,
      Cert 4 11555307 4 11555307 10 9027584 10 11075584,
      Cert 4 11565793 4 11565793 10 9035776 10 11083776,
      Cert 4 11576279 4 11576279 10 9043968 10 11091968,
      Cert 4 11586765 4 11586765 10 9052160 10 11100160,
      Cert 4 11597250 4 11597250 10 9060352 10 11108352,
      Cert 4 11607736 4 11607736 10 9068544 10 11116544,
      Cert 4 11618222 4 11618222 10 9076736 10 11124736,
      Cert 4 11628708 4 11628708 10 9084928 10 11132928,
      Cert 4 11639193 4 11639193 10 9093120 10 11141120,
      Cert 4 11649679 4 11649679 10 9101312 10 11149312,
      Cert 4 11660165 4 11660165 10 9109504 10 11157504,
      Cert 4 11670651 4 11670651 10 9117696 10 11165696,
      Cert 4 11681136 4 11681136 10 9125888 10 11173888,
      Cert 4 11691622 4 11691622 10 9134080 10 11182080,
      Cert 4 11702108 4 11702108 10 9142272 10 11190272,
      Cert 4 11712594 4 11712594 10 9150464 10 11198464,
      Cert 4 11723079 4 11723079 10 9158656 10 11206656,
      Cert 4 11733565 4 11733565 10 9166848 10 11214848,
      Cert 4 11744051 4 11744051 10 9175040 10 11223040,
      Cert 4 11754537 4 11754537 10 9183232 10 11231232,
      Cert 4 11765022 4 11765022 10 9191424 10 11239424,
      Cert 4 11775508 4 11775508 10 9199616 10 11247616,
      Cert 4 11785994 4 11785994 10 9207808 10 11255808,
      Cert 4 11796480 4 11796480 10 9216000 10 11264000,
      Cert 4 11806965 4 11806965 10 9224192 10 11272192,
      Cert 4 11817451 4 11817451 10 9232384 10 11280384,
      Cert 4 11827937 4 11827937 10 9240576 10 11288576,
      Cert 4 11838423 4 11838423 10 9248768 10 11296768,
      Cert 4 11848909 4 11848909 10 9256960 10 11304960,
      Cert 4 11859394 4 11859394 10 9265152 10 11313152,
      Cert 4 11869880 4 11869880 10 9273344 10 11321344,
      Cert 4 11880366 4 11880366 10 9281536 10 11329536,
      Cert 4 11890852 4 11890852 10 9289728 10 11337728,
      Cert 4 11901337 4 11901337 10 9297920 10 11345920,
      Cert 4 11911823 4 11911823 10 9306112 10 11354112,
      Cert 4 11922309 4 11922309 10 9314304 10 11362304,
      Cert 4 11932795 4 11932795 10 9322496 10 11370496,
      Cert 4 11943280 4 11943280 10 9330688 10 11378688,
      Cert 4 11953766 4 11953766 10 9338880 10 11386880,
      Cert 4 11964252 4 11964252 10 9347072 10 11395072,
      Cert 4 11974738 4 11974738 10 9355264 10 11403264,
      Cert 4 11985223 4 11985223 10 9363456 10 11411456,
      Cert 4 11995709 4 11995709 10 9371648 10 11419648,
      Cert 4 12006195 4 12006195 10 9379840 10 11427840,
      Cert 4 12016681 4 12016681 10 9388032 10 11436032,
      Cert 4 12027166 4 12027166 10 9396224 10 11444224,
      Cert 4 12037652 4 12037652 10 9404416 10 11452416,
      Cert 4 12048138 4 12048138 10 9412608 10 11460608,
      Cert 4 12058624 4 12058624 10 9420800 10 11468800,
      Cert 4 12069109 4 12069109 10 9428992 10 11476992,
      Cert 4 12079595 4 12079595 10 9437184 10 11485184,
      Cert 4 12090081 4 12090081 10 9445376 10 11493376,
      Cert 4 12100567 4 12100567 10 9453568 10 11501568,
      Cert 4 12111053 4 12111053 10 9461760 10 11509760,
      Cert 4 12121538 4 12121538 10 9469952 10 11517952,
      Cert 4 12132024 4 12132024 10 9478144 10 11526144,
      Cert 4 12142510 4 12142510 10 9486336 10 11534336,
      Cert 4 12152996 4 12152996 10 9494528 10 11542528,
      Cert 4 12163481 4 12163481 10 9502720 10 11550720,
      Cert 4 12173967 4 12173967 10 9510912 10 11558912,
      Cert 4 12184453 4 12184453 10 9519104 10 11567104,
      Cert 4 12194939 4 12194939 10 9527296 10 11575296,
      Cert 4 12205424 4 12205424 10 9535488 10 11583488,
      Cert 4 12215910 4 12215910 10 9543680 10 11591680,
      Cert 4 12226396 4 12226396 10 9551872 10 11599872,
      Cert 4 12236882 4 12236882 10 9560064 10 11608064,
      Cert 4 12247367 4 12247367 10 9568256 10 11616256,
      Cert 4 12257853 4 12257853 10 9576448 10 11624448,
      Cert 4 12268339 4 12268339 10 9584640 10 11632640,
      Cert 4 12278825 4 12278825 10 9592832 10 11640832,
      Cert 4 12289310 4 12289310 10 9601024 10 11649024,
      Cert 4 12299796 4 12299796 10 9609216 10 11657216,
      Cert 4 12310282 4 12310282 10 9617408 10 11665408,
      Cert 4 12320768 4 12320768 10 9625600 10 11673600,
      Cert 4 12331253 4 12331253 10 9633792 10 11681792,
      Cert 4 12341739 4 12341739 10 9641984 10 11689984,
      Cert 4 12352225 4 12352225 10 9650176 10 11698176,
      Cert 4 12362711 4 12362711 10 9658368 10 11706368,
      Cert 4 12373197 4 12373197 10 9666560 10 11714560,
      Cert 4 12383682 4 12383682 10 9674752 10 11722752,
      Cert 4 12394168 4 12394168 10 9682944 10 11730944,
      Cert 4 12404654 4 12404654 10 9691136 10 11739136,
      Cert 4 12415140 4 12415140 10 9699328 10 11747328,
      Cert 4 12425625 4 12425625 10 9707520 10 11755520,
      Cert 4 12436111 4 12436111 10 9715712 10 11763712,
      Cert 4 12446597 4 12446597 10 9723904 10 11771904,
      Cert 4 12457083 4 12457083 10 9732096 10 11780096,
      Cert 4 12467568 4 12467568 10 9740288 10 11788288,
      Cert 4 12478054 4 12478054 10 9748480 10 11796480,
      Cert 4 12488540 4 12488540 10 9756672 10 11804672,
      Cert 4 12499026 4 12499026 10 9764864 10 11812864,
      Cert 4 12509511 4 12509511 10 9773056 10 11821056,
      Cert 4 12519997 4 12519997 10 9781248 10 11829248,
      Cert 4 12530483 4 12530483 10 9789440 10 11837440,
      Cert 4 12540969 4 12540969 10 9797632 10 11845632,
      Cert 4 12551454 4 12551454 10 9805824 10 11853824,
      Cert 4 12561940 4 12561940 10 9814016 10 11862016,
      Cert 4 12572426 4 12572426 10 9822208 10 11870208,
      Cert 4 12582912 4 12582912 10 9830400 10 11878400]"

definition certs_13 :: "cert list" where
  "certs_13 =
     [Cert 4 12593397 4 12593397 10 9838592 10 11886592,
      Cert 4 12603883 4 12603883 10 9846784 10 11894784,
      Cert 4 12614369 4 12614369 10 9854976 10 11902976,
      Cert 4 12624855 4 12624855 10 9863168 10 11911168,
      Cert 4 12635341 4 12635341 10 9871360 10 11919360,
      Cert 4 12645826 4 12645826 10 9879552 10 11927552,
      Cert 4 12656312 4 12656312 10 9887744 10 11935744,
      Cert 4 12666798 4 12666798 10 9895936 10 11943936,
      Cert 4 12677284 4 12677284 10 9904128 10 11952128,
      Cert 4 12687769 4 12687769 10 9912320 10 11960320,
      Cert 4 12698255 4 12698255 10 9920512 10 11968512,
      Cert 4 12708741 4 12708741 10 9928704 10 11976704,
      Cert 4 12719227 4 12719227 10 9936896 10 11984896,
      Cert 4 12729712 4 12729712 10 9945088 10 11993088,
      Cert 4 12740198 4 12740198 10 9953280 10 12001280,
      Cert 4 12750684 4 12750684 10 9961472 10 12009472,
      Cert 4 12761170 4 12761170 10 9969664 10 12017664,
      Cert 4 12771655 4 12771655 10 9977856 10 12025856,
      Cert 4 12782141 4 12782141 10 9986048 10 12034048,
      Cert 4 12792627 4 12792627 10 9994240 10 12042240,
      Cert 4 12803113 4 12803113 10 10002432 10 12050432,
      Cert 4 12813598 4 12813598 10 10010624 10 12058624,
      Cert 4 12824084 4 12824084 10 10018816 10 12066816,
      Cert 4 12834570 4 12834570 10 10027008 10 12075008,
      Cert 4 12845056 4 12845056 10 10035200 10 12083200,
      Cert 4 12855541 4 12855541 10 10043392 10 12091392,
      Cert 4 12866027 4 12866027 10 10051584 10 12099584,
      Cert 4 12876513 4 12876513 10 10059776 10 12107776,
      Cert 4 12886999 4 12886999 10 10067968 10 12115968,
      Cert 4 12897485 4 12897485 10 10076160 10 12124160,
      Cert 4 12907970 4 12907970 10 10084352 10 12132352,
      Cert 4 12918456 4 12918456 10 10092544 10 12140544,
      Cert 4 12928942 4 12928942 10 10100736 10 12148736,
      Cert 4 12939428 4 12939428 10 10108928 10 12156928,
      Cert 4 12949913 4 12949913 10 10117120 10 12165120,
      Cert 4 12960399 4 12960399 10 10125312 10 12173312,
      Cert 4 12970885 4 12970885 10 10133504 10 12181504,
      Cert 4 12981371 4 12981371 10 10141696 10 12189696,
      Cert 4 12991856 4 12991856 10 10149888 10 12197888,
      Cert 4 13002342 4 13002342 10 10158080 10 12206080,
      Cert 4 13012828 4 13012828 10 10166272 10 12214272,
      Cert 4 13023314 4 13023314 10 10174464 10 12222464,
      Cert 4 13033799 4 13033799 10 10182656 10 12230656,
      Cert 4 13044285 4 13044285 10 10190848 10 12238848,
      Cert 4 13054771 4 13054771 10 10199040 10 12247040,
      Cert 4 13065257 4 13065257 10 10207232 10 12255232,
      Cert 4 13075742 4 13075742 10 10215424 10 12263424,
      Cert 4 13086228 4 13086228 10 10223616 10 12271616,
      Cert 4 13096714 4 13096714 10 10231808 10 12279808,
      Cert 4 13107200 4 13107200 10 10240000 10 12288000,
      Cert 4 13117685 4 13117685 10 10248192 10 12296192,
      Cert 4 13128171 4 13128171 10 10256384 10 12304384,
      Cert 4 13138657 4 13138657 10 10264576 10 12312576,
      Cert 4 13149143 4 13149143 10 10272768 10 12320768,
      Cert 4 13159629 4 13159629 10 10280960 10 12328960,
      Cert 4 13170114 4 13170114 10 10289152 10 12337152,
      Cert 4 13180600 4 13180600 10 10297344 10 12345344,
      Cert 4 13191086 4 13191086 10 10305536 10 12353536,
      Cert 4 13201572 4 13201572 10 10313728 10 12361728,
      Cert 4 13212057 4 13212057 10 10321920 10 12369920,
      Cert 4 13222543 4 13222543 10 10330112 10 12378112,
      Cert 4 13233029 4 13233029 10 10338304 10 12386304,
      Cert 4 13243515 4 13243515 10 10346496 10 12394496,
      Cert 4 13254000 4 13254000 10 10354688 10 12402688,
      Cert 4 13264486 4 13264486 10 10362880 10 12410880,
      Cert 4 13274972 4 13274972 10 10371072 10 12419072,
      Cert 4 13285458 4 13285458 10 10379264 10 12427264,
      Cert 4 13295943 4 13295943 10 10387456 10 12435456,
      Cert 4 13306429 4 13306429 10 10395648 10 12443648,
      Cert 4 13316915 4 13316915 10 10403840 10 12451840,
      Cert 4 13327401 4 13327401 10 10412032 10 12460032,
      Cert 4 13337886 4 13337886 10 10420224 10 12468224,
      Cert 4 13348372 4 13348372 10 10428416 10 12476416,
      Cert 4 13358858 4 13358858 10 10436608 10 12484608,
      Cert 4 13369344 4 13369344 10 10444800 10 12492800,
      Cert 4 13379829 4 13379829 10 10452992 10 12500992,
      Cert 4 13390315 4 13390315 10 10461184 10 12509184,
      Cert 4 13400801 4 13400801 10 10469376 10 12517376,
      Cert 4 13411287 4 13411287 10 10477568 10 12525568,
      Cert 4 13421772 4 13421772 10 10485760 10 12533760,
      Cert 4 13432258 4 13432258 10 10493952 10 12541952,
      Cert 4 13442744 4 13442744 10 10502144 10 12550144,
      Cert 4 13453230 4 13453230 10 10510336 10 12558336,
      Cert 4 13463716 4 13463716 10 10518528 10 12566528,
      Cert 4 13474201 4 13474201 10 10526720 10 12574720,
      Cert 4 13484687 4 13484687 10 10534912 10 12582912,
      Cert 4 13495173 4 13495173 10 10543104 10 12591104,
      Cert 4 13505659 4 13505659 10 10551296 10 12599296,
      Cert 4 13516144 4 13516144 10 10559488 10 12607488,
      Cert 4 13526630 4 13526630 10 10567680 10 12615680,
      Cert 4 13537116 4 13537116 10 10575872 10 12623872,
      Cert 4 13547602 4 13547602 10 10584064 10 12632064,
      Cert 4 13558087 4 13558087 10 10592256 10 12640256,
      Cert 4 13568573 4 13568573 10 10600448 10 12648448,
      Cert 4 13579059 4 13579059 10 10608640 10 12656640,
      Cert 4 13589545 4 13589545 10 10616832 10 12664832,
      Cert 4 13600030 4 13600030 10 10625024 10 12673024,
      Cert 4 13610516 4 13610516 10 10633216 10 12681216,
      Cert 4 13621002 4 13621002 10 10641408 10 12689408,
      Cert 4 13631488 4 13631488 10 10649600 10 12697600]"

definition certs_14 :: "cert list" where
  "certs_14 =
     [Cert 4 13641973 4 13641973 10 10657792 10 12705792,
      Cert 4 13652459 4 13652459 10 10665984 10 12713984,
      Cert 4 13662945 4 13662945 10 10674176 10 12722176,
      Cert 4 13673431 4 13673431 10 10682368 10 12730368,
      Cert 4 13683916 4 13683916 10 10690560 10 12738560,
      Cert 4 13694402 4 13694402 10 10698752 10 12746752,
      Cert 4 13704888 4 13704888 10 10706944 10 12754944,
      Cert 4 13715374 4 13715374 10 10715136 10 12763136,
      Cert 4 13725860 4 13725860 10 10723328 10 12771328,
      Cert 4 13736345 4 13736345 10 10731520 10 12779520,
      Cert 4 13746831 4 13746831 10 10739712 10 12787712,
      Cert 4 13757317 4 13757317 10 10747904 10 12795904,
      Cert 4 13767803 4 13767803 10 10756096 10 12804096,
      Cert 4 13778288 4 13778288 10 10764288 10 12812288,
      Cert 4 13788774 4 13788774 10 10772480 10 12820480,
      Cert 4 13799260 4 13799260 10 10780672 10 12828672,
      Cert 4 13809746 4 13809746 10 10788864 10 12836864,
      Cert 4 13820231 4 13820231 10 10797056 10 12845056,
      Cert 4 13830717 4 13830717 10 10805248 10 12853248,
      Cert 4 13841203 4 13841203 10 10813440 10 12861440,
      Cert 4 13851689 4 13851689 10 10821632 10 12869632,
      Cert 4 13862174 4 13862174 10 10829824 10 12877824,
      Cert 4 13872660 4 13872660 10 10838016 10 12886016,
      Cert 4 13883146 4 13883146 10 10846208 10 12894208,
      Cert 4 13893632 4 13893632 10 10854400 10 12902400,
      Cert 4 13904117 4 13904117 10 10862592 10 12910592,
      Cert 4 13914603 4 13914603 10 10870784 10 12918784,
      Cert 4 13925089 4 13925089 10 10878976 10 12926976,
      Cert 4 13935575 4 13935575 10 10887168 10 12935168,
      Cert 4 13946060 4 13946060 10 10895360 10 12943360,
      Cert 4 13956546 4 13956546 10 10903552 10 12951552,
      Cert 4 13967032 4 13967032 10 10911744 10 12959744,
      Cert 4 13977518 4 13977518 10 10919936 10 12967936,
      Cert 4 13988004 4 13988004 10 10928128 10 12976128,
      Cert 4 13998489 4 13998489 10 10936320 10 12984320,
      Cert 4 14008975 4 14008975 10 10944512 10 12992512,
      Cert 4 14019461 4 14019461 10 10952704 10 13000704,
      Cert 4 14029947 4 14029947 10 10960896 10 13008896,
      Cert 4 14040432 4 14040432 10 10969088 10 13017088,
      Cert 4 14050918 4 14050918 10 10977280 10 13025280,
      Cert 4 14061404 4 14061404 10 10985472 10 13033472,
      Cert 4 14071890 4 14071890 10 10993664 10 13041664,
      Cert 4 14082375 4 14082375 10 11001856 10 13049856,
      Cert 4 14092861 4 14092861 10 11010048 10 13058048,
      Cert 4 14103347 4 14103347 10 11018240 10 13066240,
      Cert 4 14113833 4 14113833 10 11026432 10 13074432,
      Cert 4 14124318 4 14124318 10 11034624 10 13082624,
      Cert 4 14134804 4 14134804 10 11042816 10 13090816,
      Cert 4 14145290 4 14145290 10 11051008 10 13099008,
      Cert 4 14155776 4 14155776 10 11059200 10 13107200,
      Cert 4 14166261 4 14166261 10 11067392 10 13115392,
      Cert 4 14176747 4 14176747 10 11075584 10 13123584,
      Cert 4 14187233 4 14187233 10 11083776 10 13131776,
      Cert 4 14197719 4 14197719 10 11091968 10 13139968,
      Cert 4 14208204 4 14208204 10 11100160 10 13148160,
      Cert 4 14218690 4 14218690 10 11108352 10 13156352,
      Cert 4 14229176 4 14229176 10 11116544 10 13164544,
      Cert 4 14239662 4 14239662 10 11124736 10 13172736,
      Cert 4 14250148 4 14250148 10 11132928 10 13180928,
      Cert 4 14260633 4 14260633 10 11141120 10 13189120,
      Cert 4 14271119 4 14271119 10 11149312 10 13197312,
      Cert 4 14281605 4 14281605 10 11157504 10 13205504,
      Cert 4 14292091 4 14292091 10 11165696 10 13213696,
      Cert 4 14302576 4 14302576 10 11173888 10 13221888,
      Cert 4 14313062 4 14313062 10 11182080 10 13230080,
      Cert 4 14323548 4 14323548 10 11190272 10 13238272,
      Cert 4 14334034 4 14334034 10 11198464 10 13246464,
      Cert 4 14344519 4 14344519 10 11206656 10 13254656,
      Cert 4 14355005 4 14355005 10 11214848 10 13262848,
      Cert 4 14365491 4 14365491 10 11223040 10 13271040,
      Cert 4 14375977 4 14375977 10 11231232 10 13279232,
      Cert 4 14386462 4 14386462 10 11239424 10 13287424,
      Cert 4 14396948 4 14396948 10 11247616 10 13295616,
      Cert 4 14407434 4 14407434 10 11255808 10 13303808,
      Cert 4 14417920 4 14417920 10 11264000 10 13312000,
      Cert 4 14428405 4 14428405 10 11272192 10 13320192,
      Cert 4 14438891 4 14438891 10 11280384 10 13328384,
      Cert 4 14449377 4 14449377 10 11288576 10 13336576,
      Cert 4 14459863 4 14459863 10 11296768 10 13344768,
      Cert 4 14470348 4 14470348 10 11304960 10 13352960,
      Cert 4 14480834 4 14480834 10 11313152 10 13361152,
      Cert 4 14491320 4 14491320 10 11321344 10 13369344,
      Cert 4 14501806 4 14501806 10 11329536 10 13377536,
      Cert 4 14512292 4 14512292 10 11337728 10 13385728,
      Cert 4 14522777 4 14522777 10 11345920 10 13393920,
      Cert 4 14533263 4 14533263 10 11354112 10 13402112,
      Cert 4 14543749 4 14543749 10 11362304 10 13410304,
      Cert 4 14554235 4 14554235 10 11370496 10 13418496,
      Cert 4 14564720 4 14564720 10 11378688 10 13426688,
      Cert 4 14575206 4 14575206 10 11386880 10 13434880,
      Cert 4 14585692 4 14585692 10 11395072 10 13443072,
      Cert 4 14596178 4 14596178 10 11403264 10 13451264,
      Cert 4 14606663 4 14606663 10 11411456 10 13459456,
      Cert 4 14617149 4 14617149 10 11419648 10 13467648,
      Cert 4 14627635 4 14627635 10 11427840 10 13475840,
      Cert 4 14638121 4 14638121 10 11436032 10 13484032,
      Cert 4 14648606 4 14648606 10 11444224 10 13492224,
      Cert 4 14659092 4 14659092 10 11452416 10 13500416,
      Cert 4 14669578 4 14669578 10 11460608 10 13508608,
      Cert 4 14680064 4 14680064 10 11468800 10 13516800]"

definition certs_15 :: "cert list" where
  "certs_15 =
     [Cert 4 14690549 4 14690549 10 11476992 10 13524992,
      Cert 4 14701035 4 14701035 10 11485184 10 13533184,
      Cert 4 14711521 4 14711521 10 11493376 10 13541376,
      Cert 4 14722007 4 14722007 10 11501568 10 13549568,
      Cert 4 14732492 4 14732492 10 11509760 10 13557760,
      Cert 4 14742978 4 14742978 10 11517952 10 13565952,
      Cert 4 14753464 4 14753464 10 11526144 10 13574144,
      Cert 4 14763950 4 14763950 10 11534336 10 13582336,
      Cert 4 14774436 4 14774436 10 11542528 10 13590528,
      Cert 4 14784921 4 14784921 10 11550720 10 13598720,
      Cert 4 14795407 4 14795407 10 11558912 10 13606912,
      Cert 4 14805893 4 14805893 10 11567104 10 13615104,
      Cert 4 14816379 4 14816379 10 11575296 10 13623296,
      Cert 4 14826864 4 14826864 10 11583488 10 13631488,
      Cert 4 14837350 4 14837350 10 11591680 10 13639680,
      Cert 4 14847836 4 14847836 10 11599872 10 13647872,
      Cert 4 14858322 4 14858322 10 11608064 10 13656064,
      Cert 4 14868807 4 14868807 10 11616256 10 13664256,
      Cert 4 14879293 4 14879293 10 11624448 10 13672448,
      Cert 4 14889779 4 14889779 10 11632640 10 13680640,
      Cert 4 14900265 4 14900265 10 11640832 10 13688832,
      Cert 4 14910750 4 14910750 10 11649024 10 13697024,
      Cert 4 14921236 4 14921236 10 11657216 10 13705216,
      Cert 4 14931722 4 14931722 10 11665408 10 13713408,
      Cert 4 14942208 4 14942208 10 11673600 10 13721600,
      Cert 4 14952693 4 14952693 10 11681792 10 13729792,
      Cert 4 14963179 4 14963179 10 11689984 10 13737984,
      Cert 4 14973665 4 14973665 10 11698176 10 13746176,
      Cert 4 14984151 4 14984151 10 11706368 10 13754368,
      Cert 4 14994636 4 14994636 10 11714560 10 13762560,
      Cert 4 15005122 4 15005122 10 11722752 10 13770752,
      Cert 4 15015608 4 15015608 10 11730944 10 13778944,
      Cert 4 15026094 4 15026094 10 11739136 10 13787136,
      Cert 4 15036580 4 15036580 10 11747328 10 13795328,
      Cert 4 15047065 4 15047065 10 11755520 10 13803520,
      Cert 4 15057551 4 15057551 10 11763712 10 13811712,
      Cert 4 15068037 4 15068037 10 11771904 10 13819904,
      Cert 4 15078523 4 15078523 10 11780096 10 13828096,
      Cert 4 15089008 4 15089008 10 11788288 10 13836288,
      Cert 4 15099494 4 15099494 10 11796480 10 13844480,
      Cert 4 15109980 4 15109980 10 11804672 10 13852672,
      Cert 4 15120466 4 15120466 10 11812864 10 13860864,
      Cert 4 15130951 4 15130951 10 11821056 10 13869056,
      Cert 4 15141437 4 15141437 10 11829248 10 13877248,
      Cert 4 15151923 4 15151923 10 11837440 10 13885440,
      Cert 4 15162409 4 15162409 10 11845632 10 13893632,
      Cert 4 15172894 4 15172894 10 11853824 10 13901824,
      Cert 4 15183380 4 15183380 10 11862016 10 13910016,
      Cert 4 15193866 4 15193866 10 11870208 10 13918208,
      Cert 4 15204352 4 15204352 10 11878400 10 13926400,
      Cert 4 15214837 4 15214837 10 11886592 10 13934592,
      Cert 4 15225323 4 15225323 10 11894784 10 13942784,
      Cert 4 15235809 4 15235809 10 11902976 10 13950976,
      Cert 4 15246295 4 15246295 10 11911168 10 13959168,
      Cert 4 15256780 4 15256780 10 11919360 10 13967360,
      Cert 4 15267266 4 15267266 10 11927552 10 13975552,
      Cert 4 15277752 4 15277752 10 11935744 10 13983744,
      Cert 4 15288238 4 15288238 10 11943936 10 13991936,
      Cert 4 15298723 4 15298723 10 11952128 10 14000128,
      Cert 4 15309209 4 15309209 10 11960320 10 14008320,
      Cert 4 15319695 4 15319695 10 11968512 10 14016512,
      Cert 4 15330181 4 15330181 10 11976704 10 14024704,
      Cert 4 15340667 4 15340667 10 11984896 10 14032896,
      Cert 4 15351152 4 15351152 10 11993088 10 14041088,
      Cert 4 15361638 4 15361638 10 12001280 10 14049280,
      Cert 4 15372124 4 15372124 10 12009472 10 14057472,
      Cert 4 15382610 4 15382610 10 12017664 10 14065664,
      Cert 4 15393095 4 15393095 10 12025856 10 14073856,
      Cert 4 15403581 4 15403581 10 12034048 10 14082048,
      Cert 4 15414067 4 15414067 10 12042240 10 14090240,
      Cert 4 15424553 4 15424553 10 12050432 10 14098432,
      Cert 4 15435038 4 15435038 10 12058624 10 14106624,
      Cert 4 15445524 4 15445524 10 12066816 10 14114816,
      Cert 4 15456010 4 15456010 10 12075008 10 14123008,
      Cert 4 15466496 4 15466496 10 12083200 10 14131200,
      Cert 4 15476981 4 15476981 10 12091392 10 14139392,
      Cert 4 15487467 4 15487467 10 12099584 10 14147584,
      Cert 4 15497953 4 15497953 10 12107776 10 14155776,
      Cert 4 15508439 4 15508439 10 12115968 10 14163968,
      Cert 4 15518924 4 15518924 10 12124160 10 14172160,
      Cert 4 15529410 4 15529410 10 12132352 10 14180352,
      Cert 4 15539896 4 15539896 10 12140544 10 14188544,
      Cert 4 15550382 4 15550382 10 12148736 10 14196736,
      Cert 4 15560867 4 15560867 10 12156928 10 14204928,
      Cert 4 15571353 4 15571353 10 12165120 10 14213120,
      Cert 4 15581839 4 15581839 10 12173312 10 14221312,
      Cert 4 15592325 4 15592325 10 12181504 10 14229504,
      Cert 4 15602811 4 15602811 10 12189696 10 14237696,
      Cert 4 15613296 4 15613296 10 12197888 10 14245888,
      Cert 4 15623782 4 15623782 10 12206080 10 14254080,
      Cert 4 15634268 4 15634268 10 12214272 10 14262272,
      Cert 4 15644754 4 15644754 10 12222464 10 14270464,
      Cert 4 15655239 4 15655239 10 12230656 10 14278656,
      Cert 4 15665725 4 15665725 10 12238848 10 14286848,
      Cert 4 15676211 4 15676211 10 12247040 10 14295040,
      Cert 4 15686697 4 15686697 10 12255232 10 14303232,
      Cert 4 15697182 4 15697182 10 12263424 10 14311424,
      Cert 4 15707668 4 15707668 10 12271616 10 14319616,
      Cert 4 15718154 4 15718154 10 12279808 10 14327808,
      Cert 4 15728640 4 15728640 10 12288000 10 14336000]"

definition certs_16 :: "cert list" where
  "certs_16 =
     [Cert 4 15739125 4 15739125 10 12296192 10 14344192,
      Cert 4 15749611 4 15749611 10 12304384 10 14352384,
      Cert 4 15760097 4 15760097 10 12312576 10 14360576,
      Cert 4 15770583 4 15770583 10 12320768 10 14368768,
      Cert 4 15781068 4 15781068 10 12328960 10 14376960,
      Cert 4 15791554 4 15791554 10 12337152 10 14385152,
      Cert 4 15802040 4 15802040 10 12345344 10 14393344,
      Cert 4 15812526 4 15812526 10 12353536 10 14401536,
      Cert 4 15823011 4 15823011 10 12361728 10 14409728,
      Cert 4 15833497 4 15833497 10 12369920 10 14417920,
      Cert 4 15843983 4 15843983 10 12378112 10 14426112,
      Cert 4 15854469 4 15854469 10 12386304 10 14434304,
      Cert 4 15864955 4 15864955 10 12394496 10 14442496,
      Cert 4 15875440 4 15875440 10 12402688 10 14450688,
      Cert 4 15885926 4 15885926 10 12410880 10 14458880,
      Cert 4 15896412 4 15896412 10 12419072 10 14467072,
      Cert 4 15906898 4 15906898 10 12427264 10 14475264,
      Cert 4 15917383 4 15917383 10 12435456 10 14483456,
      Cert 4 15927869 4 15927869 10 12443648 10 14491648,
      Cert 4 15938355 4 15938355 10 12451840 10 14499840,
      Cert 4 15948841 4 15948841 10 12460032 10 14508032,
      Cert 4 15959326 4 15959326 10 12468224 10 14516224,
      Cert 4 15969812 4 15969812 10 12476416 10 14524416,
      Cert 4 15980298 4 15980298 10 12484608 10 14532608,
      Cert 4 15990784 4 15990784 10 12492800 10 14540800,
      Cert 4 16001269 4 16001269 10 12500992 10 14548992,
      Cert 4 16011755 4 16011755 10 12509184 10 14557184,
      Cert 4 16022241 4 16022241 10 12517376 10 14565376,
      Cert 4 16032727 4 16032727 10 12525568 10 14573568,
      Cert 4 16043212 4 16043212 10 12533760 10 14581760,
      Cert 4 16053698 4 16053698 10 12541952 10 14589952,
      Cert 4 16064184 4 16064184 10 12550144 10 14598144,
      Cert 4 16074670 4 16074670 10 12558336 10 14606336,
      Cert 4 16085155 4 16085155 10 12566528 10 14614528,
      Cert 4 16095641 4 16095641 10 12574720 10 14622720,
      Cert 4 16106127 4 16106127 10 12582912 10 14630912,
      Cert 4 16116613 4 16116613 10 12591104 10 14639104,
      Cert 4 16127099 4 16127099 10 12599296 10 14647296,
      Cert 4 16137584 4 16137584 10 12607488 10 14655488,
      Cert 4 16148070 4 16148070 10 12615680 10 14663680,
      Cert 4 16158556 4 16158556 10 12623872 10 14671872,
      Cert 4 16169042 4 16169042 10 12632064 10 14680064,
      Cert 4 16179527 4 16179527 10 12640256 10 14688256,
      Cert 4 16190013 4 16190013 10 12648448 10 14696448,
      Cert 4 16200499 4 16200499 10 12656640 10 14704640,
      Cert 4 16210985 4 16210985 10 12664832 10 14712832,
      Cert 4 16221470 4 16221470 10 12673024 10 14721024,
      Cert 4 16231956 4 16231956 10 12681216 10 14729216,
      Cert 4 16242442 4 16242442 10 12689408 10 14737408,
      Cert 4 16252928 4 16252928 10 12697600 10 14745600,
      Cert 4 16263413 4 16263413 10 12705792 10 14753792,
      Cert 4 16273899 4 16273899 10 12713984 10 14761984,
      Cert 4 16284385 4 16284385 10 12722176 10 14770176,
      Cert 4 16294871 4 16294871 10 12730368 10 14778368,
      Cert 4 16305356 4 16305356 10 12738560 10 14786560,
      Cert 4 16315842 4 16315842 10 12746752 10 14794752,
      Cert 4 16326328 4 16326328 10 12754944 10 14802944,
      Cert 4 16336814 4 16336814 10 12763136 10 14811136,
      Cert 4 16347299 4 16347299 10 12771328 10 14819328,
      Cert 4 16357785 4 16357785 10 12779520 10 14827520,
      Cert 4 16368271 4 16368271 10 12787712 10 14835712,
      Cert 4 16378757 4 16378757 10 12795904 10 14843904,
      Cert 4 16389243 4 16389243 10 12804096 10 14852096,
      Cert 4 16399728 4 16399728 10 12812288 10 14860288,
      Cert 4 16410214 4 16410214 10 12820480 10 14868480,
      Cert 4 16420700 4 16420700 10 12828672 10 14876672,
      Cert 4 16431186 4 16431186 10 12836864 10 14884864,
      Cert 4 16441671 4 16441671 10 12845056 10 14893056,
      Cert 4 16452157 4 16452157 10 12853248 10 14901248,
      Cert 4 16462643 4 16462643 10 12861440 10 14909440,
      Cert 4 16473129 4 16473129 10 12869632 10 14917632,
      Cert 4 16483614 4 16483614 10 12877824 10 14925824,
      Cert 4 16494100 4 16494100 10 12886016 10 14934016,
      Cert 4 16504586 4 16504586 10 12894208 10 14942208,
      Cert 4 16515072 4 16515072 10 12902400 10 14950400,
      Cert 4 16525557 4 16525557 10 12910592 10 14958592,
      Cert 4 16536043 4 16536043 10 12918784 10 14966784,
      Cert 4 16546529 4 16546529 10 12926976 10 14974976,
      Cert 4 16557015 4 16557015 10 12935168 10 14983168,
      Cert 4 16567500 4 16567500 10 12943360 10 14991360,
      Cert 4 16577986 4 16577986 10 12951552 10 14999552,
      Cert 4 16588472 4 16588472 10 12959744 10 15007744,
      Cert 4 16598958 4 16598958 10 12967936 10 15015936,
      Cert 4 16609443 4 16609443 10 12976128 10 15024128,
      Cert 4 16619929 4 16619929 10 12984320 10 15032320,
      Cert 4 16630415 4 16630415 10 12992512 10 15040512,
      Cert 4 16640901 4 16640901 10 13000704 10 15048704,
      Cert 4 16651387 4 16651387 10 13008896 10 15056896,
      Cert 4 16661872 4 16661872 10 13017088 10 15065088,
      Cert 4 16672358 4 16672358 10 13025280 10 15073280,
      Cert 4 16682844 4 16682844 10 13033472 10 15081472,
      Cert 4 16693330 4 16693330 10 13041664 10 15089664,
      Cert 4 16703815 4 16703815 10 13049856 10 15097856,
      Cert 4 16714301 4 16714301 10 13058048 10 15106048,
      Cert 4 16724787 4 16724787 10 13066240 10 15114240,
      Cert 4 16735273 4 16735273 10 13074432 10 15122432,
      Cert 4 16745758 4 16745758 10 13082624 10 15130624,
      Cert 4 16756244 4 16756244 10 13090816 10 15138816,
      Cert 4 16766730 4 16766730 10 13099008 10 15147008,
      Cert 4 16777216 5 8388608 10 13107200 10 15155200]"

definition certs_17 :: "cert list" where
  "certs_17 =
     [Cert 5 8393851 5 8393851 10 13115392 10 15163392,
      Cert 5 8399094 5 8399094 10 13123585 10 15171585]"

definition round_trip_certs :: "cert list" where
  "round_trip_certs =
     certs_1 @ certs_2 @ certs_3 @ certs_4 @ certs_5 @ certs_6 @ certs_7 @ certs_8 @ certs_9 @
     certs_10 @ certs_11 @ certs_12 @ certs_13 @ certs_14 @ certs_15 @ certs_16 @ certs_17"

section \<open>Rounding\<close>

lemma find_exp_lower: "- 126 \<le> find_exp m n"
  by (induction n) auto

lemma find_exp_upper: "find_exp m n \<le> int n - 126"
  by (induction n) auto

lemma find_exp_le: "find_exp m n > - 126 \<Longrightarrow> 2 powi (find_exp m n) \<le> m"
  by (induction n) (auto split: if_splits)

lemma find_exp_ge: "2 powi e \<le> m \<Longrightarrow> - 126 \<le> e \<Longrightarrow> e \<le> int n - 126 \<Longrightarrow> e \<le> find_exp m n"
proof (induction n)
  case 0
  then show ?case by simp
next
  case (Suc n)
  show ?case
  proof (cases "2 powi (int (Suc n) - 126) \<le> m")
    case True
    then show ?thesis using Suc.prems by simp
  next
    case False
    with Suc.prems have "e \<noteq> int (Suc n) - 126" by auto
    with Suc.prems have "e \<le> int n - 126" by simp
    with Suc have "e \<le> find_exp m n" by blast
    with False show ?thesis by simp
  qed
qed

lemma find_exp_gt: "find_exp m n < int n - 126 \<Longrightarrow> m < 2 powi (find_exp m n + 1)"
proof (induction n)
  case 0
  then show ?case by simp
next
  case (Suc n)
  show ?case
  proof (cases "2 powi (int (Suc n) - 126) \<le> m")
    case True
    then show ?thesis using Suc.prems by simp
  next
    case False
    show ?thesis
    proof (cases "find_exp m n < int n - 126")
      case True
      with Suc.IH False show ?thesis by simp
    next
      case b: False
      with find_exp_upper [of m n] have "find_exp m n = int n - 126" by simp
      with False show ?thesis by (simp add: add.commute)
    qed
  qed
qed

lemma binade_range: "- 126 \<le> binade m" "binade m \<le> 127"
  using find_exp_lower [of m 253] find_exp_upper [of m 253] by (simp_all add: binade_def)

lemma binade_le: "- 126 < binade m \<Longrightarrow> 2 powi (binade m) \<le> m"
  unfolding binade_def by (rule find_exp_le)

lemma binade_gt: "binade m < 127 \<Longrightarrow> m < 2 powi (binade m + 1)"
  unfolding binade_def using find_exp_gt [of m 253] by simp

lemma binade_ge: "2 powi e \<le> m \<Longrightarrow> - 126 \<le> e \<Longrightarrow> e \<le> 127 \<Longrightarrow> e \<le> binade m"
  unfolding binade_def using find_exp_ge [of e m 253] by simp

lemma binade_eqI:
  assumes "2 powi e \<le> m" "m < 2 powi (e + 1)" "- 126 \<le> e" "e \<le> 127"
  shows "binade m = e"
proof (rule antisym)
  show "e \<le> binade m" using assms by (intro binade_ge)
  show "binade m \<le> e"
  proof (rule ccontr)
    assume "\<not> binade m \<le> e"
    then have lt: "e + 1 \<le> binade m" by simp
    with assms have "- 126 < binade m" by simp
    then have "2 powi (binade m) \<le> m" by (rule binade_le)
    moreover have "(2::real) powi (e + 1) \<le> 2 powi (binade m)"
      using lt by (intro power_int_increasing) simp_all
    ultimately show False using assms(2) by simp
  qed
qed

lemma binade_mono: "a \<le> b \<Longrightarrow> binade a \<le> binade b"
proof (cases "- 126 < binade a")
  case True
  assume "a \<le> b"
  with binade_le [OF True] have "2 powi (binade a) \<le> b" by simp
  then show ?thesis using binade_range [of a] by (rule binade_ge)
next
  case False
  then show ?thesis using binade_range [of a] binade_range [of b] by simp
qed

lemma round_even_of_int [simp]: "round_even (of_int k) = k"
  by (simp add: round_even_def)

lemma round_even_mono: "x \<le> y \<Longrightarrow> round_even x \<le> round_even y"
proof -
  assume xy: "x \<le> y"
  have fl: "\<lfloor>x\<rfloor> \<le> \<lfloor>y\<rfloor>" using xy by (rule floor_mono)
  have up: "round_even x \<le> \<lfloor>x\<rfloor> + 1" by (simp add: round_even_def Let_def)
  have lo: "\<lfloor>y\<rfloor> \<le> round_even y" by (simp add: round_even_def Let_def)
  show ?thesis
  proof (cases "\<lfloor>x\<rfloor> < \<lfloor>y\<rfloor>")
    case True
    with up lo show ?thesis by linarith
  next
    case False
    with fl have eq: "\<lfloor>x\<rfloor> = \<lfloor>y\<rfloor>" by simp
    then show ?thesis using xy by (auto simp: round_even_def Let_def)
  qed
qed

lemma round_even_nonneg: "0 \<le> x \<Longrightarrow> 0 \<le> round_even x"
  using round_even_mono [of 0 x] round_even_of_int [of 0] by simp

lemma ulp_scale: "(2::real) powi e / 2 powi (e - 23) = 2 ^ 23"
  by (simp add: power_int_diff)

lemma ulp_scale_up: "(2::real) powi (e + 1) / 2 powi (e - 23) = 2 ^ 24"
proof -
  have "(2::real) powi (e + 1) / 2 powi (e - 23) = 2 powi ((e + 1) - (e - 23))"
    by (subst power_int_diff) simp_all
  then show ?thesis by simp
qed

lemma round_mag_nonneg: "0 \<le> m \<Longrightarrow> 0 \<le> round_mag m"
  by (simp add: round_mag_def Let_def round_even_nonneg)

lemma round_mag_zero [simp]: "round_mag 0 = 0"
  by (simp add: round_mag_def round_even_def)

lemma round_mag_lower:
  assumes "- 126 < binade m"
  shows "2 powi (binade m) \<le> round_mag m"
proof -
  let ?u = "(2::real) powi (binade m - 23)"
  have "2 powi (binade m) / ?u \<le> m / ?u"
    using binade_le [OF assms] by (simp add: divide_right_mono)
  then have "of_int (2 ^ 23) \<le> m / ?u"
    by (simp add: ulp_scale)
  then have "round_even (of_int (2 ^ 23)) \<le> round_even (m / ?u)"
    by (rule round_even_mono)
  then have "(2::int) ^ 23 \<le> round_even (m / ?u)"
    by (simp only: round_even_of_int)
  then have "real_of_int (2 ^ 23) \<le> of_int (round_even (m / ?u))"
    by (simp only: of_int_le_iff)
  then have "(2::real) ^ 23 \<le> of_int (round_even (m / ?u))"
    by simp
  then have "2 ^ 23 * ?u \<le> of_int (round_even (m / ?u)) * ?u"
    by (rule mult_right_mono) simp
  moreover have "2 ^ 23 * ?u = 2 powi (binade m)"
    using ulp_scale [of "binade m"] by (simp add: field_simps)
  ultimately have "2 powi (binade m) \<le> of_int (round_even (m / ?u)) * ?u"
    by (simp only:)
  then show ?thesis by (simp only: round_mag_def Let_def)
qed

lemma round_mag_upper:
  assumes "binade m < 127"
  shows "round_mag m \<le> 2 powi (binade m + 1)"
proof -
  let ?u = "(2::real) powi (binade m - 23)"
  have "m / ?u \<le> 2 powi (binade m + 1) / ?u"
    using binade_gt [OF assms] by (simp add: divide_right_mono)
  then have "m / ?u \<le> of_int (2 ^ 24)"
    by (simp add: ulp_scale_up)
  then have "round_even (m / ?u) \<le> round_even (of_int (2 ^ 24))"
    by (rule round_even_mono)
  then have "round_even (m / ?u) \<le> (2::int) ^ 24"
    by (simp only: round_even_of_int)
  then have "real_of_int (round_even (m / ?u)) \<le> of_int (2 ^ 24)"
    by (simp only: of_int_le_iff)
  then have "of_int (round_even (m / ?u)) \<le> (2::real) ^ 24"
    by simp
  then have "of_int (round_even (m / ?u)) * ?u \<le> 2 ^ 24 * ?u"
    by (rule mult_right_mono) simp
  moreover have "2 ^ 24 * ?u = 2 powi (binade m + 1)"
    using ulp_scale_up [of "binade m"] by (simp add: field_simps)
  ultimately have "of_int (round_even (m / ?u)) * ?u \<le> 2 powi (binade m + 1)"
    by (simp only:)
  then show ?thesis by (simp only: round_mag_def Let_def)
qed

lemma round_mag_mono:
  assumes "a \<le> b"
  shows "round_mag a \<le> round_mag b"
proof (cases "binade a = binade b")
  case True
  have "a / 2 powi (binade b - 23) \<le> b / 2 powi (binade b - 23)"
    using assms by (simp add: divide_right_mono)
  then have "round_even (a / 2 powi (binade b - 23)) \<le> round_even (b / 2 powi (binade b - 23))"
    by (rule round_even_mono)
  then show ?thesis
    by (simp add: round_mag_def Let_def True mult_right_mono)
next
  case False
  with binade_mono [OF assms] have lt: "binade a < binade b" by simp
  with binade_range [of b] have "binade a < 127" by simp
  then have "round_mag a \<le> 2 powi (binade a + 1)" by (rule round_mag_upper)
  also have "(2::real) powi (binade a + 1) \<le> 2 powi (binade b)"
    using lt by (intro power_int_increasing) simp_all
  also have "2 powi (binade b) \<le> round_mag b"
    using lt binade_range [of a] by (intro round_mag_lower) simp
  finally show ?thesis .
qed

lemma with_sign_zero [simp]: "with_sign s 0 = 0"
  by (simp add: with_sign_def)

lemma with_sign_False [simp]: "with_sign False m = m"
  by (simp add: with_sign_def)

lemma with_sign_True [simp]: "with_sign True m = - m"
  by (simp add: with_sign_def)

lemma round_even_near: "\<bar>x - of_int n\<bar> < 1/2 \<Longrightarrow> round_even x = n"
proof -
  assume a: "\<bar>x - of_int n\<bar> < 1/2"
  show ?thesis
  proof (cases "of_int n \<le> x")
    case True
    with a have "\<lfloor>x\<rfloor> = n" by (intro floor_unique) linarith+
    with a True show ?thesis by (simp add: round_even_def Let_def)
  next
    case False
    with a have "\<lfloor>x\<rfloor> = n - 1" by (intro floor_unique) (simp, linarith)+
    with a False show ?thesis by (auto simp: round_even_def Let_def)
  qed
qed

lemma round_mag_near:
  assumes "2 powi e \<le> m" "m < 2 powi (e + 1)" "- 126 \<le> e" "e \<le> 127"
    and "\<bar>m / 2 powi (e - 23) - of_int n\<bar> < 1/2"
  shows "round_mag m = of_int n * 2 powi (e - 23)"
proof -
  have "binade m = e" using assms(1-4) by (rule binade_eqI)
  then show ?thesis using round_even_near [OF assms(5)] by (simp add: round_mag_def)
qed

lemma rnd_near:
  assumes "2 powi e \<le> m" "m < 2 powi (e + 1)" "- 126 \<le> e" "e \<le> 127"
    and "\<bar>m / 2 powi (e - 23) - of_int n\<bar> < 1/2"
    and "of_int n * 2 powi (e - 23) < (2::real) ^ 128"
  shows "rnd s m = Finite s (of_int n * 2 powi (e - 23))"
  using round_mag_near [OF assms(1-5)] assms(6) by (simp add: rnd_def)

lemma round_mag_1: "round_mag 1 = 1"
  using round_mag_near [of 0 1 8388608] by simp

lemma round_mag_250: "round_mag 250 = 250"
  using round_mag_near [of 7 250 16384000] by simp

section \<open>The loop and the callback\<close>

lemma same_view_refl [simp]: "same_view n n"
  by (simp add: same_view_def)

lemma render_loop_step:
  "i < count \<Longrightarrow> loop_body lm node scan i st = Inr st' \<Longrightarrow>
   render_loop lm node scan count i st = render_loop lm node scan count (i + 1) st'"
  by (subst render_loop.simps) simp

lemma render_loop_fail:
  "i < count \<Longrightarrow> loop_body lm node scan i st = Inl e \<Longrightarrow>
   render_loop lm node scan count i st = Inl e"
  by (subst render_loop.simps) simp

lemma render_loop_done: "\<not> i < count \<Longrightarrow> render_loop lm node scan count i st = Inr st"
  by (subst render_loop.simps) simp

lemma loop_body_result:
  "\<exists>res. \<forall>n2 lg. same_view node n2 \<longrightarrow>
     loop_body lm n2 scan i (img, lg) =
       with_log res (lg @ [Debug_angle_distance (sample_angle scan i) (ranges scan ! nat i)])"
proof -
  let ?res = "map_sum id fst (loop_body lm node scan i (img, []))"
  have "\<forall>n2 lg. same_view node n2 \<longrightarrow>
     loop_body lm n2 scan i (img, lg) =
       with_log ?res (lg @ [Debug_angle_distance (sample_angle scan i) (ranges scan ! nat i)])"
    by (auto simp: same_view_def loop_body_def to_pixel_def draw_point_def in_image_def
        with_log_def Let_def split: option.splits sum.splits)
  then show ?thesis by blast
qed

lemma loop_body_oob:
  "\<not> nat i < length (ranges scan) \<Longrightarrow> loop_body lm node scan i st = Inl (Out_of_bounds_read i)"
  by (simp add: loop_body_def)

lemma render_loop_result:
  "0 \<le> i \<Longrightarrow>
   \<exists>res. \<forall>n2 lg. same_view node n2 \<longrightarrow>
     render_loop lm n2 scan count i (img, lg) =
       with_log res (lg @ debug_events scan (nat i) (nat count))"
proof (induction "nat (count - i)" arbitrary: i img)
  case 0
  then have "\<not> i < count" by simp
  then have "\<forall>n2 lg. same_view node n2 \<longrightarrow>
     render_loop lm n2 scan count i (img, lg) =
       with_log (Inr img) (lg @ debug_events scan (nat i) (nat count))"
    by (simp add: render_loop_done with_log_def debug_events_def)
  then show ?case by blast
next
  case (Suc n)
  then have lt: "i < count" by simp
  obtain r0 where r0: "\<And>n2 lg. same_view node n2 \<Longrightarrow>
     loop_body lm n2 scan i (img, lg) =
       with_log r0 (lg @ [Debug_angle_distance (sample_angle scan i) (ranges scan ! nat i)])"
    using loop_body_result [of node lm scan i img] by blast
  show ?case
  proof (cases r0)
    case (Inl e)
    have "\<forall>n2 lg. same_view node n2 \<longrightarrow>
       render_loop lm n2 scan count i (img, lg) =
         with_log (Inl e) (lg @ debug_events scan (nat i) (nat count))"
      using r0 Inl lt by (simp add: with_log_def render_loop_fail)
    then show ?thesis by blast
  next
    case (Inr img')
    from Suc have "n = nat (count - (i + 1))" "0 \<le> i + 1" by simp_all
    from Suc.hyps(1) [OF this] obtain r1 where r1: "\<And>n2 lg. same_view node n2 \<Longrightarrow>
       render_loop lm n2 scan count (i + 1) (img', lg) =
         with_log r1 (lg @ debug_events scan (nat (i + 1)) (nat count))"
      by blast
    have ev: "debug_events scan (nat i) (nat count) =
        Debug_angle_distance (sample_angle scan i) (ranges scan ! nat i)
          # debug_events scan (nat (i + 1)) (nat count)"
      using lt Suc.prems by (simp add: debug_events_def upt_conv_Cons nat_add_distrib)
    have "\<forall>n2 lg. same_view node n2 \<longrightarrow>
       render_loop lm n2 scan count i (img, lg) =
         with_log r1 (lg @ debug_events scan (nat i) (nat count))"
    proof (intro allI impI)
      fix n2 lg
      assume sv: "same_view node n2"
      have "loop_body lm n2 scan i (img, lg) =
          Inr (img', lg @ [Debug_angle_distance (sample_angle scan i) (ranges scan ! nat i)])"
        using r0 [OF sv] Inr by (simp add: with_log_def)
      from render_loop_step [OF lt this] show
        "render_loop lm n2 scan count i (img, lg) =
           with_log r1 (lg @ debug_events scan (nat i) (nat count))"
        using r1 [OF sv] ev by simp
    qed
    then show ?thesis by blast
  qed
qed

lemma scanCallback_no_count:
  "sample_count scan = Inl e \<Longrightarrow> scanCallback lm node scan = Inl e"
  by (simp add: scanCallback_def)

lemma scanCallback_result:
  assumes "sample_count scan = Inr count"
  shows "\<exists>res. \<forall>n2. same_view node n2 \<longrightarrow>
     scanCallback lm n2 scan =
       (case res of Inl e \<Rightarrow> Inl e | Inr img \<Rightarrow> Inr (deliver n2 scan count img))"
proof -
  obtain res where res: "\<And>n2 lg. same_view node n2 \<Longrightarrow>
      render_loop lm n2 scan count 0 (crosshair node (white_image node), lg) =
        with_log res (lg @ debug_events scan (nat 0) (nat count))"
    using render_loop_result [of 0 node lm scan count "crosshair node (white_image node)"]
    by auto
  have "\<forall>n2. same_view node n2 \<longrightarrow>
     scanCallback lm n2 scan =
       (case res of Inl e \<Rightarrow> Inl e | Inr img \<Rightarrow> Inr (deliver n2 scan count img))"
  proof (intro allI impI)
    fix n2
    assume sv: "same_view node n2"
    then have img: "crosshair n2 (white_image n2) = crosshair node (white_image node)"
      by (simp add: same_view_def crosshair_def white_image_def)
    show "scanCallback lm n2 scan =
       (case res of Inl e \<Rightarrow> Inl e | Inr img \<Rightarrow> Inr (deliver n2 scan count img))"
      using assms res [OF sv]
      by (simp add: scanCallback_def img with_log_def deliver_def Let_def split: sum.splits)
  qed
  then show ?thesis by blast
qed

lemma scanCallback_deliver:
  assumes "scanCallback lm node scan = Inr node'"
  shows "\<exists>count img. sample_count scan = Inr count \<and> node' = deliver node scan count img \<and>
     render_loop lm node scan count 0
       (crosshair node (white_image node),
        logged node @ [Info_heard (frame_id scan) count,
                       Info_angle_range (angle_min scan) (angle_max scan)])
     = Inr (img, logged node')"
proof (cases "sample_count scan")
  case (Inl e)
  with assms show ?thesis by (simp add: scanCallback_def)
next
  case (Inr count)
  obtain res where res: "\<And>n2 lg. same_view node n2 \<Longrightarrow>
      render_loop lm n2 scan count 0 (crosshair node (white_image node), lg) =
        with_log res (lg @ debug_events scan (nat 0) (nat count))"
    using render_loop_result [of 0 node lm scan count "crosshair node (white_image node)"]
    by auto
  from assms Inr res [of node] show ?thesis
    by (auto simp: scanCallback_def with_log_def deliver_def Let_def split: sum.splits)
qed

lemma loop_body_image:
  assumes "loop_body lm node scan i (img, lg) = Inr (img', lg')"
  shows "\<exists>marks. img' = img\<lparr>drawn := drawn img @ marks\<rparr> \<and> list_all (is_marker node) marks"
proof -
  have "img' = img \<or> (\<exists>p. in_image node p \<and> img' = cv_circle p 2 (Scalar 0 0 255) (- 1) img)"
    using assms
    by (auto simp: loop_body_def draw_point_def Let_def split: if_splits sum.splits)
  then show ?thesis
  proof
    assume "img' = img"
    then have "img' = img\<lparr>drawn := drawn img @ []\<rparr> \<and> list_all (is_marker node) []" by simp
    then show ?thesis by blast
  next
    assume "\<exists>p. in_image node p \<and> img' = cv_circle p 2 (Scalar 0 0 255) (- 1) img"
    then obtain p where "in_image node p" "img' = cv_circle p 2 (Scalar 0 0 255) (- 1) img"
      by blast
    then have "img' = img\<lparr>drawn := drawn img @ [Circle p 2 (Scalar 0 0 255) (- 1)]\<rparr> \<and>
        list_all (is_marker node) [Circle p 2 (Scalar 0 0 255) (- 1)]"
      by (simp add: cv_circle_def)
    then show ?thesis by blast
  qed
qed

lemma render_loop_image:
  "render_loop lm node scan count i (img, lg) = Inr (img', lg') \<Longrightarrow>
   \<exists>marks. img' = img\<lparr>drawn := drawn img @ marks\<rparr> \<and> list_all (is_marker node) marks"
proof (induction "nat (count - i)" arbitrary: i img lg)
  case 0
  then have "\<not> i < count" by simp
  with 0 have "img' = img" by (simp add: render_loop_done)
  then have "img' = img\<lparr>drawn := drawn img @ []\<rparr> \<and> list_all (is_marker node) []" by simp
  then show ?case by blast
next
  case (Suc n)
  then have lt: "i < count" by simp
  show ?case
  proof (cases "loop_body lm node scan i (img, lg)")
    case (Inl e)
    with Suc.prems lt show ?thesis by (simp add: render_loop_fail)
  next
    case (Inr st)
    obtain img1 lg1 where st: "st = (img1, lg1)" by (cases st)
    from loop_body_image [OF Inr [unfolded st]] obtain m1 where
      m1: "img1 = img\<lparr>drawn := drawn img @ m1\<rparr>" "list_all (is_marker node) m1" by blast
    from Suc.prems render_loop_step [OF lt Inr] st
    have "render_loop lm node scan count (i + 1) (img1, lg1) = Inr (img', lg')" by simp
    moreover from Suc.hyps(2) have "n = nat (count - (i + 1))" by simp
    ultimately obtain m2 where
      m2: "img' = img1\<lparr>drawn := drawn img1 @ m2\<rparr>" "list_all (is_marker node) m2"
      using Suc.hyps(1) by blast
    from m1 m2 have "img' = img\<lparr>drawn := drawn img @ (m1 @ m2)\<rparr> \<and>
        list_all (is_marker node) (m1 @ m2)" by simp
    then show ?thesis by blast
  qed
qed

lemma loop_body_angle_max [simp]:
  "loop_body lm node (scan\<lparr>angle_max := a\<rparr>) i st = loop_body lm node scan i st"
  by (simp add: loop_body_def sample_angle_def range_rejected_def Let_def)

lemma render_loop_angle_max:
  "render_loop lm node (scan\<lparr>angle_max := a\<rparr>) count i st = render_loop lm node scan count i st"
proof (induction "nat (count - i)" arbitrary: i st)
  case 0
  then show ?case by (simp add: render_loop_done)
next
  case (Suc n)
  then have lt: "i < count" by simp
  show ?case
  proof (cases "loop_body lm node scan i st")
    case (Inl e)
    then show ?thesis using lt by (simp add: render_loop_fail)
  next
    case (Inr st')
    from Suc.hyps(2) have "n = nat (count - (i + 1))" by simp
    from Suc.hyps(1) [OF this] show ?thesis
      using lt Inr by (simp add: render_loop_step)
  qed
qed

lemma sample_count_angle_max [simp]:
  "sample_count (scan\<lparr>angle_max := a\<rparr>) = sample_count scan"
  by (simp add: sample_count_def split: option.splits)

lemma scanCallback_angle_max:
  "outcome (scanCallback lm node (scan\<lparr>angle_max := a\<rparr>)) = outcome (scanCallback lm node scan)"
proof (cases "sample_count scan")
  case (Inl e)
  then show ?thesis by (simp add: scanCallback_def)
next
  case (Inr count)
  obtain res where res: "\<And>lg.
      render_loop lm node scan count 0 (crosshair node (white_image node), lg) =
        with_log res (lg @ debug_events scan (nat 0) (nat count))"
    using render_loop_result [of 0 node lm scan count "crosshair node (white_image node)"]
      same_view_refl [of node] by auto
  show ?thesis
    using Inr
    by (cases res)
      (simp_all add: scanCallback_def render_loop_angle_max res with_log_def outcome_def Let_def)
qed

lemma scanCallback_same_view:
  "scanCallback lm node scan = Inr node' \<Longrightarrow>
   same_view node node' \<and> writer_opened node' = writer_opened node"
  using scanCallback_deliver [of lm node scan node']
  by (auto simp: deliver_def same_view_def)

lemma spin_same_view:
  "spin lm node scans = Inr node' \<Longrightarrow> same_view node node'"
proof (induction scans arbitrary: node)
  case Nil
  then show ?case by simp
next
  case (Cons scan scans)
  then obtain n1 where n1: "scanCallback lm node scan = Inr n1" "spin lm n1 scans = Inr node'"
    by (auto split: sum.splits)
  from scanCallback_same_view [OF n1(1)] Cons.IH [OF n1(2)] show ?case
    by (simp add: same_view_def)
qed

lemma frame_shape:
  assumes "scanCallback lm node scan = Inr node'"
  shows "\<exists>marks. shown node' = shown node @
      [\<lparr>rows = img_size node, cols = img_size node, fill = Scalar 255 255 255,
        drawn = [Line (Point (pt_x (center node) - 5) (pt_y (center node)))
                      (Point (pt_x (center node) + 5) (pt_y (center node))) (Scalar 0 0 0) 2,
                 Line (Point (pt_x (center node)) (pt_y (center node) - 5))
                      (Point (pt_x (center node)) (pt_y (center node) + 5)) (Scalar 0 0 0) 2]
                @ marks\<rparr>] \<and> list_all (is_marker node) marks"
proof -
  from scanCallback_deliver [OF assms] obtain count img where
    d: "node' = deliver node scan count img" and
    r: "render_loop lm node scan count 0
       (crosshair node (white_image node),
        logged node @ [Info_heard (frame_id scan) count,
                       Info_angle_range (angle_min scan) (angle_max scan)])
     = Inr (img, logged node')" by blast
  from render_loop_image [OF r] obtain marks where
    m: "img = (crosshair node (white_image node))
          \<lparr>drawn := drawn (crosshair node (white_image node)) @ marks\<rparr>"
       "list_all (is_marker node) marks" by blast
  from d m show ?thesis
    by (auto simp: deliver_def crosshair_def white_image_def cv_line_def Let_def)
qed

lemma frame_history_free:
  assumes "scanCallback lm node scan = Inr node'" and "same_view node n2"
  shows "\<exists>n2'. scanCallback lm n2 scan = Inr n2' \<and> last (shown n2') = last (shown node')"
proof -
  from scanCallback_deliver [OF assms(1)] obtain count where c: "sample_count scan = Inr count"
    by blast
  from scanCallback_result [OF c, of node lm] obtain res where
    res: "\<And>n. same_view node n \<Longrightarrow> scanCallback lm n scan =
       (case res of Inl e \<Rightarrow> Inl e | Inr img \<Rightarrow> Inr (deliver n scan count img))" by blast
  from res [of node] assms(1) obtain img where "res = Inr img" "node' = deliver node scan count img"
    by (cases res) simp_all
  with res [OF assms(2)] show ?thesis by (simp add: deliver_def)
qed

lemma no_warn_in_debug_events [simp]: "filter is_warn (debug_events scan i j) = []"
  by (simp add: debug_events_def filter_map o_def)

lemma spin_recording:
  "spin lm node scans = Inr node' \<Longrightarrow>
   writer_opened node' = writer_opened node \<and>
   filter is_warn (logged node') = filter is_warn (logged node) \<and>
   (\<exists>frames. length frames = length scans \<and> shown node' = shown node @ frames \<and>
      written node' = (if writer_opened node then written node @ frames else written node))"
proof (induction scans arbitrary: node)
  case Nil
  then show ?case by simp
next
  case (Cons scan scans)
  then obtain n1 where n1: "scanCallback lm node scan = Inr n1" "spin lm n1 scans = Inr node'"
    by (auto split: sum.splits)
  from scanCallback_deliver [OF n1(1)] obtain count img where
    d: "n1 = deliver node scan count img" by blast
  from Cons.IH [OF n1(2)] obtain frames where
    ih: "writer_opened node' = writer_opened n1"
        "filter is_warn (logged node') = filter is_warn (logged n1)"
        "length frames = length scans" "shown node' = shown n1 @ frames"
        "written node' = (if writer_opened n1 then written n1 @ frames else written n1)"
    by blast
  have "length (img # frames) = length (scan # scans) \<and>
      shown node' = shown node @ (img # frames) \<and>
      written node' =
        (if writer_opened node then written node @ (img # frames) else written node)"
    using ih d by (simp add: deliver_def)
  moreover have "writer_opened node' = writer_opened node"
    "filter is_warn (logged node') = filter is_warn (logged node)"
    using ih d by (simp_all add: deliver_def)
  ultimately show ?case by blast
qed

lemma spin_outcome_view:
  "same_view n1 n2 \<Longrightarrow> shown n1 = shown n2 \<Longrightarrow>
   outcome (spin lm n1 scans) = outcome (spin lm n2 scans)"
proof (induction scans arbitrary: n1 n2)
  case Nil
  then show ?case by (simp add: outcome_def)
next
  case (Cons scan scans)
  show ?case
  proof (cases "sample_count scan")
    case (Inl e)
    then show ?thesis by (simp add: scanCallback_no_count)
  next
    case (Inr count)
    from scanCallback_result [OF Inr, of n1 lm] obtain res where
      res: "\<And>n. same_view n1 n \<Longrightarrow> scanCallback lm n scan =
         (case res of Inl e \<Rightarrow> Inl e | Inr img \<Rightarrow> Inr (deliver n scan count img))" by blast
    show ?thesis
    proof (cases res)
      case (Inl e)
      with res [of n1] res [OF Cons.prems(1)] show ?thesis by simp
    next
      case r: (Inr img)
      have "same_view (deliver n1 scan count img) (deliver n2 scan count img)"
        "shown (deliver n1 scan count img) = shown (deliver n2 scan count img)"
        using Cons.prems by (simp_all add: same_view_def deliver_def)
      from Cons.IH [OF this] res [of n1] res [OF Cons.prems(1)] r show ?thesis by simp
    qed
  qed
qed

lemma rnd_0 [simp]: "rnd s 0 = Finite s 0"
  by (simp add: rnd_def)

lemma rnd_1: "rnd s 1 = Finite s 1"
  using rnd_near [of 0 1 8388608 s] by simp

lemma rnd_2: "rnd s 2 = Finite s 2"
  using rnd_near [of 1 2 8388608 s] by simp

lemma rnd_250: "rnd s 250 = Finite s 250"
  using rnd_near [of 7 250 16384000 s] by simp

lemma rnd_300: "rnd s 300 = Finite s 300"
  using rnd_near [of 8 300 9830400 s] by simp

lemma rnd_mpp: "rnd s double_0_02 = Finite s (5368709 / 268435456)"
  using rnd_near [of "- 6" double_0_02 10737418 s] by (simp add: double_0_02_def)

lemma rnd_inv_mpp: "rnd s (268435456 / 5368709) = Finite s 50"
  using rnd_near [of 5 "268435456 / 5368709" 13107200 s] by simp

lemma mpp_new: "meter_per_pixel (new_LidarVisualizer ok) = Finite False (5368709 / 268435456)"
  by (simp add: new_LidarVisualizer_def rnd_mpp)

lemma center_new: "center (new_LidarVisualizer ok) = Point 250 250"
  by (simp add: new_LidarVisualizer_def)

lemma img_size_new: "img_size (new_LidarVisualizer ok) = 500"
  by (simp add: new_LidarVisualizer_def)

lemma cr_cos_zero: "cr_cos (Finite s 0) = Finite False 1"
  by (simp add: cr_cos_def rnd_1)

lemma cr_sin_zero: "cr_sin (Finite s 0) = Finite s 0"
  by (simp add: cr_sin_def)

lemma size_to_int_small: "n < 2 ^ 31 \<Longrightarrow> size_to_int n = int n"
  unfolding size_to_int_def
  by (simp add: signed_of_nat signed_take_bit_int_eq_self)

lemma view_new:
  assumes "same_view (new_LidarVisualizer ok) node"
  shows "img_size node = 500" "center node = Point 250 250"
    "meter_per_pixel node = Finite False (5368709 / 268435456)"
  using assms mpp_new [of ok] by (simp_all add: same_view_def new_LidarVisualizer_def)

lemma to_pixel_forward_1:
  assumes "same_view (new_LidarVisualizer ok) node"
  shows "to_pixel cr_libm node (Finite sa 0) (Finite False 1) = Inr (Point 250 300)"
  by (simp add: to_pixel_def cr_libm_def cr_cos_zero cr_sin_zero view_new [OF assms] Let_def
      i2f_def fsub_def trunc_def rnd_1 rnd_250 rnd_300 rnd_inv_mpp)

lemma sample_angle_two:
  "sample_angle scan_two 0 = Finite False 0" "sample_angle scan_two 1 = Finite False 0"
  by (simp_all add: sample_angle_def scan_two_def i2f_def rnd_1)

lemma sample_count_two: "sample_count scan_two = Inr 2"
  by (simp add: sample_count_def scan_two_def trunc_def size_to_int_small)

lemma sample_count_short: "sample_count scan_short = Inr 2"
  by (simp add: sample_count_def scan_short_def scan_two_def trunc_def rnd_2)

lemma sample_angle_short:
  "sample_angle scan_short 0 = Finite False 0"
  by (simp add: sample_angle_def scan_short_def scan_two_def i2f_def)

lemma not_rejected_1:
  "\<not> range_rejected scan_two (Finite False 1)" "\<not> range_rejected scan_short (Finite False 1)"
  by (simp_all add: range_rejected_def scan_short_def scan_two_def fgt_def)

lemma body_two_0:
  assumes "same_view (new_LidarVisualizer ok) node"
  shows "loop_body cr_libm node scan_two 0 (img, lg) =
     Inr (cv_circle (Point 250 300) 2 (Scalar 0 0 255) (- 1) img,
          lg @ [Debug_angle_distance (Finite False 0) (Finite False 1)])"
proof -
  have r: "ranges scan_two ! 0 = Finite False 1" "length (ranges scan_two) = 2"
    by (simp_all add: scan_two_def)
  show ?thesis
    by (simp add: loop_body_def sample_angle_two r not_rejected_1
        to_pixel_forward_1 [OF assms] draw_point_def in_image_def view_new [OF assms])
qed

lemma body_two_1:
  "loop_body lm node scan_two 1 (img, lg) =
     Inr (img, lg @ [Debug_angle_distance (Finite False 0) NaN])"
proof -
  have r: "ranges scan_two ! Suc 0 = NaN" "length (ranges scan_two) = 2"
    by (simp_all add: scan_two_def)
  show ?thesis
    by (simp add: loop_body_def sample_angle_two r range_rejected_def)
qed

lemma render_two:
  assumes "same_view (new_LidarVisualizer ok) node"
  shows "render_loop cr_libm node scan_two 2 0 (img, lg) =
     Inr (cv_circle (Point 250 300) 2 (Scalar 0 0 255) (- 1) img,
          lg @ [Debug_angle_distance (Finite False 0) (Finite False 1),
                Debug_angle_distance (Finite False 0) NaN])"
proof -
  have "render_loop cr_libm node scan_two 2 0 (img, lg) =
      render_loop cr_libm node scan_two 2 (0 + 1)
        (cv_circle (Point 250 300) 2 (Scalar 0 0 255) (- 1) img,
         lg @ [Debug_angle_distance (Finite False 0) (Finite False 1)])"
    by (rule render_loop_step [OF _ body_two_0 [OF assms]]) simp
  also have "\<dots> = render_loop cr_libm node scan_two 2 (1 + 1)
        (cv_circle (Point 250 300) 2 (Scalar 0 0 255) (- 1) img,
         (lg @ [Debug_angle_distance (Finite False 0) (Finite False 1)]) @
           [Debug_angle_distance (Finite False 0) NaN])"
    using render_loop_step [OF _ body_two_1, of 2 cr_libm node] by simp
  also have "\<dots> = Inr (cv_circle (Point 250 300) 2 (Scalar 0 0 255) (- 1) img,
         (lg @ [Debug_angle_distance (Finite False 0) (Finite False 1)]) @
           [Debug_angle_distance (Finite False 0) NaN])"
    by (simp add: render_loop_done)
  finally show ?thesis by simp
qed

lemma callback_two:
  assumes "same_view (new_LidarVisualizer ok) node"
  shows "scanCallback cr_libm node scan_two =
     Inr (node\<lparr>shown := shown node @ [frame_two],
              written := (if writer_opened node then written node @ [frame_two]
                          else written node),
              logged := logged node @
                [Info_heard ''laser'' 2, Info_angle_range (Finite False 0) (Finite True 1),
                 Debug_angle_distance (Finite False 0) (Finite False 1),
                 Debug_angle_distance (Finite False 0) NaN]\<rparr>)"
proof -
  have "cv_circle (Point 250 300) 2 (Scalar 0 0 255) (- 1) (crosshair node (white_image node))
      = frame_two"
    by (simp add: cv_circle_def crosshair_def white_image_def cv_line_def frame_two_def
        view_new [OF assms])
  then show ?thesis
    by (simp add: scanCallback_def sample_count_two render_two [OF assms])
      (simp add: scan_two_def)
qed

lemma callback_short:
  assumes "same_view (new_LidarVisualizer ok) node"
  shows "scanCallback cr_libm node scan_short = Inl (Out_of_bounds_read 1)"
proof -
  have r: "ranges scan_short ! 0 = Finite False 1" "length (ranges scan_short) = 1"
    by (simp_all add: scan_short_def)
  have b0: "loop_body cr_libm node scan_short 0 (img, lg) =
     Inr (cv_circle (Point 250 300) 2 (Scalar 0 0 255) (- 1) img,
          lg @ [Debug_angle_distance (Finite False 0) (Finite False 1)])" for img lg
    by (simp add: loop_body_def sample_angle_short r not_rejected_1
        to_pixel_forward_1 [OF assms] draw_point_def in_image_def view_new [OF assms])
  have b1: "loop_body cr_libm node scan_short 1 st = Inl (Out_of_bounds_read 1)" for st
    by (simp add: loop_body_oob r)
  have "render_loop cr_libm node scan_short 2 0 (img, lg) = Inl (Out_of_bounds_read 1)" for img lg
    using render_loop_step [OF _ b0, of 2 img lg] render_loop_fail [OF _ b1, of 2]
    by simp
  then show ?thesis
    by (simp add: scanCallback_def sample_count_short)
qed

lemma loop_body_errors:
  "loop_body lm node scan i st = Inl e \<Longrightarrow> nat i < length (ranges scan) \<Longrightarrow>
   e = Undefined_float_to_int"
  by (auto simp: loop_body_def to_pixel_def Let_def split: if_splits option.splits sum.splits)

lemma render_loop_overrun:
  "0 \<le> i \<Longrightarrow> i \<le> int (length (ranges scan)) \<Longrightarrow> int (length (ranges scan)) < count \<Longrightarrow>
   render_loop lm node scan count i st = Inl Undefined_float_to_int \<or>
   render_loop lm node scan count i st = Inl (Out_of_bounds_read (int (length (ranges scan))))"
proof (induction "nat (int (length (ranges scan)) - i)" arbitrary: i st)
  case 0
  then have i: "i = int (length (ranges scan))" by simp
  then have "loop_body lm node scan i st = Inl (Out_of_bounds_read i)"
    by (simp add: loop_body_oob)
  with 0 i show ?case by (simp add: render_loop_fail)
next
  case (Suc n)
  then have lt: "i < count" "nat i < length (ranges scan)" by simp_all
  show ?case
  proof (cases "loop_body lm node scan i st")
    case (Inl e)
    with loop_body_errors [OF Inl lt(2)] lt(1) show ?thesis by (simp add: render_loop_fail)
  next
    case (Inr st')
    from Suc have "n = nat (int (length (ranges scan)) - (i + 1))" "0 \<le> i + 1"
      "i + 1 \<le> int (length (ranges scan))" by simp_all
    from Suc.hyps(1) [OF this Suc.prems(3)] render_loop_step [OF lt(1) Inr]
    show ?thesis by simp
  qed
qed

lemma render_loop_total:
  "0 \<le> i \<Longrightarrow> count \<le> int (length (ranges scan)) \<Longrightarrow>
   (\<forall>k<length (ranges scan).
      range_rejected scan (ranges scan ! k) \<or>
      (\<exists>p. to_pixel lm node (sample_angle scan (int k)) (ranges scan ! k) = Inr p)) \<Longrightarrow>
   \<exists>st'. render_loop lm node scan count i st = Inr st'"
proof (induction "nat (count - i)" arbitrary: i st)
  case 0
  then show ?case by (simp add: render_loop_done)
next
  case (Suc n)
  then have lt: "i < count" "nat i < length (ranges scan)" by simp_all
  with Suc.prems have "range_rejected scan (ranges scan ! nat i) \<or>
      (\<exists>p. to_pixel lm node (sample_angle scan (int (nat i))) (ranges scan ! nat i) = Inr p)"
    by blast
  with Suc.prems(1) lt(2) have "\<exists>st'. loop_body lm node scan i st = Inr st'"
    by (auto simp: loop_body_def Let_def)
  then obtain st' where b: "loop_body lm node scan i st = Inr st'" ..
  from Suc have "n = nat (count - (i + 1))" "0 \<le> i + 1" by simp_all
  from Suc.hyps(1) [OF this Suc.prems(2,3)] render_loop_step [OF lt(1) b]
  show ?case by simp
qed

lemma round_mag_251: "round_mag 251 = 251"
  using round_mag_near [of 7 251 16449536] by simp

lemma round_mag_mpp: "round_mag (5368709 / 268435456) = 5368709 / 268435456"
  using round_mag_near [of "- 6" "5368709 / 268435456" 10737418] by simp

lemma rnd_cases:
  obtains (overflow) "rnd s m = Inf s" | (finite) "rnd s m = Finite s (round_mag m)"
  by (cases "(2::real) ^ 128 \<le> round_mag m") (simp_all add: rnd_def)

lemma forward_row_value:
  assumes "0 \<le> r" and "0 < m"
    and "f2i (fsub (Finite False 250) (fdiv (fneg (rnd False r)) (Finite False m))) = Some py"
  shows "py = \<lfloor>round_mag (250 + round_mag (round_mag r / m))\<rfloor>"
proof -
  let ?q = "round_mag (round_mag r / m)"
  have q0: "0 \<le> ?q" using assms(1,2) by (simp add: round_mag_nonneg)
  have a: "rnd False r = Finite False (round_mag r)"
    using assms(2,3) by (cases rule: rnd_cases [of False r]) (simp_all add: fsub_def)
  have b: "rnd True (round_mag r / m) = Finite True ?q"
    using assms(2,3) a by (cases rule: rnd_cases [of True "round_mag r / m"]) (simp_all add: fsub_def)
  have sum: "fsub (Finite False 250) (fdiv (fneg (rnd False r)) (Finite False m)) =
      rnd False (250 + ?q)"
    using assms(2) q0 by (simp add: a b fsub_def)
  have c: "rnd False (250 + ?q) = Finite False (round_mag (250 + ?q))"
    using assms(3) sum by (cases rule: rnd_cases [of False "250 + ?q"]) simp_all
  have "0 \<le> round_mag (250 + ?q)" using q0 by (simp add: round_mag_nonneg)
  with assms(3) sum c show ?thesis by (simp add: trunc_def split: if_splits)
qed

lemma forward_row:
  assumes "0 \<le> r"
    and "f2i (fsub (Finite False 250)
           (fdiv (fneg (rnd False r)) (Finite False (5368709 / 268435456)))) = Some py"
  shows "250 \<le> py \<and> (5368709 / 268435456 \<le> r \<longrightarrow> 250 < py)"
proof -
  define r' where "r' = round_mag r"
  define q where "q = round_mag (r' / (5368709 / 268435456))"
  define v where "v = round_mag (250 + q)"
  have py: "py = \<lfloor>v\<rfloor>"
    unfolding v_def q_def r'_def using assms by (intro forward_row_value) simp_all
  have r'0: "0 \<le> r'" using assms(1) by (simp add: r'_def round_mag_nonneg)
  then have q0: "0 \<le> q" by (simp add: q_def round_mag_nonneg)
  then have "round_mag 250 \<le> v" unfolding v_def by (intro round_mag_mono) simp
  then have v250: "250 \<le> v" by (simp add: round_mag_250)
  have low: "250 \<le> py" using v250 py by (simp add: le_floor_iff)
  have "250 < py" if big: "5368709 / 268435456 \<le> r"
  proof -
    have "round_mag (5368709 / 268435456) \<le> r'" unfolding r'_def using big
      by (rule round_mag_mono)
    then have "5368709 / 268435456 \<le> r'" by (simp add: round_mag_mpp)
    then have "1 \<le> r' / (5368709 / 268435456)" by simp
    then have "round_mag 1 \<le> q" unfolding q_def by (rule round_mag_mono)
    then have "251 \<le> 250 + q" by (simp add: round_mag_1)
    then have "round_mag 251 \<le> v" unfolding v_def by (rule round_mag_mono)
    then have "251 \<le> v" by (simp add: round_mag_251)
    then have "251 \<le> py" using py by (simp add: le_floor_iff)
    then show ?thesis by simp
  qed
  with low show ?thesis by simp
qed

lemma debug_events_two:
  "debug_events scan_two 0 2 =
     [Debug_angle_distance (Finite False 0) (Finite False 1),
      Debug_angle_distance (Finite False 0) NaN]"
proof -
  have "[0..<2] = [0, Suc 0]" by (simp add: eval_nat_numeral)
  moreover have "ranges scan_two ! 0 = Finite False 1" "ranges scan_two ! Suc 0 = NaN"
    by (simp_all add: scan_two_def)
  ultimately show ?thesis by (simp add: debug_events_def sample_angle_two)
qed

lemma callback_two_deliver:
  assumes "same_view (new_LidarVisualizer ok) node"
  shows "scanCallback cr_libm node scan_two = Inr (deliver node scan_two 2 frame_two)"
  by (simp add: callback_two [OF assms] deliver_def debug_events_two) (simp add: scan_two_def)

lemma same_view_deliver: "same_view n node \<Longrightarrow> same_view n (deliver node scan count img)"
  by (simp add: same_view_def deliver_def)

lemma spin_two_once:
  "spin cr_libm (new_LidarVisualizer ok) [scan_two] =
     Inr (deliver (new_LidarVisualizer ok) scan_two 2 frame_two)"
  by (simp add: callback_two_deliver [OF same_view_refl])

lemma spin_two_twice:
  "spin cr_libm (new_LidarVisualizer ok) [scan_two, scan_two] =
     Inr (deliver (deliver (new_LidarVisualizer ok) scan_two 2 frame_two) scan_two 2 frame_two)"
  by (simp add: callback_two_deliver [OF same_view_refl]
      callback_two_deliver [OF same_view_deliver [OF same_view_refl]])

lemma shown_node_two: "shown node_two = [frame_two, frame_two]"
  by (simp add: node_two_def node_one_def deliver_def new_LidarVisualizer_def)

section \<open>The pixel of a whole number of pixels straight ahead\<close>

lemma round_even_tie:
  assumes "\<bar>x - of_int n\<bar> < 1/2 \<or> \<bar>x - of_int n\<bar> = 1/2 \<and> even n"
  shows "round_even x = n"
proof (cases "\<bar>x - of_int n\<bar> < 1/2")
  case True
  then show ?thesis by (rule round_even_near)
next
  case False
  with assms have h: "\<bar>x - of_int n\<bar> = 1/2" "even n" by simp_all
  show ?thesis
  proof (cases "of_int n \<le> x")
    case True
    with h have x: "x = of_int n + 1/2" by linarith
    then have "\<lfloor>x\<rfloor> = n" by (simp add: floor_eq_iff)
    with x h(2) show ?thesis by (simp add: round_even_def Let_def)
  next
    case False
    with h have x: "x = of_int (n - 1) + 1/2" by simp
    then have "\<lfloor>x\<rfloor> = n - 1" by (simp add: floor_eq_iff)
    with x h(2) show ?thesis by (simp add: round_even_def Let_def)
  qed
qed

lemma near_ok_rnd:
  assumes "near_ok m e n"
  shows "rnd s m = Finite s (grid e n)"
proof -
  from assms have b: "binade m = e" by (intro binade_eqI) (simp_all add: near_ok_def)
  from assms have "round_even (m / 2 powi (e - 23)) = n"
    by (intro round_even_tie) (simp add: near_ok_def)
  with b have "round_mag m = grid e n" by (simp add: round_mag_def grid_def)
  with assms show ?thesis by (simp add: rnd_def near_ok_def)
qed

lemma near_ok_pos: "near_ok m e n \<Longrightarrow> 0 < m"
proof -
  assume "near_ok m e n"
  then have "2 powi e \<le> m" by (simp add: near_ok_def)
  moreover have "(0::real) < 2 powi e" by simp
  ultimately show ?thesis by linarith
qed

lemma rnd_of_int:
  assumes "0 \<le> k" and "k < 2 ^ 24"
  shows "rnd s (of_int k) = Finite s (of_int k)"
proof (cases "k = 0")
  case True
  then show ?thesis by simp
next
  case False
  with assms have k1: "(1::real) \<le> of_int k" by simp
  define e where "e = binade (of_int k)"
  have "(2::real) powi 0 \<le> of_int k" using k1 by simp
  then have e0: "0 \<le> e" unfolding e_def by (rule binade_ge) simp_all
  have e23: "e \<le> 23"
  proof (rule ccontr)
    assume "\<not> e \<le> 23"
    then have e24: "24 \<le> e" by simp
    then have "2 powi e \<le> real_of_int k" unfolding e_def by (intro binade_le) simp
    moreover have "(2::real) powi 24 \<le> 2 powi e" using e24 by (intro power_int_increasing) simp_all
    ultimately have "real_of_int (2 ^ 24) \<le> of_int k" by simp
    then have "(2::int) ^ 24 \<le> k" by (simp only: of_int_le_iff)
    with assms(2) show False by simp
  qed
  define d where "d = nat (23 - e)"
  have u: "(2::real) powi (e - 23) = 1 / 2 ^ d"
  proof -
    have "(2::real) powi (e - 23) = 2 powi (- int d)" using e23 by (simp add: d_def)
    then show ?thesis by (simp add: power_int_minus field_simps)
  qed
  have "real_of_int k / 2 powi (e - 23) = of_int (k * 2 ^ d)" by (simp add: u)
  then have "round_even (real_of_int k / 2 powi (e - 23)) = k * 2 ^ d"
    by (simp only: round_even_of_int)
  then have "round_mag (of_int k) = of_int k"
    by (simp add: round_mag_def e_def [symmetric] u)
  moreover have "real_of_int k < 2 ^ 128"
  proof -
    have "real_of_int k < of_int (2 ^ 24)" using assms(2) by (simp only: of_int_less_iff)
    then show ?thesis by simp
  qed
  ultimately show ?thesis by (simp add: rnd_def)
qed

lemma chain_sound:
  assumes ok: "chain_ok k py c"
    and k: "0 \<le> k" "k < 2 ^ 24"
    and lm: "cos_f32 lm (Finite sa 0) = Finite False 1" "sin_f32 lm (Finite sa 0) = Finite sa 0"
  shows "to_pixel lm (new_LidarVisualizer ok') (Finite sa 0)
           (fmul (meter_per_pixel (new_LidarVisualizer ok')) (i2f k)) = Inr (Point 250 py)"
proof -
  obtain e1 n1 e2 n2 e3 n3 e4 n4 where c: "c = Cert e1 n1 e2 n2 e3 n3 e4 n4" by (cases c)
  from ok c have
    a1: "near_ok (5368709 / 268435456 * of_int k) e1 n1" and
    a2: "near_ok (grid e1 n1) e2 n2" "grid e2 n2 = grid e1 n1" and
    a3: "near_ok (grid e1 n1 / (5368709 / 268435456)) e3 n3" and
    a4: "near_ok (250 + grid e3 n3) e4 n4" "\<lfloor>grid e4 n4\<rfloor> = py" "py < 2 ^ 31"
    by simp_all
  have i: "i2f k = Finite False (of_int k)" using k by (simp add: i2f_def rnd_of_int)
  have r: "fmul (meter_per_pixel (new_LidarVisualizer ok')) (i2f k) = Finite False (grid e1 n1)"
    by (simp only: mpp_new i fmul.simps near_ok_rnd [OF a1]) simp
  have x: "fmul (Finite False (grid e1 n1)) (Finite False 1) = Finite False (grid e1 n1)"
    using near_ok_rnd [OF a2(1), of False] a2(2) by simp
  have q0: "0 \<le> grid e3 n3"
  proof -
    have "rnd False (grid e1 n1 / (5368709 / 268435456)) = Finite False (grid e3 n3)"
      by (rule near_ok_rnd [OF a3])
    then have "grid e3 n3 = round_mag (grid e1 n1 / (5368709 / 268435456))"
      by (cases rule: rnd_cases [of False "grid e1 n1 / (5368709 / 268435456)"]) simp_all
    moreover have "0 \<le> grid e1 n1 / (5368709 / 268435456)"
      using near_ok_pos [OF a3] by simp
    ultimately show ?thesis by (simp only: round_mag_nonneg)
  qed
  have s0: "0 < grid e4 n4"
  proof -
    have "rnd False (250 + grid e3 n3) = Finite False (grid e4 n4)"
      by (rule near_ok_rnd [OF a4(1)])
    then have "grid e4 n4 = round_mag (250 + grid e3 n3)"
      by (cases rule: rnd_cases [of False "250 + grid e3 n3"]) simp_all
    moreover have "round_mag 250 \<le> round_mag (250 + grid e3 n3)"
      using q0 by (intro round_mag_mono) simp
    ultimately show ?thesis by (simp add: round_mag_250)
  qed
  have y: "f2i (fsub (Finite False 250)
      (fdiv (fneg (Finite False (grid e1 n1))) (Finite False (5368709 / 268435456)))) = Some py"
  proof -
    have "fdiv (fneg (Finite False (grid e1 n1))) (Finite False (5368709 / 268435456)) =
        Finite True (grid e3 n3)"
      using near_ok_rnd [OF a3, of True] by simp
    then have "fsub (Finite False 250)
        (fdiv (fneg (Finite False (grid e1 n1))) (Finite False (5368709 / 268435456))) =
        rnd False (250 + grid e3 n3)"
      using q0 by (simp add: fsub_def)
    moreover from s0 have "0 \<le> \<lfloor>grid e4 n4\<rfloor>" by simp
    then have "0 \<le> py" by (simp only: a4(2))
    ultimately show ?thesis using near_ok_rnd [OF a4(1), of False] a4(2,3) s0
      by (simp add: trunc_def)
  qed
  have px: "f2i (fadd (i2f (pt_x (center (new_LidarVisualizer ok'))))
      (fdiv (fmul (Finite False (grid e1 n1)) (Finite sa 0))
         (meter_per_pixel (new_LidarVisualizer ok')))) = Some 250"
    by (simp add: center_new mpp_new i2f_def rnd_250 trunc_def)
  have py: "f2i (fsub (i2f (pt_y (center (new_LidarVisualizer ok'))))
      (fdiv (fneg (Finite False (grid e1 n1))) (meter_per_pixel (new_LidarVisualizer ok')))) =
      Some py"
    using y by (simp add: center_new mpp_new i2f_def rnd_250)
  show ?thesis
    unfolding to_pixel_def Let_def r lm x px py by simp
qed

lemma rows_ok_append:
  "rows_ok a (xs @ ys) = (rows_ok a xs \<and> rows_ok (a + int (length xs)) ys)"
  by (induction xs arbitrary: a) (auto simp: add.assoc)

lemma rows_ok_sound:
  "rows_ok a cs \<Longrightarrow> a \<le> k \<Longrightarrow> k < a + int (length cs) \<Longrightarrow> \<exists>c. chain_ok k (250 + k) c"
proof (induction cs arbitrary: a)
  case Nil
  then show ?case by simp
next
  case (Cons c cs)
  show ?case
  proof (cases "k = a")
    case True
    with Cons.prems(1) show ?thesis by auto
  next
    case False
    with Cons.prems have "rows_ok (a + 1) cs" "a + 1 \<le> k" "k < (a + 1) + int (length cs)"
      by simp_all
    then show ?thesis by (rule Cons.IH)
  qed
qed

lemma certs_1_ok: "rows_ok 1 certs_1 \<and> length certs_1 = 100"
  by (simp add: certs_1_def near_ok_def grid_def)

lemma certs_2_ok: "rows_ok 101 certs_2 \<and> length certs_2 = 100"
  by (simp add: certs_2_def near_ok_def grid_def)

lemma certs_3_ok: "rows_ok 201 certs_3 \<and> length certs_3 = 100"
  by (simp add: certs_3_def near_ok_def grid_def)

lemma certs_4_ok: "rows_ok 301 certs_4 \<and> length certs_4 = 100"
  by (simp add: certs_4_def near_ok_def grid_def)

lemma certs_5_ok: "rows_ok 401 certs_5 \<and> length certs_5 = 100"
  by (simp add: certs_5_def near_ok_def grid_def)

lemma certs_6_ok: "rows_ok 501 certs_6 \<and> length certs_6 = 100"
  by (simp add: certs_6_def near_ok_def grid_def)

lemma certs_7_ok: "rows_ok 601 certs_7 \<and> length certs_7 = 100"
  by (simp add: certs_7_def near_ok_def grid_def)

lemma certs_8_ok: "rows_ok 701 certs_8 \<and> length certs_8 = 100"
  by (simp add: certs_8_def near_ok_def grid_def)

lemma certs_9_ok: "rows_ok 801 certs_9 \<and> length certs_9 = 100"
  by (simp add: certs_9_def near_ok_def grid_def)

lemma certs_10_ok: "rows_ok 901 certs_10 \<and> length certs_10 = 100"
  by (simp add: certs_10_def near_ok_def grid_def)

lemma certs_11_ok: "rows_ok 1001 certs_11 \<and> length certs_11 = 100"
  by (simp add: certs_11_def near_ok_def grid_def)

lemma certs_12_ok: "rows_ok 1101 certs_12 \<and> length certs_12 = 100"
  by (simp add: certs_12_def near_ok_def grid_def)

lemma certs_13_ok: "rows_ok 1201 certs_13 \<and> length certs_13 = 100"
  by (simp add: certs_13_def near_ok_def grid_def)

lemma certs_14_ok: "rows_ok 1301 certs_14 \<and> length certs_14 = 100"
  by (simp add: certs_14_def near_ok_def grid_def)

lemma certs_15_ok: "rows_ok 1401 certs_15 \<and> length certs_15 = 100"
  by (simp add: certs_15_def near_ok_def grid_def)

lemma certs_16_ok: "rows_ok 1501 certs_16 \<and> length certs_16 = 100"
  by (simp add: certs_16_def near_ok_def grid_def)

lemma certs_17_ok: "rows_ok 1601 certs_17 \<and> length certs_17 = 2"
  by (simp add: certs_17_def near_ok_def grid_def)

lemma round_trip_certs_ok: "rows_ok 1 round_trip_certs \<and> length round_trip_certs = 1602"
  using certs_1_ok certs_2_ok certs_3_ok certs_4_ok certs_5_ok certs_6_ok certs_7_ok certs_8_ok
    certs_9_ok certs_10_ok certs_11_ok certs_12_ok certs_13_ok certs_14_ok certs_15_ok certs_16_ok
    certs_17_ok
  by (simp add: round_trip_certs_def rows_ok_append)

lemma chain_1603: "chain_ok 1603 1852 (Cert 5 8404336 5 8404336 10 13131775 10 15179775)"
  by (simp add: near_ok_def grid_def)

lemma range_1603:
  "fmul (meter_per_pixel (new_LidarVisualizer ok)) (i2f 1603) = Finite False (525271 / 16384)"
proof -
  have "near_ok (5368709 / 268435456 * of_int 1603) 5 8404336"
    by (simp add: near_ok_def grid_def)
  from near_ok_rnd [OF this, of False] show ?thesis
    by (simp add: mpp_new i2f_def rnd_of_int [of 1603, simplified] grid_def)
qed

section \<open>The count at the limits of \<open>int\<close>\<close>

text \<open>
  A quotient by a zero time increment has no defined conversion to \<open>int\<close>
  (\<open>zero_divisor_undefined\<close>). Wherever the count is defined, the x86-64 build computes
  that count (\<open>sample_count_refined\<close>).
\<close>

lemma size_to_int_2_31: "size_to_int 2147483648 = - 2147483648"
  unfolding size_to_int_def
  by (simp add: signed_of_nat signed_take_bit_eq_take_bit_shift take_bit_eq_mod)

lemma rnd_2_31: "rnd s 2147483648 = Finite s 2147483648"
  using rnd_near [of 31 2147483648 8388608 s] by simp

lemma zero_divisor_undefined:
  "time_increment scan = Finite s 0 \<Longrightarrow>
   f2i (fdiv (scan_time scan) (time_increment scan)) = None"
  by (cases "scan_time scan") simp_all

lemma sample_count_refined:
  "sample_count scan = Inr count \<Longrightarrow> sample_count_x86_64 scan = count"
  by (auto simp: sample_count_def sample_count_x86_64_def cvttss2si_def Let_def
      split: option.splits)

lemma sample_count_huge: "sample_count scan_huge = Inr (- 2147483648)"
  by (simp add: sample_count_def size_to_int_2_31 scan_huge_def scan_two_def trunc_def)

lemma callback_huge:
  "scanCallback lm node scan_huge =
     Inr (deliver node scan_huge (- 2147483648) (crosshair node (white_image node)))"
  by (simp add: scanCallback_def sample_count_huge render_loop_done deliver_def debug_events_def
      Let_def)

section \<open>An accepted sample is plotted\<close>

lemma loop_body_plots:
  assumes "nat i < length (ranges scan)"
    and "\<not> flt (ranges scan ! nat i) (range_min scan)"
    and "\<not> fgt (ranges scan ! nat i) (range_max scan)"
    and "\<not> isnan (ranges scan ! nat i)"
    and "f2i (fadd (i2f (pt_x (center node)))
           (fdiv (fmul (ranges scan ! nat i)
                    (sin_f32 lm (fadd (angle_min scan) (fmul (i2f i) (angle_increment scan)))))
              (meter_per_pixel node))) = Some px"
    and "f2i (fsub (i2f (pt_y (center node)))
           (fdiv (fneg (fmul (ranges scan ! nat i)
                    (cos_f32 lm (fadd (angle_min scan) (fmul (i2f i) (angle_increment scan))))))
              (meter_per_pixel node))) = Some py"
    and "0 \<le> px" "px < img_size node" "0 \<le> py" "py < img_size node"
  shows "loop_body lm node scan i (img, lg) =
     Inr (img\<lparr>drawn := drawn img @ [Circle (Point px py) 2 (Scalar 0 0 255) (- 1)]\<rparr>,
          lg @ [Debug_angle_distance
                  (fadd (angle_min scan) (fmul (i2f i) (angle_increment scan)))
                  (ranges scan ! nat i)])"
  using assms
  by (simp add: loop_body_def sample_angle_def range_rejected_def to_pixel_def draw_point_def
      in_image_def cv_circle_def Let_def)

lemma render_loop_plots:
  assumes "render_loop lm node scan count j (img, lg) = Inr (img', lg')"
    and "j \<le> i" and "i < count"
    and "\<And>img lg. \<exists>lg1. loop_body lm node scan i (img, lg) = Inr (img\<lparr>drawn := drawn img @ [c]\<rparr>, lg1)"
  shows "c \<in> set (drawn img')"
  using assms(1,2)
proof (induction "nat (i - j)" arbitrary: j img lg)
  case 0
  then have j: "j = i" by simp
  obtain lg1 where b: "loop_body lm node scan i (img, lg) = Inr (img\<lparr>drawn := drawn img @ [c]\<rparr>, lg1)"
    using assms(4) by blast
  from render_loop_step [OF assms(3) b] 0(2) j
  have "render_loop lm node scan count (i + 1) (img\<lparr>drawn := drawn img @ [c]\<rparr>, lg1) = Inr (img', lg')"
    by simp
  from render_loop_image [OF this] show ?case by auto
next
  case (Suc n)
  then have lt: "j < i" "j < count" using assms(3) by simp_all
  show ?case
  proof (cases "loop_body lm node scan j (img, lg)")
    case (Inl e)
    with Suc.prems(1) lt(2) show ?thesis by (simp add: render_loop_fail)
  next
    case (Inr st)
    obtain img1 lg1 where st: "st = (img1, lg1)" by (cases st)
    from Suc.prems(1) render_loop_step [OF lt(2) Inr] st
    have r: "render_loop lm node scan count (j + 1) (img1, lg1) = Inr (img', lg')" by simp
    from Suc.hyps(2) lt have "n = nat (i - (j + 1))" "j + 1 \<le> i" by simp_all
    from Suc.hyps(1) [OF this(1) r this(2)] show ?thesis .
  qed
qed

lemma debug_event_logged:
  assumes "0 \<le> i" "i < count"
  shows "Debug_angle_distance (fadd (angle_min scan) (fmul (i2f i) (angle_increment scan)))
           (ranges scan ! nat i) \<in> set (debug_events scan 0 (nat count))"
proof -
  have "nat i \<in> set [0..<nat count]" using assms by simp
  then have "(\<lambda>k. Debug_angle_distance (sample_angle scan (int k)) (ranges scan ! k)) (nat i)
      \<in> set (debug_events scan 0 (nat count))"
    unfolding debug_events_def set_map by (rule imageI)
  then show ?thesis using assms(1) by (simp add: sample_angle_def)
qed

section \<open>A sample one radian off the axis\<close>

text \<open>
  The sine and the cosine of one radian, from the Maclaurin series of the sine, to a
  precision that fixes the pixel of a sample at 1.5 metres: each rounding is monotone,
  so bounds that are themselves \<open>float\<close> values pass through it.
\<close>

lemma sin_1_bounds: "3441 / 4096 \<le> sin (1::real)" "sin (1::real) \<le> 27 / 32"
proof -
  have b: "\<bar>sin (1::real) - (\<Sum>m<7. sin_coeff m * 1 ^ m)\<bar> \<le> inverse (fact 7) * \<bar>1\<bar> ^ 7"
    by (rule Maclaurin_sin_bound)
  have "(\<Sum>m<7. sin_coeff m * (1::real) ^ m) =
      (\<Sum>m\<in>{0, 1, 2, 3, 4, 5, 6}. sin_coeff m * 1 ^ m)"
    by (rule sum.cong) auto
  also have "\<dots> = 101 / 120"
    by (simp add: sin_coeff_def fact_numeral)
  finally have s: "(\<Sum>m<7. sin_coeff m * (1::real) ^ m) = 101 / 120" .
  have e: "inverse (fact 7) * \<bar>1::real\<bar> ^ 7 = 1 / 5040"
    by (simp add: fact_numeral)
  from b have "\<bar>sin (1::real) - 101 / 120\<bar> \<le> 1 / 5040" unfolding s e .
  then show "3441 / 4096 \<le> sin (1::real)" "sin (1::real) \<le> 27 / 32" by linarith+
qed

lemma sin_half_bounds: "245 / 512 \<le> sin (1/2::real)" "sin (1/2::real) \<le> 983 / 2048"
proof -
  have b: "\<bar>sin (1/2::real) - (\<Sum>m<5. sin_coeff m * (1/2) ^ m)\<bar> \<le> inverse (fact 5) * \<bar>1/2\<bar> ^ 5"
    by (rule Maclaurin_sin_bound)
  have "(\<Sum>m<5. sin_coeff m * (1/2::real) ^ m) =
      (\<Sum>m\<in>{0, 1, 2, 3, 4}. sin_coeff m * (1/2) ^ m)"
    by (rule sum.cong) auto
  also have "\<dots> = 23 / 48"
    by (simp add: sin_coeff_def fact_numeral power_divide)
  finally have s: "(\<Sum>m<5. sin_coeff m * (1/2::real) ^ m) = 23 / 48" .
  have e: "inverse (fact 5) * \<bar>1/2::real\<bar> ^ 5 = 1 / 3840"
    by (simp add: fact_numeral power_divide)
  from b have "\<bar>sin (1/2::real) - 23 / 48\<bar> \<le> 1 / 3840" unfolding s e .
  then show "245 / 512 \<le> sin (1/2::real)" "sin (1/2::real) \<le> 983 / 2048" by linarith+
qed

lemma cos_1_bounds: "137 / 256 \<le> cos (1::real)" "cos (1::real) \<le> 139 / 256"
proof -
  have c: "cos (1::real) = 1 - 2 * (sin (1/2))\<^sup>2"
    using cos_double_sin [of "1/2::real"] by simp
  have "(245 / 512)\<^sup>2 \<le> (sin (1/2::real))\<^sup>2"
    using sin_half_bounds(1) by (intro power_mono) simp_all
  moreover have "(sin (1/2::real))\<^sup>2 \<le> (983 / 2048)\<^sup>2"
    using sin_half_bounds by (intro power_mono) simp_all
  ultimately have "60025 / 262144 \<le> (sin (1/2::real))\<^sup>2" "(sin (1/2::real))\<^sup>2 \<le> 966289 / 4194304"
    by (simp_all add: power2_eq_square)
  then show "137 / 256 \<le> cos (1::real)" "cos (1::real) \<le> 139 / 256"
    unfolding c by linarith+
qed

lemma round_mag_3441_4096: "round_mag (3441 / 4096) = 3441 / 4096"
  using round_mag_near [of "- 1" "3441 / 4096" 14094336] by simp

lemma round_mag_27_32: "round_mag (27 / 32) = 27 / 32"
  using round_mag_near [of "- 1" "27 / 32" 14155776] by simp

lemma round_mag_10323_8192: "round_mag (10323 / 8192) = 10323 / 8192"
  using round_mag_near [of 0 "10323 / 8192" 10570752] by simp

lemma round_mag_81_64: "round_mag (81 / 64) = 81 / 64"
  using round_mag_near [of 0 "81 / 64" 10616832] by simp

lemma round_mag_63: "round_mag (63) = 63"
  using round_mag_near [of 5 63 16515072] by simp

lemma round_mag_255_4: "round_mag (255 / 4) = 255 / 4"
  using round_mag_near [of 5 "255 / 4" 16711680] by simp

lemma round_mag_313: "round_mag (313) = 313"
  using round_mag_near [of 8 313 10256384] by simp

lemma round_mag_1255_4: "round_mag (1255 / 4) = 1255 / 4"
  using round_mag_near [of 8 "1255 / 4" 10280960] by simp

lemma round_mag_137_256: "round_mag (137 / 256) = 137 / 256"
  using round_mag_near [of "- 1" "137 / 256" 8978432] by simp

lemma round_mag_139_256: "round_mag (139 / 256) = 139 / 256"
  using round_mag_near [of "- 1" "139 / 256" 9109504] by simp

lemma round_mag_411_512: "round_mag (411 / 512) = 411 / 512"
  using round_mag_near [of "- 1" "411 / 512" 13467648] by simp

lemma round_mag_417_512: "round_mag (417 / 512) = 417 / 512"
  using round_mag_near [of "- 1" "417 / 512" 13664256] by simp

lemma round_mag_40: "round_mag (40) = 40"
  using round_mag_near [of 5 40 10485760] by simp

lemma round_mag_163_4: "round_mag (163 / 4) = 163 / 4"
  using round_mag_near [of 5 "163 / 4" 10682368] by simp

lemma round_mag_290: "round_mag (290) = 290"
  using round_mag_near [of 8 290 9502720] by simp

lemma round_mag_1163_4: "round_mag (1163 / 4) = 1163 / 4"
  using round_mag_near [of 8 "1163 / 4" 9527296] by simp

lemma rnd_between:
  assumes "lo \<le> m" "m \<le> hi" "round_mag lo = lo" "round_mag hi = hi" "hi < 2 ^ 128"
  obtains r where "rnd s m = Finite s r" "lo \<le> r" "r \<le> hi"
proof -
  have lo: "lo \<le> round_mag m" using round_mag_mono [OF assms(1)] assms(3) by simp
  have hi: "round_mag m \<le> hi" using round_mag_mono [OF assms(2)] assms(4) by simp
  with assms(5) have "rnd s m = Finite s (round_mag m)" by (simp add: rnd_def)
  with lo hi that show thesis by blast
qed

lemma to_pixel_sweep_1:
  assumes "same_view (new_LidarVisualizer ok) node"
  shows "to_pixel cr_libm node (Finite False 1) (Finite False (3/2)) = Inr (Point 313 290)"
proof -
  let ?M = "5368709 / 268435456 :: real"
  have s0: "0 < sin (1::real)" "0 < cos (1::real)"
    using sin_1_bounds(1) cos_1_bounds(1) by linarith+
  obtain sv where sv: "rnd False (sin 1) = Finite False sv" "3441 / 4096 \<le> sv" "sv \<le> 27 / 32"
    using rnd_between [OF sin_1_bounds round_mag_3441_4096 round_mag_27_32, of False] by auto
  have "10323 / 8192 \<le> 3 / 2 * sv" "3 / 2 * sv \<le> 81 / 64" using sv(2,3) by simp_all
  from rnd_between [OF this round_mag_10323_8192 round_mag_81_64, of False]
  obtain yv where yv: "rnd False (3 / 2 * sv) = Finite False yv" "10323 / 8192 \<le> yv" "yv \<le> 81 / 64"
    by auto
  have "63 \<le> yv / ?M" "yv / ?M \<le> 255 / 4" using yv(2,3) by (simp_all add: field_simps)
  from rnd_between [OF this round_mag_63 round_mag_255_4, of False]
  obtain qx where qx: "rnd False (yv / ?M) = Finite False qx" "63 \<le> qx" "qx \<le> 255 / 4"
    by auto
  have "313 \<le> 250 + qx" "250 + qx \<le> 1255 / 4" using qx(2,3) by simp_all
  from rnd_between [OF this round_mag_313 round_mag_1255_4, of False]
  obtain sx where sx: "rnd False (250 + qx) = Finite False sx" "313 \<le> sx" "sx \<le> 1255 / 4"
    by auto
  have fx: "\<lfloor>sx\<rfloor> = 313" using sx(2,3) by (intro floor_unique) simp_all
  obtain cv where cv: "rnd False (cos 1) = Finite False cv" "137 / 256 \<le> cv" "cv \<le> 139 / 256"
    using rnd_between [OF cos_1_bounds round_mag_137_256 round_mag_139_256, of False] by auto
  have "411 / 512 \<le> 3 / 2 * cv" "3 / 2 * cv \<le> 417 / 512" using cv(2,3) by simp_all
  from rnd_between [OF this round_mag_411_512 round_mag_417_512, of False]
  obtain xv where xv: "rnd False (3 / 2 * cv) = Finite False xv" "411 / 512 \<le> xv" "xv \<le> 417 / 512"
    by auto
  have "40 \<le> xv / ?M" "xv / ?M \<le> 163 / 4" using xv(2,3) by (simp_all add: field_simps)
  from rnd_between [OF this round_mag_40 round_mag_163_4, of True]
  obtain qy where qy: "rnd True (xv / ?M) = Finite True qy" "40 \<le> qy" "qy \<le> 163 / 4"
    by auto
  have "290 \<le> 250 + qy" "250 + qy \<le> 1163 / 4" using qy(2,3) by simp_all
  from rnd_between [OF this round_mag_290 round_mag_1163_4, of False]
  obtain sy where sy: "rnd False (250 + qy) = Finite False sy" "290 \<le> sy" "sy \<le> 1163 / 4"
    by auto
  have fy: "\<lfloor>sy\<rfloor> = 290" using sy(2,3) by (intro floor_unique) simp_all
  have sin1: "sin_f32 cr_libm (Finite False 1) = Finite False sv"
    using s0 sv(1) by (simp add: cr_libm_def cr_sin_def)
  have cos1: "cos_f32 cr_libm (Finite False 1) = Finite False cv"
    using s0 cv(1) by (simp add: cr_libm_def cr_cos_def)
  have y: "fmul (Finite False (3/2)) (Finite False sv) = Finite False yv"
    using yv(1) by simp
  have x: "fmul (Finite False (3/2)) (Finite False cv) = Finite False xv"
    using xv(1) by simp
  have dx: "fdiv (Finite False yv) (Finite False ?M) = Finite False qx"
    using qx(1) by simp
  have dy: "fdiv (Finite True xv) (Finite False ?M) = Finite True qy"
    using qy(1) by simp
  have ax: "fadd (Finite False 250) (Finite False qx) = Finite False sx"
    using sx(1) qx(2) by simp
  have ay: "fsub (Finite False 250) (Finite True qy) = Finite False sy"
    using sy(1) qy(2) by (simp add: fsub_def)
  have cx: "f2i (Finite False sx) = Some 313"
    using fx sx(2) by (simp add: trunc_def)
  have cy: "f2i (Finite False sy) = Some 290"
    using fy sy(2) by (simp add: trunc_def)
  have c250: "i2f 250 = Finite False 250" by (simp add: i2f_def rnd_250)
  show ?thesis
    by (simp only: to_pixel_def Let_def view_new [OF assms] Point.sel sin1 cos1 x y fneg.simps
        dx dy c250 ax ay cx cy option.case simp_thms)
qed

lemma rnd_3_2: "rnd s (3 / 2) = Finite s (3 / 2)"
  using rnd_near [of 0 "3 / 2" 12582912 s] by simp

lemma sample_angle_sweep:
  "sample_angle scan_sweep 0 = Finite False 0" "sample_angle scan_sweep 1 = Finite False 1"
  by (simp_all add: sample_angle_def scan_sweep_def i2f_def rnd_1)

lemma sample_count_sweep: "sample_count scan_sweep = Inr 2"
  by (simp add: sample_count_def scan_sweep_def trunc_def size_to_int_small)

lemma ranges_sweep:
  "ranges scan_sweep ! 0 = Finite False 1" "ranges scan_sweep ! Suc 0 = Finite False (3/2)"
  "length (ranges scan_sweep) = 2"
  by (simp_all add: scan_sweep_def)

lemma not_rejected_sweep:
  "\<not> range_rejected scan_sweep (Finite False 1)" "\<not> range_rejected scan_sweep (Finite False (3/2))"
  by (simp_all add: range_rejected_def scan_sweep_def fgt_def)

lemma body_sweep_0:
  assumes "same_view (new_LidarVisualizer ok) node"
  shows "loop_body cr_libm node scan_sweep 0 (img, lg) =
     Inr (cv_circle (Point 250 300) 2 (Scalar 0 0 255) (- 1) img,
          lg @ [Debug_angle_distance (Finite False 0) (Finite False 1)])"
  by (simp add: loop_body_def sample_angle_sweep ranges_sweep not_rejected_sweep
      to_pixel_forward_1 [OF assms] draw_point_def in_image_def view_new [OF assms])

lemma body_sweep_1:
  assumes "same_view (new_LidarVisualizer ok) node"
  shows "loop_body cr_libm node scan_sweep 1 (img, lg) =
     Inr (cv_circle (Point 313 290) 2 (Scalar 0 0 255) (- 1) img,
          lg @ [Debug_angle_distance (Finite False 1) (Finite False (3/2))])"
  by (simp add: loop_body_def sample_angle_sweep ranges_sweep not_rejected_sweep
      to_pixel_sweep_1 [OF assms] draw_point_def in_image_def view_new [OF assms])

lemma render_sweep:
  assumes "same_view (new_LidarVisualizer ok) node"
  shows "render_loop cr_libm node scan_sweep 2 0 (img, lg) =
     Inr (cv_circle (Point 313 290) 2 (Scalar 0 0 255) (- 1)
            (cv_circle (Point 250 300) 2 (Scalar 0 0 255) (- 1) img),
          lg @ [Debug_angle_distance (Finite False 0) (Finite False 1),
                Debug_angle_distance (Finite False 1) (Finite False (3/2))])"
proof -
  have "render_loop cr_libm node scan_sweep 2 0 (img, lg) =
      render_loop cr_libm node scan_sweep 2 (0 + 1)
        (cv_circle (Point 250 300) 2 (Scalar 0 0 255) (- 1) img,
         lg @ [Debug_angle_distance (Finite False 0) (Finite False 1)])"
    by (rule render_loop_step [OF _ body_sweep_0 [OF assms]]) simp
  also have "\<dots> = render_loop cr_libm node scan_sweep 2 (1 + 1)
        (cv_circle (Point 313 290) 2 (Scalar 0 0 255) (- 1)
           (cv_circle (Point 250 300) 2 (Scalar 0 0 255) (- 1) img),
         (lg @ [Debug_angle_distance (Finite False 0) (Finite False 1)]) @
           [Debug_angle_distance (Finite False 1) (Finite False (3/2))])"
    using render_loop_step [OF _ body_sweep_1 [OF assms], of 2] by simp
  also have "\<dots> = Inr (cv_circle (Point 313 290) 2 (Scalar 0 0 255) (- 1)
           (cv_circle (Point 250 300) 2 (Scalar 0 0 255) (- 1) img),
         (lg @ [Debug_angle_distance (Finite False 0) (Finite False 1)]) @
           [Debug_angle_distance (Finite False 1) (Finite False (3/2))])"
    by (simp add: render_loop_done)
  finally show ?thesis by simp
qed

lemma debug_events_sweep:
  "debug_events scan_sweep 0 2 =
     [Debug_angle_distance (Finite False 0) (Finite False 1),
      Debug_angle_distance (Finite False 1) (Finite False (3/2))]"
proof -
  have "[0..<2] = [0, Suc 0]" by (simp add: eval_nat_numeral)
  then show ?thesis by (simp add: debug_events_def sample_angle_sweep ranges_sweep)
qed

lemma callback_sweep:
  assumes "same_view (new_LidarVisualizer ok) node"
  shows "scanCallback cr_libm node scan_sweep = Inr (deliver node scan_sweep 2 frame_sweep)"
proof -
  have "cv_circle (Point 313 290) 2 (Scalar 0 0 255) (- 1)
          (cv_circle (Point 250 300) 2 (Scalar 0 0 255) (- 1) (crosshair node (white_image node)))
      = frame_sweep"
    by (simp add: cv_circle_def crosshair_def white_image_def cv_line_def frame_sweep_def
        view_new [OF assms])
  then show ?thesis
    by (simp add: scanCallback_def sample_count_sweep render_sweep [OF assms] deliver_def
        debug_events_sweep)
qed

section \<open>The claims of the specification\<close>

text \<open>
  Claim C1. The loop is said to stay inside \<open>ranges\<close> by clamping its bound to
  \<open>min(count, len(ranges))\<close>. The callback has no such clamp: as soon as the count taken
  from the timing fields exceeds the number of ranges, the callback never delivers a
  frame. It ends in undefined behaviour, at the latest with the read of
  \<open>ranges[len(ranges)]\<close>, one past the end.
\<close>

theorem unclamped_count_overruns:
  assumes "sample_count scan = Inr count" and "int (length (ranges scan)) < count"
  shows "scanCallback lm node scan = Inl Undefined_float_to_int \<or>
         scanCallback lm node scan = Inl (Out_of_bounds_read (int (length (ranges scan))))"
proof -
  let ?st = "(crosshair node (white_image node),
      logged node @ [Info_heard (frame_id scan) count,
                     Info_angle_range (angle_min scan) (angle_max scan)])"
  have "render_loop lm node scan count 0 ?st = Inl Undefined_float_to_int \<or>
      render_loop lm node scan count 0 ?st = Inl (Out_of_bounds_read (int (length (ranges scan))))"
    using assms(2) by (intro render_loop_overrun) simp_all
  then show ?thesis using assms(1) by (auto simp: scanCallback_def Let_def)
qed

text \<open>
  With timing fields announcing two samples and a single range straight ahead, the first
  sample is drawn and the second read is \<open>ranges[1]\<close> of a vector of length one.
\<close>

theorem unclamped_count_overruns_witness:
  "sample_count scan_short = Inr 2 \<and> int (length (ranges scan_short)) < 2 \<and>
   scanCallback cr_libm (new_LidarVisualizer True) scan_short = Inl (Out_of_bounds_read 1)"
proof -
  have h1: "sample_count scan_short = Inr 2" by (rule sample_count_short)
  have h2: "int (length (ranges scan_short)) < 2" by (simp add: scan_short_def)
  have "scanCallback cr_libm (new_LidarVisualizer True) scan_short \<noteq> Inl Undefined_float_to_int"
    by (simp add: callback_short [OF same_view_refl])
  with unclamped_count_overruns [OF h1 h2, of cr_libm "new_LidarVisualizer True"]
  have "scanCallback cr_libm (new_LidarVisualizer True) scan_short =
      Inl (Out_of_bounds_read (int (length (ranges scan_short))))" by blast
  with h1 h2 show ?thesis by (simp add: scan_short_def)
qed

text \<open>
  Claim C2. With \<open>time_increment = 0\<close> the count is said to be computed without failure and
  to fall back to the length of \<open>ranges\<close>. The division does not fail: it gives an infinity
  or a NaN. C++ leaves the conversion of such a value to \<open>int\<close> undefined
  (\<open>zero_divisor_undefined\<close>); the x86-64 build converts it to \<open>-2^31\<close>, takes the branch
  \<open>count <= 0\<close> and assigns \<open>ranges.size()\<close> to the \<open>int\<close>. That is the length only while the
  length fits an \<open>int\<close>: with \<open>2^31\<close> ranges and a time increment of zero the count is
  \<open>-2^31\<close>, not the length.
\<close>

theorem zero_time_increment_huge_counterexample:
  "time_increment scan_huge_stalled = Finite False 0 \<and>
   length (ranges scan_huge_stalled) = 2147483648 \<and>
   sample_count_x86_64 scan_huge_stalled = - 2147483648 \<and>
   sample_count_x86_64 scan_huge_stalled \<noteq> int (length (ranges scan_huge_stalled))"
  by (simp add: sample_count_x86_64_def size_to_int_2_31 scan_huge_stalled_def scan_stalled_def
      scan_two_def cvttss2si_def)

text \<open>
  Claim C2, as the x86-64 build has it. For every message with a time increment of zero,
  of either sign, and fewer than \<open>2^31\<close> ranges, the conversion of the quotient gives
  \<open>-2^31\<close> and the count is the length of \<open>ranges\<close>.
\<close>

theorem zero_time_increment_falls_back:
  assumes "time_increment scan = Finite s 0" and "length (ranges scan) < 2 ^ 31"
  shows "cvttss2si (fdiv (scan_time scan) (time_increment scan)) = - (2 ^ 31) \<and>
         sample_count_x86_64 scan = int (length (ranges scan))"
proof -
  have "cvttss2si (fdiv (scan_time scan) (time_increment scan)) = - (2 ^ 31)"
    using zero_divisor_undefined [OF assms(1)] by (simp add: cvttss2si_def)
  then show ?thesis
    using assms(2) by (simp add: sample_count_x86_64_def size_to_int_small)
qed

text \<open>
  A scan time of one second over a time increment of zero (\<open>+\<infinity>\<close>), a scan time of zero
  over a time increment of zero (NaN), and a scan time of one second over a time increment
  of \<open>-0\<close> (\<open>-\<infinity>\<close>): each with two ranges, and a count of two.
\<close>

theorem zero_time_increment_falls_back_witness:
  "time_increment scan_stalled = Finite False 0 \<and>
   length (ranges scan_stalled) = 2 \<and>
   fdiv (scan_time scan_stalled) (time_increment scan_stalled) = Inf False \<and>
   cvttss2si (Inf False) = - 2147483648 \<and>
   sample_count_x86_64 scan_stalled = 2 \<and>
   fdiv (scan_time (scan_stalled\<lparr>scan_time := Finite False 0\<rparr>))
        (time_increment (scan_stalled\<lparr>scan_time := Finite False 0\<rparr>)) = NaN \<and>
   sample_count_x86_64 (scan_stalled\<lparr>scan_time := Finite False 0\<rparr>) = 2 \<and>
   fdiv (scan_time (scan_stalled\<lparr>time_increment := Finite True 0\<rparr>))
        (time_increment (scan_stalled\<lparr>time_increment := Finite True 0\<rparr>)) = Inf True \<and>
   sample_count_x86_64 (scan_stalled\<lparr>time_increment := Finite True 0\<rparr>) = 2"
proof -
  let ?nan = "scan_stalled\<lparr>scan_time := Finite False 0\<rparr>"
  let ?neg = "scan_stalled\<lparr>time_increment := Finite True 0\<rparr>"
  have h: "time_increment scan_stalled = Finite False 0" "time_increment ?nan = Finite False 0"
    "time_increment ?neg = Finite True 0"
    by (simp_all add: scan_stalled_def)
  have len: "length (ranges scan_stalled) = 2" "length (ranges ?nan) = 2" "length (ranges ?neg) = 2"
    by (simp_all add: scan_stalled_def scan_two_def)
  have l: "length (ranges scan_stalled) < 2 ^ 31" "length (ranges ?nan) < 2 ^ 31"
    "length (ranges ?neg) < 2 ^ 31"
    by (simp_all only: len) simp_all
  have q: "fdiv (scan_time scan_stalled) (time_increment scan_stalled) = Inf False"
    "fdiv (scan_time ?nan) (time_increment ?nan) = NaN"
    "fdiv (scan_time ?neg) (time_increment ?neg) = Inf True"
    by (simp_all add: scan_stalled_def scan_two_def)
  from zero_time_increment_falls_back [OF h(1) l(1)]
  have "cvttss2si (Inf False) = - 2147483648 \<and> sample_count_x86_64 scan_stalled = 2"
    by (simp add: q len)
  moreover from zero_time_increment_falls_back [OF h(2) l(2)]
  have "sample_count_x86_64 ?nan = 2" by (simp add: len)
  moreover from zero_time_increment_falls_back [OF h(3) l(3)]
  have "sample_count_x86_64 ?neg = 2" by (simp add: len)
  ultimately show ?thesis using h(1) len(1) q by blast
qed

text \<open>
  Claim C3 says that a sample straight ahead (angle zero, positive range) lands strictly
  above the centre of the image, \<open>py < center.y\<close>. It does not: a range of one metre at
  angle zero, accepted by the range check, becomes the pixel \<open>(250, 300)\<close>, fifty rows below
  the centre.
\<close>

theorem forward_above_centre_counterexample:
  "\<not> range_rejected scan_two (Finite False 1) \<and>
   to_pixel cr_libm (new_LidarVisualizer True) (Finite False 0) (Finite False 1) =
     Inr (Point 250 300) \<and>
   \<not> pt_y (Point 250 300) < pt_y (center (new_LidarVisualizer True))"
  by (simp add: not_rejected_1 to_pixel_forward_1 [OF same_view_refl] center_new)

text \<open>
  Claim C3, as the callback has it. For a C library that is exact at zero (\<open>cos 0 = 1\<close>,
  \<open>sin 0 = 0\<close> with the sign of its argument), a sample at angle zero with a positive range
  whose pixel is defined has the column of the centre and never a row above it; from a
  range of one pixel on (\<open>0.02f\<close> metres) it lies strictly below the centre.
\<close>

theorem forward_is_image_down:
  assumes "cos_f32 lm (Finite sa 0) = Finite False 1"
    and "sin_f32 lm (Finite sa 0) = Finite sa 0"
    and "0 < r"
    and "to_pixel lm (new_LidarVisualizer ok) (Finite sa 0) (Finite False r) = Inr (Point px py)"
  shows "px = 250 \<and> 250 \<le> py \<and> (5368709 / 268435456 \<le> r \<longrightarrow> 250 < py)"
proof -
  from assms(4) have "px = 250 \<and>
      f2i (fsub (Finite False 250)
           (fdiv (fneg (rnd False r)) (Finite False (5368709 / 268435456)))) = Some py"
    by (simp add: to_pixel_def assms(1,2) mpp_new center_new i2f_def rnd_250 trunc_def
        split: option.splits)
  with forward_row [of r py] assms(3) show ?thesis by simp
qed

theorem forward_is_image_down_witness:
  "cos_f32 cr_libm (Finite False 0) = Finite False 1 \<and>
   sin_f32 cr_libm (Finite False 0) = Finite False 0 \<and>
   (0::real) < 1 \<and>
   to_pixel cr_libm (new_LidarVisualizer True) (Finite False 0) (Finite False 1) =
     Inr (Point 250 300) \<and>
   (5368709 / 268435456 :: real) \<le> 1 \<and> (250::int) \<le> 300 \<and> (250::int) < 300"
proof -
  have c: "cos_f32 cr_libm (Finite False 0) = Finite False 1"
    by (simp add: cr_libm_def cr_cos_zero)
  have s: "sin_f32 cr_libm (Finite False 0) = Finite False 0"
    by (simp add: cr_libm_def cr_sin_zero)
  have r: "(0::real) < 1" by simp
  have p: "to_pixel cr_libm (new_LidarVisualizer True) (Finite False 0) (Finite False 1) =
     Inr (Point 250 300)" by (rule to_pixel_forward_1 [OF same_view_refl])
  have "(5368709 / 268435456 :: real) \<le> 1" by simp
  with forward_is_image_down [OF c s r p] c s r p show ?thesis by blast
qed

text \<open>
  Claim C4. The count is said to be the truncation of \<open>scan_time / time_increment\<close> when that
  is positive and the length of \<open>ranges\<close> otherwise, so that a message with
  \<open>scan_time = 0\<close>, \<open>time_increment = 1\<close> and \<open>N\<close> ranges has exactly \<open>N\<close> samples processed.
  Both parts fail at the limits of \<open>int\<close>. With \<open>N = 2^31\<close> ranges the count is
  \<open>ranges.size()\<close> narrowed to \<open>int\<close>, \<open>-2^31\<close>: the callback returns a frame that holds the
  crosshair alone and has logged no sample. With a quotient of \<open>2^31\<close>, which is positive,
  the count is not its truncation: the conversion is undefined.
\<close>

theorem sample_count_fallback_counterexample:
  "scan_time scan_huge = Finite False 0 \<and> time_increment scan_huge = Finite False 1 \<and>
   length (ranges scan_huge) = 2147483648 \<and>
   sample_count scan_huge = Inr (- 2147483648) \<and>
   scanCallback cr_libm (new_LidarVisualizer True) scan_huge =
     Inr (deliver (new_LidarVisualizer True) scan_huge (- 2147483648)
            (crosshair (new_LidarVisualizer True) (white_image (new_LidarVisualizer True)))) \<and>
   debug_events scan_huge 0 (nat (- 2147483648)) = [] \<and>
   fdiv (scan_time scan_fast) (time_increment scan_fast) = Finite False 2147483648 \<and>
   trunc (with_sign False 2147483648) = 2147483648 \<and>
   sample_count scan_fast = Inl Undefined_float_to_int"
proof -
  have "scan_time scan_huge = Finite False 0 \<and> time_increment scan_huge = Finite False 1 \<and>
      length (ranges scan_huge) = 2147483648"
    by (simp add: scan_huge_def scan_two_def)
  moreover have "debug_events scan_huge 0 (nat (- 2147483648)) = []"
    by (simp add: debug_events_def)
  moreover have "fdiv (scan_time scan_fast) (time_increment scan_fast) = Finite False 2147483648 \<and>
      trunc (with_sign False 2147483648) = 2147483648 \<and>
      sample_count scan_fast = Inl Undefined_float_to_int"
    by (simp add: sample_count_def scan_fast_def scan_two_def rnd_2_31 trunc_def)
  ultimately show ?thesis by (simp only: sample_count_huge callback_huge simp_thms)
qed

text \<open>
  Claim C4, as the callback has it. For a message whose \<open>ranges\<close> vector has a length that
  fits an \<open>int\<close>: when the quotient \<open>scan_time / time_increment\<close> is finite and its
  truncation \<open>t\<close> fits an \<open>int\<close>, the count is \<open>t\<close> if \<open>t\<close> is positive and the length of
  \<open>ranges\<close> otherwise. With \<open>scan_time = 0\<close> and \<open>time_increment = 1\<close> the count is the length
  \<open>N\<close> of \<open>ranges\<close>; a callback that returns has then logged exactly the \<open>N\<close> samples
  \<open>0 .. N - 1\<close>, in order; and it does return whenever every sample is either rejected or
  has a defined pixel.
\<close>

theorem sample_count_fallback:
  assumes "length (ranges scan) < 2 ^ 31"
  shows "(fdiv (scan_time scan) (time_increment scan) = Finite s q \<and>
            - (2 ^ 31) \<le> trunc (with_sign s q) \<and> trunc (with_sign s q) < 2 ^ 31 \<longrightarrow>
          sample_count scan =
            Inr (if 0 < trunc (with_sign s q) then trunc (with_sign s q)
                 else int (length (ranges scan)))) \<and>
         (scan_time scan = Finite t 0 \<and> time_increment scan = Finite False 1 \<longrightarrow>
          sample_count scan = Inr (int (length (ranges scan))) \<and>
          (\<forall>node'. scanCallback lm node scan = Inr node' \<longrightarrow>
             logged node' = logged node @
               [Info_heard (frame_id scan) (int (length (ranges scan))),
                Info_angle_range (angle_min scan) (angle_max scan)] @
               debug_events scan 0 (length (ranges scan))) \<and>
          ((\<forall>k<length (ranges scan).
              range_rejected scan (ranges scan ! k) \<or>
              (\<exists>p. to_pixel lm node (sample_angle scan (int k)) (ranges scan ! k) = Inr p)) \<longrightarrow>
           (\<exists>node'. scanCallback lm node scan = Inr node')))"
proof (intro conjI impI)
  assume "fdiv (scan_time scan) (time_increment scan) = Finite s q \<and>
            - (2 ^ 31) \<le> trunc (with_sign s q) \<and> trunc (with_sign s q) < 2 ^ 31"
  then show "sample_count scan =
            Inr (if 0 < trunc (with_sign s q) then trunc (with_sign s q)
                 else int (length (ranges scan)))"
    using assms by (simp add: sample_count_def size_to_int_small)
next
  assume z: "scan_time scan = Finite t 0 \<and> time_increment scan = Finite False 1"
  then show c: "sample_count scan = Inr (int (length (ranges scan)))"
    using assms by (simp add: sample_count_def size_to_int_small trunc_def)
  show "\<forall>node'. scanCallback lm node scan = Inr node' \<longrightarrow>
             logged node' = logged node @
               [Info_heard (frame_id scan) (int (length (ranges scan))),
                Info_angle_range (angle_min scan) (angle_max scan)] @
               debug_events scan 0 (length (ranges scan))"
  proof (intro allI impI)
    fix node'
    assume "scanCallback lm node scan = Inr node'"
    from scanCallback_deliver [OF this] c show "logged node' = logged node @
               [Info_heard (frame_id scan) (int (length (ranges scan))),
                Info_angle_range (angle_min scan) (angle_max scan)] @
               debug_events scan 0 (length (ranges scan))"
      by (auto simp: deliver_def)
  qed
  assume ok: "\<forall>k<length (ranges scan).
              range_rejected scan (ranges scan ! k) \<or>
              (\<exists>p. to_pixel lm node (sample_angle scan (int k)) (ranges scan ! k) = Inr p)"
  have "\<exists>st'. render_loop lm node scan (int (length (ranges scan))) 0
      (crosshair node (white_image node),
       logged node @ [Info_heard (frame_id scan) (int (length (ranges scan))),
                      Info_angle_range (angle_min scan) (angle_max scan)]) = Inr st'"
    using ok by (intro render_loop_total) simp_all
  then show "\<exists>node'. scanCallback lm node scan = Inr node'"
    using c by (auto simp: scanCallback_def Let_def)
qed

theorem sample_count_fallback_witness:
  "length (ranges scan_two) < 2 ^ 31 \<and>
   scan_time scan_two = Finite False 0 \<and> time_increment scan_two = Finite False 1 \<and>
   sample_count scan_two = Inr (int (length (ranges scan_two))) \<and>
   length (ranges scan_two) = 2 \<and>
   scanCallback cr_libm (new_LidarVisualizer True) scan_two =
     Inr (deliver (new_LidarVisualizer True) scan_two 2 frame_two) \<and>
   logged (deliver (new_LidarVisualizer True) scan_two 2 frame_two) =
     logged (new_LidarVisualizer True) @
     [Info_heard (frame_id scan_two) (int (length (ranges scan_two))),
      Info_angle_range (angle_min scan_two) (angle_max scan_two)] @
     debug_events scan_two 0 (length (ranges scan_two)) \<and>
   fdiv (scan_time scan_short) (time_increment scan_short) = Finite False 2 \<and>
   sample_count scan_short = Inr 2"
proof -
  have len: "length (ranges scan_two) < 2 ^ 31" "length (ranges scan_short) < 2 ^ 31"
    "length (ranges scan_two) = 2"
    by (simp_all add: scan_two_def scan_short_def)
  have z: "scan_time scan_two = Finite False 0 \<and> time_increment scan_two = Finite False 1"
    by (simp add: scan_two_def)
  have cb: "scanCallback cr_libm (new_LidarVisualizer True) scan_two =
     Inr (deliver (new_LidarVisualizer True) scan_two 2 frame_two)"
    by (rule callback_two_deliver [OF same_view_refl])
  have q: "fdiv (scan_time scan_short) (time_increment scan_short) = Finite False 2 \<and>
      - (2 ^ 31) \<le> trunc (with_sign False 2) \<and> trunc (with_sign False 2) < 2 ^ 31"
    by (simp add: scan_short_def scan_two_def rnd_2 trunc_def)
  have t: "trunc (with_sign False 2) = 2" by (simp add: trunc_def)
  from sample_count_fallback [OF len(1), of False 0 False cr_libm "new_LidarVisualizer True"]
    z cb
  have "sample_count scan_two = Inr (int (length (ranges scan_two))) \<and>
     logged (deliver (new_LidarVisualizer True) scan_two 2 frame_two) =
     logged (new_LidarVisualizer True) @
     [Info_heard (frame_id scan_two) (int (length (ranges scan_two))),
      Info_angle_range (angle_min scan_two) (angle_max scan_two)] @
     debug_events scan_two 0 (length (ranges scan_two))" by blast
  moreover from sample_count_fallback [OF len(2), of False 2 False cr_libm
      "new_LidarVisualizer True"] q t
  have "sample_count scan_short = Inr 2" by simp
  ultimately show ?thesis using len z cb q by blast
qed

text \<open>
  Claim C5. A sample whose range is below \<open>range_min\<close>, above \<open>range_max\<close> or a NaN is
  skipped, whatever the angle fields of the message: the turn of the loop succeeds, leaves
  the image as it was (only the debug line is logged), and the loop goes on with the next
  index.
\<close>

theorem rejected_sample_skipped:
  assumes "nat i < length (ranges scan)"
    and "flt (ranges scan ! nat i) (range_min scan) \<or>
         fgt (ranges scan ! nat i) (range_max scan) \<or>
         ranges scan ! nat i = NaN"
  shows "loop_body lm node scan i (img, lg) =
           Inr (img, lg @ [Debug_angle_distance (sample_angle scan i) (ranges scan ! nat i)]) \<and>
         (i < count \<longrightarrow>
            render_loop lm node scan count i (img, lg) =
            render_loop lm node scan count (i + 1)
              (img, lg @ [Debug_angle_distance (sample_angle scan i) (ranges scan ! nat i)]))"
proof -
  from assms(2) have "range_rejected scan (ranges scan ! nat i)"
    by (auto simp: range_rejected_def)
  with assms(1) have body: "loop_body lm node scan i (img, lg) =
      Inr (img, lg @ [Debug_angle_distance (sample_angle scan i) (ranges scan ! nat i)])"
    by (simp add: loop_body_def)
  then show ?thesis by (simp add: render_loop_step)
qed

theorem rejected_sample_skipped_witness:
  "nat 1 < length (ranges scan_two) \<and> ranges scan_two ! nat 1 = NaN \<and>
   loop_body cr_libm (new_LidarVisualizer True) scan_two 1 (frame_two, []) =
     Inr (frame_two, [Debug_angle_distance (sample_angle scan_two 1) NaN]) \<and>
   render_loop cr_libm (new_LidarVisualizer True) scan_two 2 1 (frame_two, []) =
     Inr (frame_two, [Debug_angle_distance (sample_angle scan_two 1) NaN]) \<and>
   flt (ranges scan_far ! nat 0) (range_min scan_far) \<and>
   loop_body cr_libm (new_LidarVisualizer True) scan_far 0 (frame_two, []) =
     Inr (frame_two, [Debug_angle_distance (sample_angle scan_far 0) (Finite False (1/4))]) \<and>
   fgt (ranges scan_far ! nat 1) (range_max scan_far) \<and>
   loop_body cr_libm (new_LidarVisualizer True) scan_far 1 (frame_two, []) =
     Inr (frame_two, [Debug_angle_distance (sample_angle scan_far 1) (Finite False 20)])"
proof -
  have a: "nat 1 < length (ranges scan_two)" "ranges scan_two ! nat 1 = NaN"
    by (simp_all add: scan_two_def)
  have b: "nat 0 < length (ranges scan_far)" "flt (ranges scan_far ! nat 0) (range_min scan_far)"
    "ranges scan_far ! nat 0 = Finite False (1/4)"
    by (simp_all add: scan_far_def scan_two_def)
  have c: "nat 1 < length (ranges scan_far)" "fgt (ranges scan_far ! nat 1) (range_max scan_far)"
    "ranges scan_far ! nat 1 = Finite False 20"
    by (simp_all add: scan_far_def scan_two_def fgt_def)
  from rejected_sample_skipped [of 1 scan_two cr_libm "new_LidarVisualizer True" frame_two "[]" 2]
    a
  have "loop_body cr_libm (new_LidarVisualizer True) scan_two 1 (frame_two, []) =
     Inr (frame_two, [Debug_angle_distance (sample_angle scan_two 1) NaN]) \<and>
     render_loop cr_libm (new_LidarVisualizer True) scan_two 2 1 (frame_two, []) =
     render_loop cr_libm (new_LidarVisualizer True) scan_two 2 (1 + 1)
       (frame_two, [Debug_angle_distance (sample_angle scan_two 1) NaN])" by simp
  then have 1: "loop_body cr_libm (new_LidarVisualizer True) scan_two 1 (frame_two, []) =
     Inr (frame_two, [Debug_angle_distance (sample_angle scan_two 1) NaN]) \<and>
     render_loop cr_libm (new_LidarVisualizer True) scan_two 2 1 (frame_two, []) =
     Inr (frame_two, [Debug_angle_distance (sample_angle scan_two 1) NaN])"
    by (simp add: render_loop_done)
  from rejected_sample_skipped [of 0 scan_far cr_libm "new_LidarVisualizer True" frame_two "[]" 2]
    b
  have 2: "loop_body cr_libm (new_LidarVisualizer True) scan_far 0 (frame_two, []) =
     Inr (frame_two, [Debug_angle_distance (sample_angle scan_far 0) (Finite False (1/4))])"
    by simp
  from rejected_sample_skipped [of 1 scan_far cr_libm "new_LidarVisualizer True" frame_two "[]" 2]
    c
  have 3: "loop_body cr_libm (new_LidarVisualizer True) scan_far 1 (frame_two, []) =
     Inr (frame_two, [Debug_angle_distance (sample_angle scan_far 1) (Finite False 20)])"
    by simp
  from a b c 1 2 3 show ?thesis by blast
qed

text \<open>
  Claim C6. A pixel is drawn (one filled red circle of radius 2) exactly when both
  coordinates are in \<open>[0, image_size)\<close>; otherwise the image is returned unchanged and
  nothing fails: the turn of the loop for an accepted sample succeeds with the image that
  this test leaves. For the image of 500 pixels: \<open>499\<close> is drawn, \<open>500\<close> and \<open>-1\<close> on either
  axis are dropped.
\<close>

theorem pixel_bounds_check:
  "draw_point node (Point px py) img =
     (if 0 \<le> px \<and> px < img_size node \<and> 0 \<le> py \<and> py < img_size node
      then img\<lparr>drawn := drawn img @ [Circle (Point px py) 2 (Scalar 0 0 255) (- 1)]\<rparr>
      else img) \<and>
   (nat i < length (ranges scan) \<and> \<not> range_rejected scan (ranges scan ! nat i) \<and>
    to_pixel lm node (sample_angle scan i) (ranges scan ! nat i) = Inr (Point px py) \<longrightarrow>
    loop_body lm node scan i (img, lg) =
      Inr (draw_point node (Point px py) img,
           lg @ [Debug_angle_distance (sample_angle scan i) (ranges scan ! nat i)])) \<and>
   draw_point (new_LidarVisualizer ok) (Point 499 499) img =
     img\<lparr>drawn := drawn img @ [Circle (Point 499 499) 2 (Scalar 0 0 255) (- 1)]\<rparr> \<and>
   draw_point (new_LidarVisualizer ok) (Point 500 py) img = img \<and>
   draw_point (new_LidarVisualizer ok) (Point px 500) img = img \<and>
   draw_point (new_LidarVisualizer ok) (Point (- 1) py) img = img \<and>
   draw_point (new_LidarVisualizer ok) (Point px (- 1)) img = img"
  by (simp add: draw_point_def in_image_def cv_circle_def new_LidarVisualizer_def loop_body_def)

theorem pixel_bounds_check_witness:
  "nat 0 < length (ranges scan_two) \<and> \<not> range_rejected scan_two (ranges scan_two ! nat 0) \<and>
   to_pixel cr_libm (new_LidarVisualizer True) (sample_angle scan_two 0)
     (ranges scan_two ! nat 0) = Inr (Point 250 300) \<and>
   loop_body cr_libm (new_LidarVisualizer True) scan_two 0
     (crosshair (new_LidarVisualizer True) (white_image (new_LidarVisualizer True)), []) =
     Inr (frame_two, [Debug_angle_distance (Finite False 0) (Finite False 1)]) \<and>
   draw_point (new_LidarVisualizer True) (Point 499 0) frame_two =
     frame_two\<lparr>drawn := drawn frame_two @ [Circle (Point 499 0) 2 (Scalar 0 0 255) (- 1)]\<rparr> \<and>
   draw_point (new_LidarVisualizer True) (Point 500 0) frame_two = frame_two \<and>
   draw_point (new_LidarVisualizer True) (Point 0 (- 1)) frame_two = frame_two \<and>
   draw_point (new_LidarVisualizer True) (Point 499 499) frame_two =
     frame_two\<lparr>drawn := drawn frame_two @ [Circle (Point 499 499) 2 (Scalar 0 0 255) (- 1)]\<rparr>"
proof -
  let ?n = "new_LidarVisualizer True"
  have r: "ranges scan_two ! nat 0 = Finite False 1" by (simp add: scan_two_def)
  have h1: "nat 0 < length (ranges scan_two)" by (simp add: scan_two_def)
  have h2: "\<not> range_rejected scan_two (ranges scan_two ! nat 0)"
    by (simp only: r not_rejected_1) simp
  have h3: "to_pixel cr_libm ?n (sample_angle scan_two 0) (ranges scan_two ! nat 0) =
      Inr (Point 250 300)"
    by (simp only: r sample_angle_two to_pixel_forward_1 [OF same_view_refl])
  have d: "draw_point ?n (Point 250 300) (crosshair ?n (white_image ?n)) = frame_two"
    by (simp add: draw_point_def in_image_def cv_circle_def crosshair_def white_image_def
        cv_line_def frame_two_def new_LidarVisualizer_def)
  from pixel_bounds_check [of ?n 250 300 "crosshair ?n (white_image ?n)" 0 scan_two cr_libm
      "[]" True] h1 h2 h3
  have "loop_body cr_libm ?n scan_two 0 (crosshair ?n (white_image ?n), []) =
     Inr (draw_point ?n (Point 250 300) (crosshair ?n (white_image ?n)),
          [] @ [Debug_angle_distance (sample_angle scan_two 0) (ranges scan_two ! nat 0)])"
    by blast
  then have "loop_body cr_libm ?n scan_two 0 (crosshair ?n (white_image ?n), []) =
     Inr (frame_two, [Debug_angle_distance (Finite False 0) (Finite False 1)])"
    by (simp only: d r sample_angle_two append_Nil)
  with h1 h2 h3 pixel_bounds_check [of ?n 499 0 frame_two 0 scan_two cr_libm "[]" True]
    pixel_bounds_check [of ?n 0 0 frame_two 0 scan_two cr_libm "[]" True]
  show ?thesis by (simp add: img_size_new)
qed

text \<open>
  Claim C7 says that for every positive integer \<open>k\<close> a sample at angle zero with range
  \<open>meters_per_pixel * k\<close> has a pixel exactly \<open>k\<close> rows from the centre. With the range the
  \<open>float\<close> product of \<open>0.02f\<close> and \<open>k\<close>, this fails first at \<open>k = 1603\<close>: the range is
  \<open>32.05999755859375\<close>, its quotient by \<open>0.02f\<close> rounds to \<open>1602.9998779296875\<close>, and the
  truncated row is \<open>1852\<close>, which is \<open>1602\<close> rows from the centre.
\<close>

theorem round_trip_counterexample:
  "fmul (meter_per_pixel (new_LidarVisualizer True)) (i2f 1603) = Finite False (525271 / 16384) \<and>
   to_pixel cr_libm (new_LidarVisualizer True) (Finite False 0)
     (fmul (meter_per_pixel (new_LidarVisualizer True)) (i2f 1603)) = Inr (Point 250 1852) \<and>
   \<bar>pt_y (Point 250 1852) - pt_y (center (new_LidarVisualizer True))\<bar> \<noteq> 1603"
proof -
  have "to_pixel cr_libm (new_LidarVisualizer True) (Finite False 0)
     (fmul (meter_per_pixel (new_LidarVisualizer True)) (i2f 1603)) = Inr (Point 250 1852)"
    by (rule chain_sound [OF chain_1603]) (simp_all add: cr_libm_def cr_cos_zero cr_sin_zero)
  then show ?thesis by (simp add: range_1603 center_new)
qed

text \<open>
  Claim C7, as the callback has it. For a C library that is exact at zero and every
  integer \<open>k\<close> from 1 to 1602, the sample at angle zero with range \<open>meter_per_pixel_ * k\<close>
  (the \<open>float\<close> product) has the pixel in the column of the centre, exactly \<open>k\<close> rows below
  it.
\<close>

theorem round_trip_in_range:
  assumes "cos_f32 lm (Finite sa 0) = Finite False 1"
    and "sin_f32 lm (Finite sa 0) = Finite sa 0"
    and "1 \<le> k" and "k \<le> 1602"
  shows "to_pixel lm (new_LidarVisualizer ok) (Finite sa 0)
           (fmul (meter_per_pixel (new_LidarVisualizer ok)) (i2f k)) =
         Inr (Point (pt_x (center (new_LidarVisualizer ok)))
                    (pt_y (center (new_LidarVisualizer ok)) + k))"
proof -
  from round_trip_certs_ok assms(3,4) have "\<exists>c. chain_ok k (250 + k) c"
    by (intro rows_ok_sound [of 1 round_trip_certs k]) simp_all
  then obtain c where "chain_ok k (250 + k) c" ..
  then have "to_pixel lm (new_LidarVisualizer ok) (Finite sa 0)
           (fmul (meter_per_pixel (new_LidarVisualizer ok)) (i2f k)) = Inr (Point 250 (250 + k))"
    using assms by (intro chain_sound) simp_all
  then show ?thesis by (simp add: center_new)
qed

theorem round_trip_in_range_witness:
  "cos_f32 cr_libm (Finite False 0) = Finite False 1 \<and>
   sin_f32 cr_libm (Finite False 0) = Finite False 0 \<and>
   (1::int) \<le> 249 \<and> (249::int) \<le> 1602 \<and>
   to_pixel cr_libm (new_LidarVisualizer True) (Finite False 0)
     (fmul (meter_per_pixel (new_LidarVisualizer True)) (i2f 249)) = Inr (Point 250 499)"
proof -
  have c: "cos_f32 cr_libm (Finite False 0) = Finite False 1"
    by (simp add: cr_libm_def cr_cos_zero)
  have s: "sin_f32 cr_libm (Finite False 0) = Finite False 0"
    by (simp add: cr_libm_def cr_sin_zero)
  have k: "(1::int) \<le> 249" "(249::int) \<le> 1602" by simp_all
  from round_trip_in_range [OF c s k, of True] c s k show ?thesis
    by (simp add: center_new)
qed

text \<open>
  Claim C8. Whatever messages the node has handled before, the frame of a callback that
  returns is a new white image of 500 by 500 with the two black strokes of the crosshair
  through \<open>(250, 250)\<close> drawn first, then only markers of the loop; and it is the very frame
  a node just constructed shows for the same message, so nothing of earlier frames is in
  it.
\<close>

theorem fresh_white_frame_with_crosshair:
  assumes "spin lm (new_LidarVisualizer ok) scans = Inr node"
    and "scanCallback lm node scan = Inr node'"
  shows "\<exists>marks.
      last (shown node') =
        \<lparr>rows = 500, cols = 500, fill = Scalar 255 255 255,
         drawn = [Line (Point 245 250) (Point 255 250) (Scalar 0 0 0) 2,
                  Line (Point 250 245) (Point 250 255) (Scalar 0 0 0) 2] @ marks\<rparr> \<and>
      list_all (is_marker node) marks \<and>
      (\<exists>fresh. scanCallback lm (new_LidarVisualizer ok) scan = Inr fresh \<and>
               shown fresh = [last (shown node')])"
proof -
  have sv: "same_view node (new_LidarVisualizer ok)"
    using spin_same_view [OF assms(1)] by (simp add: same_view_def)
  then have cfg: "img_size node = 500" "center node = Point 250 250"
    by (simp_all add: same_view_def new_LidarVisualizer_def)
  from frame_shape [OF assms(2)] obtain marks where
    m: "shown node' = shown node @
      [\<lparr>rows = img_size node, cols = img_size node, fill = Scalar 255 255 255,
        drawn = [Line (Point (pt_x (center node) - 5) (pt_y (center node)))
                      (Point (pt_x (center node) + 5) (pt_y (center node))) (Scalar 0 0 0) 2,
                 Line (Point (pt_x (center node)) (pt_y (center node) - 5))
                      (Point (pt_x (center node)) (pt_y (center node) + 5)) (Scalar 0 0 0) 2]
                @ marks\<rparr>]" "list_all (is_marker node) marks" by blast
  from frame_history_free [OF assms(2) sv] obtain fresh where
    f: "scanCallback lm (new_LidarVisualizer ok) scan = Inr fresh"
       "last (shown fresh) = last (shown node')" by blast
  from frame_shape [OF f(1)] have "length (shown fresh) = 1"
    by (auto simp: new_LidarVisualizer_def)
  with f(2) have "shown fresh = [last (shown node')]"
    by (cases "shown fresh") auto
  with m f(1) cfg show ?thesis by auto
qed

theorem fresh_white_frame_with_crosshair_witness:
  "spin cr_libm (new_LidarVisualizer False) [scan_two] = Inr node_one \<and>
   scanCallback cr_libm node_one scan_two = Inr node_two \<and>
   last (shown node_two) = frame_two \<and>
   (\<exists>marks.
      last (shown node_two) =
        \<lparr>rows = 500, cols = 500, fill = Scalar 255 255 255,
         drawn = [Line (Point 245 250) (Point 255 250) (Scalar 0 0 0) 2,
                  Line (Point 250 245) (Point 250 255) (Scalar 0 0 0) 2] @ marks\<rparr> \<and>
      list_all (is_marker node_one) marks \<and>
      (\<exists>fresh. scanCallback cr_libm (new_LidarVisualizer False) scan_two = Inr fresh \<and>
               shown fresh = [last (shown node_two)]))"
proof -
  have a: "spin cr_libm (new_LidarVisualizer False) [scan_two] = Inr node_one"
    unfolding node_one_def by (rule spin_two_once)
  have b: "scanCallback cr_libm node_one scan_two = Inr node_two"
    unfolding node_two_def node_one_def
    by (rule callback_two_deliver [OF same_view_deliver [OF same_view_refl]])
  from fresh_white_frame_with_crosshair [OF a b] a b show ?thesis
    by (simp add: shown_node_two)
qed

text \<open>
  Claim C9. After any run of callbacks that returned: the writer is open exactly if it
  opened at start-up (no retry); one frame was shown per message; the video holds exactly
  the frames shown when the writer is open and nothing when it is not; the only warning
  ever logged is the one of a failed start-up; and the other start-up outcome gives the
  same run with the same frames shown, so a writer that did not open costs no frame and
  causes no failure.
\<close>

theorem recording_follows_startup:
  assumes "spin lm (new_LidarVisualizer ok) scans = Inr node"
  shows "writer_opened node = ok \<and>
         length (shown node) = length scans \<and>
         written node = (if ok then shown node else []) \<and>
         filter is_warn (logged node) =
           (if ok then [] else [Warn ''Failed to open video writer, video will not be saved.'']) \<and>
         outcome (spin lm (new_LidarVisualizer (\<not> ok)) scans) = Inr (shown node)"
proof -
  from spin_recording [OF assms] obtain frames where
    f: "writer_opened node = ok"
       "filter is_warn (logged node) = filter is_warn (logged (new_LidarVisualizer ok))"
       "length frames = length scans" "shown node = frames"
       "written node = (if ok then frames else [])"
    by (auto simp: new_LidarVisualizer_def)
  have "outcome (spin lm (new_LidarVisualizer (\<not> ok)) scans) =
      outcome (spin lm (new_LidarVisualizer ok) scans)"
    by (rule spin_outcome_view) (simp_all add: same_view_def new_LidarVisualizer_def)
  then have "outcome (spin lm (new_LidarVisualizer (\<not> ok)) scans) = Inr (shown node)"
    using assms by (simp add: outcome_def)
  with f show ?thesis by (simp add: new_LidarVisualizer_def)
qed

theorem recording_follows_startup_witness:
  "spin cr_libm (new_LidarVisualizer False) [scan_two, scan_two] = Inr node_two \<and>
   writer_opened node_two = False \<and>
   length (shown node_two) = length [scan_two, scan_two] \<and>
   shown node_two = [frame_two, frame_two] \<and>
   written node_two = [] \<and>
   filter is_warn (logged node_two) =
     [Warn ''Failed to open video writer, video will not be saved.''] \<and>
   outcome (spin cr_libm (new_LidarVisualizer True) [scan_two, scan_two]) =
     Inr (shown node_two) \<and>
   written (deliver (deliver (new_LidarVisualizer True) scan_two 2 frame_two)
              scan_two 2 frame_two) = [frame_two, frame_two]"
proof -
  have a: "spin cr_libm (new_LidarVisualizer False) [scan_two, scan_two] = Inr node_two"
    unfolding node_two_def node_one_def by (rule spin_two_twice)
  have b: "spin cr_libm (new_LidarVisualizer True) [scan_two, scan_two] =
     Inr (deliver (deliver (new_LidarVisualizer True) scan_two 2 frame_two)
              scan_two 2 frame_two)"
    by (rule spin_two_twice)
  have c: "shown (deliver (deliver (new_LidarVisualizer True) scan_two 2 frame_two)
              scan_two 2 frame_two) = [frame_two, frame_two]"
    by (simp add: deliver_def new_LidarVisualizer_def)
  from recording_follows_startup [OF a] recording_follows_startup [OF b] a c
  show ?thesis by (simp add: shown_node_two)
qed

text \<open>
  Claim C10. No test looks at the angle. Take any sample \<open>i\<close> whose range is neither below
  \<open>range_min\<close>, nor above \<open>range_max\<close>, nor a NaN, and whose pixel, computed from the sine
  and the cosine of \<open>angle_min + i * angle_increment\<close>, is defined and inside the image.
  Then its turn of the loop appends the red disc at that pixel to the drawing calls of the
  image and logs that angle; when the callback returns, the frame it shows holds the disc
  and its log holds the angle; and \<open>angle_max\<close> has no influence on what a callback shows.
\<close>

theorem angle_never_validated:
  assumes "0 \<le> i" and "nat i < length (ranges scan)"
    and "\<not> flt (ranges scan ! nat i) (range_min scan)"
    and "\<not> fgt (ranges scan ! nat i) (range_max scan)"
    and "\<not> isnan (ranges scan ! nat i)"
    and "f2i (fadd (i2f (pt_x (center node)))
           (fdiv (fmul (ranges scan ! nat i)
                    (sin_f32 lm (fadd (angle_min scan) (fmul (i2f i) (angle_increment scan)))))
              (meter_per_pixel node))) = Some px"
    and "f2i (fsub (i2f (pt_y (center node)))
           (fdiv (fneg (fmul (ranges scan ! nat i)
                    (cos_f32 lm (fadd (angle_min scan) (fmul (i2f i) (angle_increment scan))))))
              (meter_per_pixel node))) = Some py"
    and "0 \<le> px" "px < img_size node" "0 \<le> py" "py < img_size node"
  shows "loop_body lm node scan i (img, lg) =
           Inr (img\<lparr>drawn := drawn img @ [Circle (Point px py) 2 (Scalar 0 0 255) (- 1)]\<rparr>,
                lg @ [Debug_angle_distance
                        (fadd (angle_min scan) (fmul (i2f i) (angle_increment scan)))
                        (ranges scan ! nat i)]) \<and>
         (\<forall>count node'.
            sample_count scan = Inr count \<and> i < count \<and> scanCallback lm node scan = Inr node' \<longrightarrow>
            Circle (Point px py) 2 (Scalar 0 0 255) (- 1) \<in> set (drawn (last (shown node'))) \<and>
            Debug_angle_distance
              (fadd (angle_min scan) (fmul (i2f i) (angle_increment scan)))
              (ranges scan ! nat i) \<in> set (logged node')) \<and>
         outcome (scanCallback lm node (scan\<lparr>angle_max := a\<rparr>)) =
           outcome (scanCallback lm node scan)"
proof (intro conjI allI impI)
  show "loop_body lm node scan i (img, lg) =
           Inr (img\<lparr>drawn := drawn img @ [Circle (Point px py) 2 (Scalar 0 0 255) (- 1)]\<rparr>,
                lg @ [Debug_angle_distance
                        (fadd (angle_min scan) (fmul (i2f i) (angle_increment scan)))
                        (ranges scan ! nat i)])"
    using assms(2-11) by (rule loop_body_plots)
  show "outcome (scanCallback lm node (scan\<lparr>angle_max := a\<rparr>)) =
           outcome (scanCallback lm node scan)"
    by (rule scanCallback_angle_max)
next
  fix count node'
  assume h: "sample_count scan = Inr count \<and> i < count \<and> scanCallback lm node scan = Inr node'"
  from scanCallback_deliver [of lm node scan node'] h obtain img' where
    d: "node' = deliver node scan count img'" and
    r: "render_loop lm node scan count 0
         (crosshair node (white_image node),
          logged node @ [Info_heard (frame_id scan) count,
                         Info_angle_range (angle_min scan) (angle_max scan)])
       = Inr (img', logged node')" by auto
  have b: "\<exists>lg1. loop_body lm node scan i (img, lg) =
      Inr (img\<lparr>drawn := drawn img @ [Circle (Point px py) 2 (Scalar 0 0 255) (- 1)]\<rparr>, lg1)"
    for img lg
    using loop_body_plots [OF assms(2-11)] by blast
  from render_loop_plots [OF r assms(1) _ b] h
  have "Circle (Point px py) 2 (Scalar 0 0 255) (- 1) \<in> set (drawn img')" by blast
  then show "Circle (Point px py) 2 (Scalar 0 0 255) (- 1) \<in> set (drawn (last (shown node')))"
    using d by (simp add: deliver_def)
  show "Debug_angle_distance
          (fadd (angle_min scan) (fmul (i2f i) (angle_increment scan)))
          (ranges scan ! nat i) \<in> set (logged node')"
    using d debug_event_logged [OF assms(1), of count scan] h by (simp add: deliver_def)
qed

text \<open>
  The second sample of \<open>scan_sweep\<close>: index 1, at an angle of one radian, beyond the
  \<open>angle_max\<close> of 0.5, and at 1.5 metres. It is plotted at the pixel \<open>(313, 290)\<close>.
\<close>

theorem angle_never_validated_witness:
  "fadd (angle_min scan_sweep) (fmul (i2f 1) (angle_increment scan_sweep)) = Finite False 1 \<and>
   angle_max scan_sweep = Finite False (1/2) \<and>
   flt (angle_max scan_sweep)
     (fadd (angle_min scan_sweep) (fmul (i2f 1) (angle_increment scan_sweep))) \<and>
   ranges scan_sweep ! nat 1 = Finite False (3/2) \<and>
   f2i (fadd (i2f (pt_x (center (new_LidarVisualizer True))))
          (fdiv (fmul (ranges scan_sweep ! nat 1)
                   (sin_f32 cr_libm
                      (fadd (angle_min scan_sweep) (fmul (i2f 1) (angle_increment scan_sweep)))))
             (meter_per_pixel (new_LidarVisualizer True)))) = Some 313 \<and>
   f2i (fsub (i2f (pt_y (center (new_LidarVisualizer True))))
          (fdiv (fneg (fmul (ranges scan_sweep ! nat 1)
                   (cos_f32 cr_libm
                      (fadd (angle_min scan_sweep) (fmul (i2f 1) (angle_increment scan_sweep))))))
             (meter_per_pixel (new_LidarVisualizer True)))) = Some 290 \<and>
   loop_body cr_libm (new_LidarVisualizer True) scan_sweep 1 (frame_two, []) =
     Inr (frame_sweep, [Debug_angle_distance (Finite False 1) (Finite False (3/2))]) \<and>
   sample_count scan_sweep = Inr 2 \<and>
   scanCallback cr_libm (new_LidarVisualizer True) scan_sweep =
     Inr (deliver (new_LidarVisualizer True) scan_sweep 2 frame_sweep) \<and>
   last (shown (deliver (new_LidarVisualizer True) scan_sweep 2 frame_sweep)) = frame_sweep \<and>
   Circle (Point 313 290) 2 (Scalar 0 0 255) (- 1) \<in> set (drawn frame_sweep) \<and>
   Debug_angle_distance (Finite False 1) (Finite False (3/2)) \<in>
     set (logged (deliver (new_LidarVisualizer True) scan_sweep 2 frame_sweep)) \<and>
   outcome (scanCallback cr_libm (new_LidarVisualizer True)
              (scan_sweep\<lparr>angle_max := Finite False 7\<rparr>)) =
     outcome (scanCallback cr_libm (new_LidarVisualizer True) scan_sweep)"
proof -
  let ?node = "new_LidarVisualizer True"
  let ?angle = "fadd (angle_min scan_sweep) (fmul (i2f 1) (angle_increment scan_sweep))"
  let ?node' = "deliver ?node scan_sweep 2 frame_sweep"
  have ang: "?angle = Finite False 1"
    using sample_angle_sweep(2) by (simp only: sample_angle_def)
  have amx: "angle_max scan_sweep = Finite False (1/2)" by (simp add: scan_sweep_def)
  have beyond: "flt (angle_max scan_sweep) ?angle" by (simp only: ang amx) simp
  have r: "ranges scan_sweep ! nat 1 = Finite False (3/2)" by (simp add: scan_sweep_def)
  have h1: "(0::int) \<le> 1" by simp
  have h2: "nat 1 < length (ranges scan_sweep)" by (simp add: scan_sweep_def)
  have h3: "\<not> flt (ranges scan_sweep ! nat 1) (range_min scan_sweep)"
    by (simp only: r) (simp add: scan_sweep_def)
  have h4: "\<not> fgt (ranges scan_sweep ! nat 1) (range_max scan_sweep)"
    by (simp only: r) (simp add: scan_sweep_def fgt_def)
  have h5: "\<not> isnan (ranges scan_sweep ! nat 1)" by (simp only: r) simp
  have p: "to_pixel cr_libm ?node (Finite False 1) (Finite False (3/2)) = Inr (Point 313 290)"
    by (rule to_pixel_sweep_1 [OF same_view_refl])
  have h6: "f2i (fadd (i2f (pt_x (center ?node)))
          (fdiv (fmul (ranges scan_sweep ! nat 1) (sin_f32 cr_libm ?angle))
             (meter_per_pixel ?node))) = Some 313"
    using p by (simp only: r ang) (simp add: to_pixel_def Let_def split: option.splits)
  have h7: "f2i (fsub (i2f (pt_y (center ?node)))
          (fdiv (fneg (fmul (ranges scan_sweep ! nat 1) (cos_f32 cr_libm ?angle)))
             (meter_per_pixel ?node))) = Some 290"
    using p by (simp only: r ang) (simp add: to_pixel_def Let_def split: option.splits)
  have h8: "(0::int) \<le> 313" "313 < img_size ?node" "(0::int) \<le> 290" "290 < img_size ?node"
    by (simp_all add: img_size_new)
  have c: "sample_count scan_sweep = Inr 2" by (rule sample_count_sweep)
  have cb: "scanCallback cr_libm ?node scan_sweep = Inr ?node'"
    by (rule callback_sweep [OF same_view_refl])
  have f: "frame_two\<lparr>drawn := drawn frame_two @ [Circle (Point 313 290) 2 (Scalar 0 0 255) (- 1)]\<rparr>
      = frame_sweep"
    by (simp add: frame_two_def frame_sweep_def)
  have l: "last (shown ?node') = frame_sweep" by (simp add: deliver_def)
  note t = angle_never_validated [OF h1 h2 h3 h4 h5 h6 h7 h8, of frame_two "[]" "Finite False 7"]
  from t have "loop_body cr_libm ?node scan_sweep 1 (frame_two, []) =
     Inr (frame_sweep, [Debug_angle_distance (Finite False 1) (Finite False (3/2))])"
    by (simp only: f r ang append_Nil)
  moreover from t c cb have "Circle (Point 313 290) 2 (Scalar 0 0 255) (- 1) \<in>
        set (drawn (last (shown ?node'))) \<and>
      Debug_angle_distance ?angle (ranges scan_sweep ! nat 1) \<in> set (logged ?node')"
    by simp
  then have "Circle (Point 313 290) 2 (Scalar 0 0 255) (- 1) \<in> set (drawn frame_sweep) \<and>
      Debug_angle_distance (Finite False 1) (Finite False (3/2)) \<in> set (logged ?node')"
    by (simp only: l r ang)
  moreover from t have "outcome (scanCallback cr_libm ?node (scan_sweep\<lparr>angle_max := Finite False 7\<rparr>)) =
     outcome (scanCallback cr_libm ?node scan_sweep)" by blast
  ultimately show ?thesis using ang amx beyond r h6 h7 c cb l by blast
qed

end
